theory Spec2Isabelle
  imports Main "HOL-Library.Sublist"
begin

section \<open>Python strings\<close>

text \<open>
  A Python \<open>str\<close> is modelled as a \<open>string\<close> (a list of characters); every literal of
  the recipes is ASCII. \<open>line.startswith(p)\<close> is the prefix test.
\<close>

definition startswith :: "string \<Rightarrow> string \<Rightarrow> bool" where
  "startswith line p = prefix p line"

text \<open>
  \<open>s.replace(old, new)\<close>: scanning from the left, every non-overlapping occurrence of
  \<open>old\<close> is replaced by \<open>new\<close>. For the empty \<open>old\<close> Python inserts \<open>new\<close> before
  every character and at the end.
\<close>

function str_replace :: "string \<Rightarrow> string \<Rightarrow> string \<Rightarrow> string" where
  "str_replace old new s =
     (if old = [] then new @ concat (map (\<lambda>c. c # new) s)
      else if s = [] then []
      else if prefix old s then new @ str_replace old new (drop (length old) s)
      else hd s # str_replace old new (tl s))"
  by pat_completeness auto
termination
  by (relation "measure (\<lambda>(old, new, s). length s)") auto

declare str_replace.simps [simp del]

section \<open>Line rewriters of \<open>library.py\<close> and \<open>tool.py\<close>\<close>

text \<open>\<open>BrotliTarget._process_pkg_config(pcfile, line)\<close>\<close>

definition BrotliTarget_process_pkg_config :: "string \<Rightarrow> string \<Rightarrow> string" where
  "BrotliTarget_process_pkg_config pcfile line =
     (if startswith line ''Libs:'' then str_replace ''-R${libdir} '' '''' line else line)"

text \<open>\<open>Bzip2Target._process_pkg_config(pcfile, line)\<close>\<close>

definition Bzip2Target_process_pkg_config :: "string \<Rightarrow> string \<Rightarrow> string" where
  "Bzip2Target_process_pkg_config pcfile line =
     (if startswith line ''bindir='' then '''' else line)"

text \<open>\<open>TiffTarget._process_pkg_config(pcfile, line)\<close>\<close>

definition TiffTarget_process_pkg_config :: "string \<Rightarrow> string \<Rightarrow> string" where
  "TiffTarget_process_pkg_config pcfile line =
     (let version = ''Version:'';
          cflags = ''Cflags:'';
          libs = ''Libs:''
      in if startswith line version then version @ '' 4.3.0\<newline>''
         else if startswith line cflags then
           cflags @ '' -I${includedir}\<newline>Requires.private: libjpeg liblzma libwebp libzstd zlib\<newline>''
         else if startswith line libs then libs @ '' -L${libdir} -ltiff\<newline>''
         else line)"

text \<open>\<open>Bzip3Target._process_pkg_config(pcfile, line)\<close>\<close>

definition Bzip3Target_process_pkg_config :: "string \<Rightarrow> string \<Rightarrow> string" where
  "Bzip3Target_process_pkg_config pcfile line =
     (if startswith line ''bindir='' then '''' else line)"

text \<open>The two closures of \<open>WxWidgetsTarget.post_build\<close>.\<close>

definition patch_setup_h :: "string \<Rightarrow> string" where
  \<open>patch_setup_h line =
     (let prefix = ''#define wxINSTALL_PREFIX ''
      in if startswith line prefix then prefix @ ''"/usr/local"\<newline>'' else line)\<close>

definition patch_wx_config :: "string \<Rightarrow> string" where
  \<open>patch_wx_config line =
     (let prefix = ''prefix=${input_option_prefix-${this_prefix:-'';
          is_cross_func = ''is_cross() '';
          is_cross_test = ''is_cross && target='';
          output_option_cc = ''[ -z "$output_option_cc" '';
          output_option_cxx = ''[ -z "$output_option_cxx" '';
          output_option_ld = ''[ -z "$output_option_ld" '';
          ldlibs_gl = ''ldlibs_gl=''
      in if startswith line prefix then prefix @ ''$(cd "${0%/*}/.."; pwd)}}\<newline>''
         else if startswith line is_cross_func then is_cross_func @ ''{ false; }\<newline>''
         else if startswith line is_cross_test then is_cross_test @ ''""\<newline>''
         else if startswith line output_option_cc then output_option_cc @ ''] || echo "gcc"\<newline>''
         else if startswith line output_option_cxx then output_option_cxx @ ''] || echo "g++"\<newline>''
         else if startswith line output_option_ld then output_option_ld @ ''] || echo "g++ -o"\<newline>''
         else if startswith line ldlibs_gl then
           ldlibs_gl @ ''"-lwx_baseu-3.1 -lwx_osx_cocoau_core-3.1 -framework OpenGL"\<newline>''
         else line)\<close>


section \<open>Values, exceptions, the target object and the build state\<close>

text \<open>
  The values the recipes store in \<open>state.options\<close>: strings, \<open>None\<close> and paths.
\<close>

datatype pyval = PNone | PStr string | PPath string

datatype exn =
    NameError string
  | KeyError string
  | TypeError
  | CalledProcessError int "string list"
  | HostError string

datatype hookname = PrepareSource | Detect | Configure | Build | PostBuild

text \<open>The base classes of \<open>aedi.target.base\<close> that the recipes subclass.\<close>

datatype base_cls =
    CMakeStaticDependencyTarget
  | ConfigureMakeStaticDependencyTarget
  | ConfigureMakeDependencyTarget
  | CMakeTarget
  | MakeTarget
  | MesonTarget
  | SingleExeCTarget

text \<open>The classes that \<open>library.py\<close> and \<open>tool.py\<close> define, in the order of the files.\<close>

datatype cls =
    BrotliTarget | Bzip2Target | ExpatTarget | FfiTarget | FreeImageTarget | GettextTarget
  | HighwayTarget | IconvTarget | IntlTarget | JpegTurboTarget | TiffTarget | WxWidgetsTarget
  | AutoconfTarget | AutomakeTarget | Bzip3Target | FFmpegTarget | LuaTarget | M4Target
  | P7ZipTarget | PbzxTarget | Radare2Target | RizinTarget | SevenZipTarget | UnrarTarget
  | XdeltaTarget | XzTarget | ZipTarget

text \<open>
  The target object: the name handed to the base constructor and the attributes the
  recipes assign or read. \<open>target_options\<close> is the attribute \<open>self.options\<close> of the
  single-executable targets (the name \<open>options\<close> is kept for \<open>state.options\<close>).
\<close>

record target =
  name :: string
  src_root :: string
  multi_platform :: bool
  configure_prefix :: bool
  target_options :: "string list"

text \<open>
  The calls that leave the repository: methods of the host's \<open>BuildState\<close> and base
  classes, and functions of \<open>os\<close>, \<open>shutil\<close> and \<open>subprocess\<close>.
\<close>

datatype call =
    DownloadSource string string "string option"
  | BaseHook base_cls hookname
  | OsUnlink string
  | OsRename string string
  | OsMakedirs string
  | ShutilCopy string string
  | SubprocessRun "string list" string
  | MakePlatformHeader string
  | WritePcFile string string
  | UpdateTextFile string "string \<Rightarrow> string"
  | CopyToBin "string list"
  | Install

text \<open>
  What a hook can read and change: the target object \<open>self\<close>, the fields of the
  \<open>BuildState\<close> the recipes use, the paths on disk (owned by the host), and the trace
  of the external calls made so far, each with the exception it raised, if any.
  \<open>has_source_file\<close> and \<open>architecture\<close> are the answers of the state's two queries
  \<open>state.has_source_file(path)\<close> and \<open>state.architecture()\<close>.
\<close>

record world =
  self :: target
  options :: "string \<rightharpoonup> pyval"
  environment :: "string \<rightharpoonup> string"
  build_path :: string
  install_path :: string
  has_source_file :: "string \<Rightarrow> bool"
  architecture :: string
  files :: "string list"
  trace :: "(call \<times> exn option) list"

text \<open>
  The host framework and the operating system are not part of the repository; they are a
  parameter. \<open>base_init b name\<close> is the object that the constructor of base class \<open>b\<close>
  leaves; \<open>effect\<close> is the outcome of an external call (an exception or a normal return,
  and the world after it); \<open>process\<close> is the outcome of running a command (it cannot be
  started, or it exits with a status); \<open>glob_result\<close> is what \<open>glob.iglob\<close> lists;
  \<open>base_detect\<close> is the \<open>detect\<close> of a base class.
\<close>

record host =
  base_init :: "base_cls \<Rightarrow> string \<Rightarrow> target"
  effect :: "call \<Rightarrow> world \<Rightarrow> exn option \<times> world"
  process :: "string list \<Rightarrow> string \<Rightarrow> world \<Rightarrow> (exn + int) \<times> world"
  glob_result :: "string \<Rightarrow> world \<Rightarrow> string list"
  base_detect :: "base_cls \<Rightarrow> world \<Rightarrow> (exn + bool) \<times> world"

section \<open>Statements\<close>

text \<open>
  A computation takes the world and returns a value or the exception it raised, together
  with the world as it left it: what was mutated before a raise stays mutated.
\<close>

type_synonym 'a io = "world \<Rightarrow> (exn + 'a) \<times> world"

definition ret :: "'a \<Rightarrow> 'a io" where
  "ret x w = (Inr x, w)"

definition bind_io :: "'a io \<Rightarrow> ('a \<Rightarrow> 'b io) \<Rightarrow> 'b io" where
  "bind_io m f w = (case m w of (Inl e, w') \<Rightarrow> (Inl e, w') | (Inr x, w') \<Rightarrow> f x w')"

text \<open>A block of statements: the first exception ends it.\<close>

fun stmts :: "unit io list \<Rightarrow> unit io" where
  "stmts [] w = (Inr (), w)"
| "stmts (s # ss) w = (case s w of (Inl e, w') \<Rightarrow> (Inl e, w') | (Inr u, w') \<Rightarrow> stmts ss w')"

text \<open>\<open>for x in xs: body\<close>\<close>

definition for_each :: "'a list \<Rightarrow> ('a \<Rightarrow> unit io) \<Rightarrow> unit io" where
  "for_each xs body = stmts (map body xs)"

text \<open>Reading \<open>self\<close> and \<open>state\<close> at the point where a statement is executed.\<close>

definition with_state :: "(world \<Rightarrow> 'a io) \<Rightarrow> 'a io" where
  "with_state f w = f w w"

text \<open>An external call: the host decides its outcome, the trace records it.\<close>

definition outcome :: "exn + 'a \<Rightarrow> exn option" where
  "outcome r = (case r of Inl e \<Rightarrow> Some e | Inr x \<Rightarrow> None)"

definition ext :: "host \<Rightarrow> call \<Rightarrow> unit io" where
  "ext h c w =
     (case effect h c w of
        (None, w') \<Rightarrow> (Inr (), w'\<lparr>trace := trace w @ [(c, None)]\<rparr>)
      | (Some e, w') \<Rightarrow> (Inl e, w'\<lparr>trace := trace w @ [(c, Some e)]\<rparr>))"

text \<open>
  \<open>subprocess.run(args, check=check, cwd=cwd, env=state.environment)\<close>: with
  \<open>check=True\<close> a non-zero exit status is raised as \<open>CalledProcessError\<close>.
\<close>

definition subprocess_run :: "host \<Rightarrow> string list \<Rightarrow> bool \<Rightarrow> string \<Rightarrow> unit io" where
  "subprocess_run h args check cwd w =
     (case process h args cwd w of
        (Inl e, w') \<Rightarrow> (Inl e, w'\<lparr>trace := trace w @ [(SubprocessRun args cwd, Some e)]\<rparr>)
      | (Inr rc, w') \<Rightarrow>
          if check \<and> rc \<noteq> 0
          then (Inl (CalledProcessError rc args),
                w'\<lparr>trace := trace w @ [(SubprocessRun args cwd, Some (CalledProcessError rc args))]\<rparr>)
          else (Inr (), w'\<lparr>trace := trace w @ [(SubprocessRun args cwd, None)]\<rparr>))"

text \<open>The \<open>detect\<close> a class inherits from its base class.\<close>

definition inherited_detect :: "host \<Rightarrow> base_cls \<Rightarrow> bool io" where
  "inherited_detect h b w =
     (case base_detect h b w of
        (r, w') \<Rightarrow> (r, w'\<lparr>trace := trace w @ [(BaseHook b Detect, outcome r)]\<rparr>))"

text \<open>
  \<open>state.options\<close> and \<open>state.environment\<close> are dictionaries: \<open>d[k] = v\<close> stores,
  \<open>d[k]\<close> raises \<open>KeyError\<close> for an absent key, and \<open>d[k] += s\<close> reads, concatenates
  (a \<open>TypeError\<close> when the stored value is \<open>None\<close> or a path) and stores.
\<close>

definition setitem_options :: "string \<Rightarrow> pyval \<Rightarrow> unit io" where
  "setitem_options k v w = (Inr (), w\<lparr>options := (options w)(k \<mapsto> v)\<rparr>)"

definition iadd_options :: "string \<Rightarrow> string \<Rightarrow> unit io" where
  "iadd_options k s w =
     (case options w k of
        None \<Rightarrow> (Inl (KeyError k), w)
      | Some (PStr v) \<Rightarrow> (Inr (), w\<lparr>options := (options w)(k \<mapsto> PStr (v @ s))\<rparr>)
      | Some PNone \<Rightarrow> (Inl TypeError, w)
      | Some (PPath p) \<Rightarrow> (Inl TypeError, w))"

definition getitem_environment :: "string \<Rightarrow> string io" where
  "getitem_environment k w =
     (case environment w k of None \<Rightarrow> (Inl (KeyError k), w) | Some v \<Rightarrow> (Inr v, w))"

definition iadd_environment :: "string \<Rightarrow> string \<Rightarrow> unit io" where
  "iadd_environment k s w =
     (case environment w k of
        None \<Rightarrow> (Inl (KeyError k), w)
      | Some v \<Rightarrow> (Inr (), w\<lparr>environment := (environment w)(k \<mapsto> v @ s)\<rparr>))"

text \<open>
  Paths are held in their string form, as \<open>str(path)\<close> gives it. \<open>a / b\<close> of
  \<open>pathlib\<close>: the parts of a path are its components between slashes, the empty ones
  and \<open>.\<close> dropped; the anchor is \<open>/\<close> for an absolute path (\<open>//\<close> when the path
  starts with exactly two slashes); an absolute \<open>b\<close> replaces \<open>a\<close>, otherwise the
  parts of \<open>b\<close> follow those of \<open>a\<close>; a path with no anchor and no part is \<open>.\<close>.
\<close>

fun split_slash :: "string \<Rightarrow> string list" where
  "split_slash [] = [[]]"
| "split_slash (c # cs) =
     (if c = CHR ''/'' then [] # split_slash cs
      else (case split_slash cs of [] \<Rightarrow> [[c]] | p # ps \<Rightarrow> (c # p) # ps))"

definition path_parts :: "string \<Rightarrow> string list" where
  "path_parts s = filter (\<lambda>p. p \<noteq> [] \<and> p \<noteq> ''.'') (split_slash s)"

definition path_anchor :: "string \<Rightarrow> string" where
  "path_anchor s =
     (if prefix ''//'' s \<and> \<not> prefix ''///'' s then ''//''
      else if prefix ''/'' s then ''/''
      else [])"

fun join_parts :: "string list \<Rightarrow> string" where
  "join_parts [] = []"
| "join_parts [p] = p"
| "join_parts (p # q # ps) = p @ ''/'' @ join_parts (q # ps)"

definition format_path :: "string \<Rightarrow> string list \<Rightarrow> string" where
  "format_path anchor parts = (if anchor = [] \<and> parts = [] then ''.'' else anchor @ join_parts parts)"

definition joinpath :: "string \<Rightarrow> string \<Rightarrow> string" where
  "joinpath a b =
     (if prefix ''/'' b then format_path (path_anchor b) (path_parts b)
      else format_path (path_anchor a) (path_parts a @ path_parts b))"


text \<open>Assignments to \<open>self.src_root\<close> and to \<open>state.build_path\<close>.\<close>

definition set_src_root :: "string \<Rightarrow> unit io" where
  "set_src_root v w = (Inr (), w\<lparr>self := (self w)\<lparr>src_root := v\<rparr>\<rparr>)"

definition set_build_path :: "string \<Rightarrow> unit io" where
  "set_build_path v w = (Inr (), w\<lparr>build_path := v\<rparr>)"

section \<open>Calls of the line rewriters\<close>

text \<open>
  A call of a line rewriter as a computation in the world, so that what the call reads
  and changes can be stated: each \<open>return\<close> of the source is a \<open>ret\<close>, and the body
  has the world at hand like every other computation.
\<close>

definition BrotliTarget_process_pkg_config_call :: "string \<Rightarrow> string \<Rightarrow> string io" where
  "BrotliTarget_process_pkg_config_call pcfile line =
     (if startswith line ''Libs:'' then ret (str_replace ''-R${libdir} '' '''' line) else ret line)"

definition Bzip2Target_process_pkg_config_call :: "string \<Rightarrow> string \<Rightarrow> string io" where
  "Bzip2Target_process_pkg_config_call pcfile line =
     (if startswith line ''bindir='' then ret '''' else ret line)"

definition TiffTarget_process_pkg_config_call :: "string \<Rightarrow> string \<Rightarrow> string io" where
  "TiffTarget_process_pkg_config_call pcfile line =
     (let version = ''Version:'';
          cflags = ''Cflags:'';
          libs = ''Libs:''
      in if startswith line version then ret (version @ '' 4.3.0\<newline>'')
         else if startswith line cflags then
           ret (cflags @ '' -I${includedir}\<newline>Requires.private: libjpeg liblzma libwebp libzstd zlib\<newline>'')
         else if startswith line libs then ret (libs @ '' -L${libdir} -ltiff\<newline>'')
         else ret line)"

definition Bzip3Target_process_pkg_config_call :: "string \<Rightarrow> string \<Rightarrow> string io" where
  "Bzip3Target_process_pkg_config_call pcfile line =
     (if startswith line ''bindir='' then ret '''' else ret line)"

definition patch_setup_h_call :: "string \<Rightarrow> string io" where
  \<open>patch_setup_h_call line =
     (let prefix = ''#define wxINSTALL_PREFIX ''
      in if startswith line prefix then ret (prefix @ ''"/usr/local"\<newline>'') else ret line)\<close>

definition patch_wx_config_call :: "string \<Rightarrow> string io" where
  \<open>patch_wx_config_call line =
     (let prefix = ''prefix=${input_option_prefix-${this_prefix:-'';
          is_cross_func = ''is_cross() '';
          is_cross_test = ''is_cross && target='';
          output_option_cc = ''[ -z "$output_option_cc" '';
          output_option_cxx = ''[ -z "$output_option_cxx" '';
          output_option_ld = ''[ -z "$output_option_ld" '';
          ldlibs_gl = ''ldlibs_gl=''
      in if startswith line prefix then ret (prefix @ ''$(cd "${0%/*}/.."; pwd)}}\<newline>'')
         else if startswith line is_cross_func then ret (is_cross_func @ ''{ false; }\<newline>'')
         else if startswith line is_cross_test then ret (is_cross_test @ ''""\<newline>'')
         else if startswith line output_option_cc then
           ret (output_option_cc @ ''] || echo "gcc"\<newline>'')
         else if startswith line output_option_cxx then
           ret (output_option_cxx @ ''] || echo "g++"\<newline>'')
         else if startswith line output_option_ld then
           ret (output_option_ld @ ''] || echo "g++ -o"\<newline>'')
         else if startswith line ldlibs_gl then
           ret (ldlibs_gl @ ''"-lwx_baseu-3.1 -lwx_osx_cocoau_core-3.1 -framework OpenGL"\<newline>'')
         else ret line)\<close>

section \<open>The hooks of \<open>library.py\<close>\<close>

subsection \<open>BrotliTarget\<close>

definition BrotliTarget_prepare_source :: "host \<Rightarrow> unit io" where
  "BrotliTarget_prepare_source h =
     ext h (DownloadSource
       ''https://github.com/google/brotli/archive/refs/tags/v1.0.9.tar.gz''
       ''f9e8d81d0405ba66d181529af42a3354f838c939095ff99930da6aa9cdf6fe46''
       None)"

text \<open>The new name that \<open>post_build\<close> gives to a matched archive.\<close>

definition archive_suffix :: string where
  "archive_suffix = ''-static.a''"

definition no_suffix_name :: "string \<Rightarrow> string" where
  "no_suffix_name archive = str_replace archive_suffix ''.a'' archive"

definition BrotliTarget_post_build :: "host \<Rightarrow> unit io" where
  "BrotliTarget_post_build h = stmts [
     ext h (BaseHook CMakeStaticDependencyTarget PostBuild),
     with_state (\<lambda>state.
       let dylib_pattern = joinpath (install_path state) ''lib/*.dylib''
       in for_each (glob_result h dylib_pattern state) (\<lambda>dylib. ext h (OsUnlink dylib))),
     with_state (\<lambda>state.
       let archive_pattern = joinpath (install_path state) (''lib/*'' @ archive_suffix)
       in for_each (glob_result h archive_pattern state)
            (\<lambda>archive. ext h (OsRename archive (no_suffix_name archive))))]"

subsection \<open>Bzip2Target\<close>

definition Bzip2Target_prepare_source :: "host \<Rightarrow> unit io" where
  "Bzip2Target_prepare_source h =
     ext h (DownloadSource
       ''https://sourceware.org/pub/bzip2/bzip2-1.0.8.tar.gz''
       ''ab5a03176ee106d3f0fa90e381da478ddae405918153cca248e682cd0c4a2269''
       (Some ''bzip2-add-cmake''))"

definition Bzip2Target_detect :: "host \<Rightarrow> bool io" where
  "Bzip2Target_detect h = with_state (\<lambda>state. ret (has_source_file state ''bzlib.h''))"

definition Bzip2Target_configure :: "host \<Rightarrow> unit io" where
  "Bzip2Target_configure h = stmts [
     setitem_options ''ENABLE_APP'' (PStr ''NO''),
     setitem_options ''ENABLE_SHARED_LIB'' (PStr ''NO''),
     setitem_options ''ENABLE_STATIC_LIB'' (PStr ''YES''),
     setitem_options ''ENABLE_TESTS'' (PStr ''NO''),
     ext h (BaseHook CMakeStaticDependencyTarget Configure)]"

definition Bzip2Target_post_build :: "host \<Rightarrow> unit io" where
  "Bzip2Target_post_build h = stmts [
     ext h (BaseHook CMakeStaticDependencyTarget PostBuild),
     with_state (\<lambda>state.
       let lib_path = joinpath (install_path state) ''lib''
       in ext h (OsRename (joinpath lib_path ''libbz2_static.a'') (joinpath lib_path ''libbz2.a'')))]"

subsection \<open>ExpatTarget\<close>

definition ExpatTarget_prepare_source :: "host \<Rightarrow> unit io" where
  "ExpatTarget_prepare_source h =
     ext h (DownloadSource
       ''https://github.com/libexpat/libexpat/releases/download/R_2_4_1/expat-2.4.1.tar.xz''
       ''cf032d0dba9b928636548e32b327a2d66b1aab63c4f4a13dd132c2d1d2f2fb6a''
       None)"

definition ExpatTarget_configure :: "host \<Rightarrow> unit io" where
  "ExpatTarget_configure h = stmts [
     setitem_options ''EXPAT_BUILD_EXAMPLES'' (PStr ''NO''),
     setitem_options ''EXPAT_BUILD_TESTS'' (PStr ''NO''),
     setitem_options ''EXPAT_BUILD_TOOLS'' (PStr ''NO''),
     ext h (BaseHook CMakeStaticDependencyTarget Configure)]"

subsection \<open>FfiTarget\<close>

definition FfiTarget_prepare_source :: "host \<Rightarrow> unit io" where
  "FfiTarget_prepare_source h =
     ext h (DownloadSource
       ''https://github.com/libffi/libffi/releases/download/v3.4.6/libffi-3.4.6.tar.gz''
       ''b0dea9df23c863a7a50e825440f3ebffabd65df1497108e5d437747843895a4e''
       None)"

definition FfiTarget_detect :: "host \<Rightarrow> bool io" where
  "FfiTarget_detect h = with_state (\<lambda>state. ret (has_source_file state ''libffi.pc.in''))"

definition FfiTarget_post_build :: "host \<Rightarrow> unit io" where
  "FfiTarget_post_build h = stmts [
     ext h (BaseHook ConfigureMakeStaticDependencyTarget PostBuild),
     for_each [''ffi.h'', ''ffitarget.h''] (\<lambda>header. ext h (MakePlatformHeader header))]"

subsection \<open>FreeImageTarget\<close>

definition FreeImageTarget_prepare_source :: "host \<Rightarrow> unit io" where
  "FreeImageTarget_prepare_source h =
     ext h (DownloadSource
       ''https://downloads.sourceforge.net/project/freeimage/Source%20Distribution/3.18.0/FreeImage3180.zip''
       ''f41379682f9ada94ea7b34fe86bf9ee00935a3147be41b6569c9605a53e438fd''
       (Some ''freeimage-fix-arm64''))"

definition FreeImageTarget_HEADER_FILE :: string where
  "FreeImageTarget_HEADER_FILE = ''Source/FreeImage.h''"

definition FreeImageTarget_detect :: "host \<Rightarrow> bool io" where
  "FreeImageTarget_detect h =
     with_state (\<lambda>state. ret (has_source_file state FreeImageTarget_HEADER_FILE))"

definition FreeImageTarget_configure :: "host \<Rightarrow> unit io" where
  "FreeImageTarget_configure h =
     (let common_flags = '' -O3 -fPIC -fexceptions -fvisibility=hidden''
      in stmts [
        ext h (BaseHook MakeTarget Configure),
        iadd_environment ''CFLAGS'' (common_flags @ '' -std=gnu89 -Wno-implicit-function-declaration''),
        iadd_environment ''CXXFLAGS'' (common_flags @ '' -Wno-ctor-dtor-privacy''),
        for_each [''-f'', ''Makefile.gnu'', ''libfreeimage.a'']
          (\<lambda>option. setitem_options option PNone)])"

definition FreeImageTarget_post_build :: "host \<Rightarrow> unit io" where
  "FreeImageTarget_post_build h =
     with_state (\<lambda>state.
       let include_path = joinpath (install_path state) ''include''
       in stmts [
         ext h (OsMakedirs include_path),
         with_state (\<lambda>state.
           ext h (ShutilCopy (joinpath (build_path state) FreeImageTarget_HEADER_FILE) include_path)),
         with_state (\<lambda>state.
           let lib_path = joinpath (install_path state) ''lib''
           in stmts [
             ext h (OsMakedirs lib_path),
             with_state (\<lambda>state.
               ext h (ShutilCopy (joinpath (build_path state) ''libfreeimage.a'') lib_path))]),
         ext h (WritePcFile ''3.18.0'' ''-lfreeimage -lc++'')])"

subsection \<open>GettextTarget\<close>

definition GettextTarget_prepare_source :: "host \<Rightarrow> unit io" where
  "GettextTarget_prepare_source h =
     ext h (DownloadSource
       ''https://ftp.gnu.org/gnu/gettext/gettext-0.21.tar.xz''
       ''d20fcbb537e02dcf1383197ba05bd0734ef7bf5db06bdb241eb69b7d16b73192''
       None)"

definition GettextTarget_detect :: "host \<Rightarrow> bool io" where
  "GettextTarget_detect h = with_state (\<lambda>state. ret (has_source_file state ''gettext-runtime''))"

definition GettextTarget_configure :: "host \<Rightarrow> unit io" where
  "GettextTarget_configure h = stmts [
     setitem_options ''--enable-csharp'' (PStr ''no''),
     setitem_options ''--enable-java'' (PStr ''no''),
     setitem_options ''--enable-libasprintf'' (PStr ''no''),
     ext h (BaseHook ConfigureMakeStaticDependencyTarget Configure)]"

subsection \<open>HighwayTarget\<close>

definition HighwayTarget_prepare_source :: "host \<Rightarrow> unit io" where
  "HighwayTarget_prepare_source h =
     ext h (DownloadSource
       ''https://github.com/google/highway/archive/refs/tags/1.0.6.tar.gz''
       ''d89664a045a41d822146e787bceeefbf648cc228ce354f347b18f2b419e57207''
       None)"

definition HighwayTarget_configure :: "host \<Rightarrow> unit io" where
  "HighwayTarget_configure h = stmts [
     setitem_options ''HWY_ENABLE_CONTRIB'' (PStr ''NO''),
     setitem_options ''HWY_ENABLE_EXAMPLES'' (PStr ''NO''),
     setitem_options ''HWY_ENABLE_TESTS'' (PStr ''NO''),
     ext h (BaseHook CMakeStaticDependencyTarget Configure)]"

subsection \<open>IconvTarget\<close>

definition IconvTarget_prepare_source :: "host \<Rightarrow> unit io" where
  "IconvTarget_prepare_source h =
     ext h (DownloadSource
       ''https://ftp.gnu.org/gnu/libiconv/libiconv-1.17.tar.gz''
       ''8f74213b56238c85a50a5329f77e06198771e70dd9a739779f4c02f65d971313''
       None)"

definition IconvTarget_detect :: "host \<Rightarrow> bool io" where
  "IconvTarget_detect h = with_state (\<lambda>state. ret (has_source_file state ''include/iconv.h.in''))"

definition IconvTarget_configure :: "host \<Rightarrow> unit io" where
  "IconvTarget_configure h = stmts [
     setitem_options ''--enable-extra-encodings'' (PStr ''yes''),
     ext h (BaseHook ConfigureMakeStaticDependencyTarget Configure)]"

subsection \<open>IntlTarget, a subclass of GettextTarget\<close>

definition IntlTarget_configure :: "host \<Rightarrow> unit io" where
  "IntlTarget_configure h = stmts [
     setitem_options ''--localedir'' (PStr ''/usr/local/share/locale''),
     set_src_root ''gettext-runtime'',
     GettextTarget_configure h]"

definition IntlTarget_build :: "host \<Rightarrow> unit io" where
  "IntlTarget_build h = stmts [
     with_state (\<lambda>state. set_src_root (src_root (self state) @ ''/intl'')),
     ext h (BaseHook ConfigureMakeStaticDependencyTarget Build)]"

definition IntlTarget_post_build :: "host \<Rightarrow> unit io" where
  "IntlTarget_post_build h = stmts [
     setitem_options ''install-exec-am'' PNone,
     setitem_options ''install-nodist_includeHEADERS'' PNone,
     with_state (\<lambda>state. set_build_path (joinpath (build_path state) (src_root (self state)))),
     ext h Install]"

subsection \<open>JpegTurboTarget\<close>

definition JpegTurboTarget_prepare_source :: "host \<Rightarrow> unit io" where
  "JpegTurboTarget_prepare_source h =
     ext h (DownloadSource
       ''https://github.com/libjpeg-turbo/libjpeg-turbo/releases/download/3.1.0/libjpeg-turbo-3.1.0.tar.gz''
       ''9564c72b1dfd1d6fe6274c5f95a8d989b59854575d4bbee44ade7bc17aa9bc93''
       None)"

definition JpegTurboTarget_configure :: "host \<Rightarrow> unit io" where
  "JpegTurboTarget_configure h = stmts [
     setitem_options ''ENABLE_SHARED'' (PStr ''NO''),
     ext h (BaseHook CMakeStaticDependencyTarget Configure)]"

subsection \<open>TiffTarget\<close>

definition TiffTarget_prepare_source :: "host \<Rightarrow> unit io" where
  "TiffTarget_prepare_source h =
     ext h (DownloadSource
       ''https://download.osgeo.org/libtiff/tiff-4.3.0.tar.gz''
       ''0e46e5acb087ce7d1ac53cf4f56a09b221537fc86dfc5daaad1c2e89e1b37ac8''
       (Some ''tiff-remove-useless''))"

definition TiffTarget_configure :: "host \<Rightarrow> unit io" where
  "TiffTarget_configure h = stmts [
     setitem_options ''cxx'' (PStr ''NO''),
     setitem_options ''lzma'' (PStr ''YES''),
     ext h (BaseHook CMakeStaticDependencyTarget Configure)]"

subsection \<open>WxWidgetsTarget\<close>

definition WxWidgetsTarget_prepare_source :: "host \<Rightarrow> unit io" where
  "WxWidgetsTarget_prepare_source h =
     ext h (DownloadSource
       ''https://github.com/wxWidgets/wxWidgets/releases/download/v3.1.5/wxWidgets-3.1.5.tar.bz2''
       ''d7b3666de33aa5c10ea41bb9405c40326e1aeb74ee725bb88f90f1d50270a224''
       (Some ''wxwidgets-library-suffix''))"

definition WxWidgetsTarget_configure :: "host \<Rightarrow> unit io" where
  "WxWidgetsTarget_configure h = stmts [
     setitem_options ''wxBUILD_SHARED'' (PStr ''NO''),
     setitem_options ''wxUSE_LIBLZMA'' (PStr ''YES''),
     setitem_options ''wxUSE_LIBSDL'' (PStr ''NO''),
     setitem_options ''wxUSE_LIBJPEG'' (PStr ''sys''),
     setitem_options ''wxUSE_LIBPNG'' (PStr ''sys''),
     setitem_options ''wxUSE_LIBTIFF'' (PStr ''sys''),
     ext h (BaseHook CMakeStaticDependencyTarget Configure)]"

definition WxWidgetsTarget_post_build :: "host \<Rightarrow> unit io" where
  "WxWidgetsTarget_post_build h = stmts [
     ext h (BaseHook CMakeStaticDependencyTarget PostBuild),
     with_state (\<lambda>state.
       let setup_h_path =
             joinpath (install_path state) ''lib/wx/include/osx_cocoa-unicode-static-3.1/wx/setup.h''
       in ext h (UpdateTextFile setup_h_path patch_setup_h)),
     with_state (\<lambda>state.
       let wx_config_path = joinpath (install_path state) ''bin/wx-config''
       in ext h (UpdateTextFile wx_config_path patch_wx_config))]"


section \<open>The hooks of \<open>tool.py\<close>\<close>

subsection \<open>AutoconfTarget, AutomakeTarget\<close>

definition AutoconfTarget_prepare_source :: "host \<Rightarrow> unit io" where
  "AutoconfTarget_prepare_source h =
     ext h (DownloadSource
       ''https://ftp.gnu.org/gnu/autoconf/autoconf-2.72.tar.xz''
       ''ba885c1319578d6c94d46e9b0dceb4014caafe2490e437a0dbca3f270a223f5a''
       None)"

definition AutomakeTarget_prepare_source :: "host \<Rightarrow> unit io" where
  "AutomakeTarget_prepare_source h =
     ext h (DownloadSource
       ''https://ftp.gnu.org/gnu/automake/automake-1.16.5.tar.xz''
       ''f01d58cd6d9d77fbdca9eb4bbd5ead1988228fdb73d6f7a201f5f8d6b118b469''
       None)"

subsection \<open>Bzip3Target\<close>

definition Bzip3Target_prepare_source :: "host \<Rightarrow> unit io" where
  "Bzip3Target_prepare_source h =
     ext h (DownloadSource
       ''https://github.com/kspalaiologos/bzip3/releases/download/1.5.1/bzip3-1.5.1.tar.xz''
       ''53b844f9d9fb1d75faa4d3a9d9026017caaf50bb200b320d1685c6506b8f3b37''
       None)"

definition Bzip3Target_configure :: "host \<Rightarrow> unit io" where
  "Bzip3Target_configure h = stmts [
     setitem_options ''CMAKE_SKIP_INSTALL_RPATH'' (PStr ''YES''),
     ext h (BaseHook CMakeStaticDependencyTarget Configure)]"

subsection \<open>FFmpegTarget\<close>

definition FFmpegTarget_prepare_source :: "host \<Rightarrow> unit io" where
  "FFmpegTarget_prepare_source h =
     ext h (DownloadSource
       ''https://ffmpeg.org/releases/ffmpeg-7.1.tar.xz''
       ''40973d44970dbc83ef302b0609f2e74982be2d85916dd2ee7472d30678a7abe6''
       None)"

definition FFmpegTarget_detect :: "host \<Rightarrow> bool io" where
  "FFmpegTarget_detect h = with_state (\<lambda>state. ret (has_source_file state ''doc/ffmpeg.txt''))"

definition FFmpegTarget_configure :: "host \<Rightarrow> unit io" where
  "FFmpegTarget_configure h = stmts [
     with_state (\<lambda>state. setitem_options ''--arch'' (PStr (architecture state))),
     ext h (BaseHook ConfigureMakeDependencyTarget Configure)]"

subsection \<open>LuaTarget\<close>

definition LuaTarget_prepare_source :: "host \<Rightarrow> unit io" where
  "LuaTarget_prepare_source h =
     ext h (DownloadSource
       ''https://www.lua.org/ftp/lua-5.4.8.tar.gz''
       ''4f18ddae154e793e46eeab727c59ef1c0c0c2b744e7b94219710d76f530629ae''
       None)"

definition LuaTarget_detect :: "host \<Rightarrow> bool io" where
  "LuaTarget_detect h = with_state (\<lambda>state. ret (has_source_file state ''src/lua.h''))"

definition LuaTarget_post_build :: "host \<Rightarrow> unit io" where
  "LuaTarget_post_build h = stmts [
     setitem_options ''install'' PNone,
     with_state (\<lambda>state. setitem_options ''INSTALL_TOP'' (PPath (install_path state))),
     ext h Install]"

subsection \<open>M4Target\<close>

definition M4Target_prepare_source :: "host \<Rightarrow> unit io" where
  "M4Target_prepare_source h =
     ext h (DownloadSource
       ''https://ftp.gnu.org/gnu/m4/m4-1.4.19.tar.xz''
       ''63aede5c6d33b6d9b13511cd0be2cac046f2e70fd0a07aa9573a04a82783af96''
       None)"

subsection \<open>P7ZipTarget\<close>

definition P7ZipTarget_prepare_source :: "host \<Rightarrow> unit io" where
  "P7ZipTarget_prepare_source h =
     ext h (DownloadSource
       ''https://github.com/p7zip-project/p7zip/archive/refs/tags/v17.04.tar.gz''
       ''ea029a2e21d2d6ad0a156f6679bd66836204aa78148a4c5e498fe682e77127ef''
       None)"

text \<open>\<open>a and b\<close>: \<open>b\<close> is evaluated only when \<open>a\<close> is true, and is then the value.\<close>

definition and_io :: "bool io \<Rightarrow> bool io \<Rightarrow> bool io" where
  "and_io a b = bind_io a (\<lambda>x. if x then b else ret x)"

definition P7ZipTarget_detect :: "host \<Rightarrow> bool io" where
  "P7ZipTarget_detect h =
     and_io (with_state (\<lambda>state. ret (has_source_file state ''CPP/7zip/CMAKE/CMakeLists.txt'')))
            (with_state (\<lambda>state. ret (has_source_file state ''C/fast-lzma2/fast-lzma2.h'')))"

definition P7ZipTarget_post_build :: "host \<Rightarrow> unit io" where
  "P7ZipTarget_post_build h = ext h (CopyToBin [''7za''])"

subsection \<open>PbzxTarget\<close>

text \<open>The patch name is the third positional argument of \<open>download_source\<close>.\<close>

definition PbzxTarget_prepare_source :: "host \<Rightarrow> unit io" where
  "PbzxTarget_prepare_source h =
     ext h (DownloadSource
       ''https://github.com/nrosenstein-stuff/pbzx/archive/refs/tags/v1.0.2.tar.gz''
       ''33db3cf9dc70ae704e1bbfba52c984f4c6dbfd0cc4449fa16408910e22b4fd90''
       (Some ''pbzx-xar-content''))"

definition PbzxTarget_detect :: "host \<Rightarrow> bool io" where
  "PbzxTarget_detect h = with_state (\<lambda>state. ret (has_source_file state ''pbzx.c''))"

subsection \<open>Radare2Target\<close>

definition Radare2Target_prepare_source :: "host \<Rightarrow> unit io" where
  "Radare2Target_prepare_source h =
     ext h (DownloadSource
       ''https://github.com/radareorg/radare2/releases/download/5.9.8/radare2-5.9.8.tar.xz''
       ''de061db6089cc1321ba9062b8aa9a0adaaa7a4d25128aab37a2a44e71a939829''
       None)"

definition Radare2Target_detect :: "host \<Rightarrow> bool io" where
  "Radare2Target_detect h = with_state (\<lambda>state. ret (has_source_file state ''man/radare2.1''))"

definition Radare2Target_configure :: "host \<Rightarrow> unit io" where
  "Radare2Target_configure h = stmts [
     setitem_options ''blob'' (PStr ''true''),
     setitem_options ''enable_tests'' (PStr ''false''),
     setitem_options ''enable_r2r'' (PStr ''false''),
     setitem_options ''local'' (PStr ''true''),
     setitem_options ''r2_gittip'' (PStr ''ea7f0356519884715cf1d5fba16042bac72b2df5''),
     setitem_options ''r2_version_commit'' (PStr ''1''),
     setitem_options ''static_runtime'' (PStr ''true''),
     ext h (BaseHook MesonTarget Configure)]"

definition Radare2Target_post_build :: "host \<Rightarrow> unit io" where
  "Radare2Target_post_build h = stmts [
     ext h (BaseHook MesonTarget PostBuild),
     with_state (\<lambda>state.
       let bin_path = joinpath (install_path state) ''bin''
       in stmts [
         ext h (OsUnlink (joinpath bin_path ''r2blob.static'')),
         ext h (OsRename (joinpath bin_path ''r2blob'') (joinpath bin_path ''radare2''))])]"

subsection \<open>RizinTarget\<close>

definition RizinTarget_prepare_source :: "host \<Rightarrow> unit io" where
  "RizinTarget_prepare_source h =
     ext h (DownloadSource
       ''https://github.com/rizinorg/rizin/releases/download/v0.8.1/rizin-src-v0.8.1.tar.xz''
       ''ef2b1e6525d7dc36ac43525b956749c1cca07bf17c1fed8b66402d82010a4ec2''
       None)"

definition RizinTarget_detect :: "host \<Rightarrow> bool io" where
  "RizinTarget_detect h = with_state (\<lambda>state. ret (has_source_file state ''binrz/man/rizin.1''))"

definition RizinTarget_configure :: "host \<Rightarrow> unit io" where
  "RizinTarget_configure h = stmts [
     setitem_options ''blob'' (PStr ''true''),
     setitem_options ''enable_tests'' (PStr ''false''),
     setitem_options ''enable_rz_test'' (PStr ''false''),
     setitem_options ''local'' (PStr ''enabled''),
     setitem_options ''portable'' (PStr ''true''),
     ext h (BaseHook MesonTarget Configure)]"

subsection \<open>SevenZipTarget\<close>

definition SevenZipTarget_prepare_source :: "host \<Rightarrow> unit io" where
  "SevenZipTarget_prepare_source h =
     ext h (DownloadSource
       ''https://7-zip.org/a/7z2409-src.tar.xz''
       ''49c05169f49572c1128453579af1632a952409ced028259381dac30726b6133a''
       None)"

definition SevenZipTarget_detect :: "host \<Rightarrow> bool io" where
  "SevenZipTarget_detect h = with_state (\<lambda>state. ret (has_source_file state ''CPP/7zip/cmpl_mac_arm64.mak''))"

definition SevenZipTarget_arch_suffix :: "world \<Rightarrow> string" where
  "SevenZipTarget_arch_suffix state =
     (let arch = architecture state in if arch = ''x86_64'' then ''x64'' else arch)"

definition SevenZipTarget_build :: "host \<Rightarrow> unit io" where
  "SevenZipTarget_build h =
     with_state (\<lambda>state.
       let mak_suffix = SevenZipTarget_arch_suffix state
       in stmts [
         setitem_options ''-f'' PNone,
         setitem_options (''../../cmpl_mac_'' @ mak_suffix @ ''.mak'') PNone,
         bind_io (getitem_environment ''CFLAGS'')
           (\<lambda>v. setitem_options ''CFLAGS_BASE_LIST'' (PStr (v @ '' -Wno-switch-default -c''))),
         bind_io (getitem_environment ''LDFLAGS'')
           (\<lambda>v. setitem_options ''LDFLAGS_STATIC_2'' (PStr v)),
         ext h (BaseHook MakeTarget Build)])"

definition SevenZipTarget_post_build :: "host \<Rightarrow> unit io" where
  "SevenZipTarget_post_build h =
     with_state (\<lambda>state.
       let build_suffix = SevenZipTarget_arch_suffix state
       in ext h (CopyToBin [src_root (self state) @ ''/b/m_'' @ build_suffix @ ''/7zz'', ''7zz'']))"

subsection \<open>UnrarTarget\<close>

definition UnrarTarget_prepare_source :: "host \<Rightarrow> unit io" where
  "UnrarTarget_prepare_source h =
     ext h (DownloadSource
       ''https://www.rarlab.com/rar/unrarsrc-6.2.12.tar.gz''
       ''a008b5f949bca9bb4ffa1bebbfc8b3c14b89df10a10354809b845232d5f582e5''
       None)"

definition UnrarTarget_configure :: "host \<Rightarrow> unit io" where
  "UnrarTarget_configure h = stmts [
     setitem_options ''CXXFLAGS''
       (PStr ''-std=c++11 -O2 -Wno-logical-op-parentheses -Wno-switch -Wno-dangling-else''),
     ext h (BaseHook MakeTarget Configure)]"

definition UnrarTarget_post_build :: "host \<Rightarrow> unit io" where
  "UnrarTarget_post_build h = ext h (CopyToBin [])"

definition UnrarTarget_detect :: "host \<Rightarrow> bool io" where
  "UnrarTarget_detect h = with_state (\<lambda>state. ret (has_source_file state ''rar.hpp''))"

subsection \<open>XdeltaTarget\<close>

definition XdeltaTarget_prepare_source :: "host \<Rightarrow> unit io" where
  "XdeltaTarget_prepare_source h =
     ext h (DownloadSource
       ''https://github.com/jmacd/xdelta/archive/refs/tags/v3.1.0.tar.gz''
       ''7515cf5378fca287a57f4e2fee1094aabc79569cfe60d91e06021a8fd7bae29d''
       None)"

definition XdeltaTarget_detect :: "host \<Rightarrow> bool io" where
  "XdeltaTarget_detect h = with_state (\<lambda>state. ret (has_source_file state ''xdelta3/xdelta3.h''))"

definition XdeltaTarget_configure :: "host \<Rightarrow> unit io" where
  "XdeltaTarget_configure h = stmts [
     ext h (BaseHook MakeTarget Configure),
     with_state (\<lambda>state.
       let work_path = joinpath (build_path state) (src_root (self state))
       in subprocess_run h [''autoreconf'', ''--install''] True work_path),
     ext h (BaseHook ConfigureMakeDependencyTarget Configure)]"

subsection \<open>XzTarget\<close>

definition XzTarget_prepare_source :: "host \<Rightarrow> unit io" where
  "XzTarget_prepare_source h =
     ext h (DownloadSource
       ''https://github.com/tukaani-project/xz/releases/download/v5.6.3/xz-5.6.3.tar.xz''
       ''db0590629b6f0fa36e74aea5f9731dc6f8df068ce7b7bafa45301832a5eebc3a''
       None)"

definition XzTarget_configure :: "host \<Rightarrow> unit io" where
  "XzTarget_configure h = stmts [
     iadd_options ''BUILD_TESTING'' ''NO'',
     iadd_options ''CMAKE_EXE_LINKER_FLAGS'' ''-framework CoreFoundation -liconv'',
     ext h (BaseHook CMakeStaticDependencyTarget Configure)]"

subsection \<open>ZipTarget\<close>

definition ZipTarget_prepare_source :: "host \<Rightarrow> unit io" where
  "ZipTarget_prepare_source h =
     ext h (DownloadSource
       ''https://downloads.sourceforge.net/project/infozip/Zip%203.x%20%28latest%29/3.0/zip30.tar.gz''
       ''f0e8bb1f9b7eb0b01285495a2699df3a4b766784c1765a8f1aeedf63c0806369''
       (Some ''zip-fix-misc''))"

definition ZipTarget_detect :: "host \<Rightarrow> bool io" where
  "ZipTarget_detect h = with_state (\<lambda>state. ret (has_source_file state ''zip.h''))"


section \<open>Classes, constructors and method resolution\<close>

text \<open>
  The class a recipe class is derived from: a base class of the host, or, for
  \<open>IntlTarget\<close>, the class \<open>GettextTarget\<close> of this repository.
\<close>

datatype pyclass = Repo cls | Base base_cls

fun base_of :: "cls \<Rightarrow> pyclass" where
  "base_of BrotliTarget = Base CMakeStaticDependencyTarget"
| "base_of Bzip2Target = Base CMakeStaticDependencyTarget"
| "base_of ExpatTarget = Base CMakeStaticDependencyTarget"
| "base_of FfiTarget = Base ConfigureMakeStaticDependencyTarget"
| "base_of FreeImageTarget = Base MakeTarget"
| "base_of GettextTarget = Base ConfigureMakeStaticDependencyTarget"
| "base_of HighwayTarget = Base CMakeStaticDependencyTarget"
| "base_of IconvTarget = Base ConfigureMakeStaticDependencyTarget"
| "base_of IntlTarget = Repo GettextTarget"
| "base_of JpegTurboTarget = Base CMakeStaticDependencyTarget"
| "base_of TiffTarget = Base CMakeStaticDependencyTarget"
| "base_of WxWidgetsTarget = Base CMakeStaticDependencyTarget"
| "base_of AutoconfTarget = Base ConfigureMakeDependencyTarget"
| "base_of AutomakeTarget = Base ConfigureMakeDependencyTarget"
| "base_of Bzip3Target = Base CMakeStaticDependencyTarget"
| "base_of FFmpegTarget = Base ConfigureMakeDependencyTarget"
| "base_of LuaTarget = Base MakeTarget"
| "base_of M4Target = Base ConfigureMakeDependencyTarget"
| "base_of P7ZipTarget = Base CMakeTarget"
| "base_of PbzxTarget = Base SingleExeCTarget"
| "base_of Radare2Target = Base MesonTarget"
| "base_of RizinTarget = Base MesonTarget"
| "base_of SevenZipTarget = Base MakeTarget"
| "base_of UnrarTarget = Base MakeTarget"
| "base_of XdeltaTarget = Base ConfigureMakeDependencyTarget"
| "base_of XzTarget = Base CMakeStaticDependencyTarget"
| "base_of ZipTarget = Base SingleExeCTarget"

text \<open>
  \<open>__init__(self, name)\<close> of each class (the argument is written \<open>n\<close>) and the
  default value of \<open>name\<close>. \<open>IntlTarget.__init__\<close> calls \<open>GettextTarget.__init__\<close>.
\<close>

definition GettextTarget_init :: "host \<Rightarrow> string \<Rightarrow> target" where
  "GettextTarget_init h n = base_init h ConfigureMakeStaticDependencyTarget n"

fun init :: "host \<Rightarrow> cls \<Rightarrow> string \<Rightarrow> target" where
  "init h BrotliTarget n = base_init h CMakeStaticDependencyTarget n"
| "init h Bzip2Target n = base_init h CMakeStaticDependencyTarget n"
| "init h ExpatTarget n = base_init h CMakeStaticDependencyTarget n"
| "init h FfiTarget n = base_init h ConfigureMakeStaticDependencyTarget n"
| "init h FreeImageTarget n = base_init h MakeTarget n"
| "init h GettextTarget n = GettextTarget_init h n"
| "init h HighwayTarget n = base_init h CMakeStaticDependencyTarget n"
| "init h IconvTarget n = base_init h ConfigureMakeStaticDependencyTarget n"
| "init h IntlTarget n = GettextTarget_init h n"
| "init h JpegTurboTarget n = base_init h CMakeStaticDependencyTarget n"
| "init h TiffTarget n = base_init h CMakeStaticDependencyTarget n"
| "init h WxWidgetsTarget n = base_init h CMakeStaticDependencyTarget n"
| "init h AutoconfTarget n =
     (base_init h ConfigureMakeDependencyTarget n)\<lparr>multi_platform := False\<rparr>"
| "init h AutomakeTarget n =
     (base_init h ConfigureMakeDependencyTarget n)\<lparr>multi_platform := False\<rparr>"
| "init h Bzip3Target n = base_init h CMakeStaticDependencyTarget n"
| "init h FFmpegTarget n = base_init h ConfigureMakeDependencyTarget n"
| "init h LuaTarget n = base_init h MakeTarget n"
| "init h M4Target n = base_init h ConfigureMakeDependencyTarget n"
| "init h P7ZipTarget n =
     (base_init h CMakeTarget n)\<lparr>src_root := ''CPP/7zip/CMAKE/7za''\<rparr>"
| "init h PbzxTarget n =
     (base_init h SingleExeCTarget n)\<lparr>target_options := [''pbzx.c'', ''-lxar'', ''-llzma'']\<rparr>"
| "init h Radare2Target n =
     (base_init h MesonTarget n)\<lparr>configure_prefix := False\<rparr>"
| "init h RizinTarget n = base_init h MesonTarget n"
| "init h SevenZipTarget n =
     (base_init h MakeTarget n)\<lparr>src_root := ''CPP/7zip/Bundles/Alone2''\<rparr>"
| "init h UnrarTarget n = base_init h MakeTarget n"
| "init h XdeltaTarget n =
     (base_init h ConfigureMakeDependencyTarget n)\<lparr>src_root := ''xdelta3''\<rparr>"
| "init h XzTarget n = base_init h CMakeStaticDependencyTarget n"
| "init h ZipTarget n =
     (base_init h SingleExeCTarget n)\<lparr>target_options := [
       ''-I.'', ''-DUNIX'', ''-DBZIP2_SUPPORT'', ''-DLARGE_FILE_SUPPORT'', ''-DUNICODE_SUPPORT'',
       ''-DHAVE_DIRENT_H'', ''-DHAVE_TERMIOS_H'', ''-lbz2'',
       ''crc32.c'', ''crypt.c'', ''deflate.c'', ''fileio.c'', ''globals.c'', ''trees.c'',
       ''ttyio.c'', ''unix/unix.c'', ''util.c'', ''zip.c'', ''zipfile.c'', ''zipup.c'']\<rparr>"

fun default_name :: "cls \<Rightarrow> string" where
  "default_name BrotliTarget = ''brotli''"
| "default_name Bzip2Target = ''bzip2''"
| "default_name ExpatTarget = ''expat''"
| "default_name FfiTarget = ''ffi''"
| "default_name FreeImageTarget = ''freeimage''"
| "default_name GettextTarget = ''gettext''"
| "default_name HighwayTarget = ''highway''"
| "default_name IconvTarget = ''iconv''"
| "default_name IntlTarget = ''intl''"
| "default_name JpegTurboTarget = ''jpeg-turbo''"
| "default_name TiffTarget = ''tiff''"
| "default_name WxWidgetsTarget = ''wxwidgets''"
| "default_name AutoconfTarget = ''autoconf''"
| "default_name AutomakeTarget = ''automake''"
| "default_name Bzip3Target = ''bzip3''"
| "default_name FFmpegTarget = ''ffmpeg''"
| "default_name LuaTarget = ''lua''"
| "default_name M4Target = ''m4''"
| "default_name P7ZipTarget = ''p7zip''"
| "default_name PbzxTarget = ''pbzx''"
| "default_name Radare2Target = ''radare2''"
| "default_name RizinTarget = ''rizin''"
| "default_name SevenZipTarget = ''7zip''"
| "default_name UnrarTarget = ''unrar''"
| "default_name XdeltaTarget = ''xdelta''"
| "default_name XzTarget = ''xz''"
| "default_name ZipTarget = ''zip''"

definition construct :: "host \<Rightarrow> cls \<Rightarrow> target" where
  "construct h c = init h c (default_name c)"

text \<open>
  Method resolution. A hook that a class does not define is the one it inherits:
  \<open>IntlTarget\<close> takes \<open>prepare_source\<close> and \<open>detect\<close> from \<open>GettextTarget\<close>, every
  other missing hook is the base class's.
\<close>

fun prepare_source :: "host \<Rightarrow> cls \<Rightarrow> unit io" where
  "prepare_source h BrotliTarget = BrotliTarget_prepare_source h"
| "prepare_source h Bzip2Target = Bzip2Target_prepare_source h"
| "prepare_source h ExpatTarget = ExpatTarget_prepare_source h"
| "prepare_source h FfiTarget = FfiTarget_prepare_source h"
| "prepare_source h FreeImageTarget = FreeImageTarget_prepare_source h"
| "prepare_source h GettextTarget = GettextTarget_prepare_source h"
| "prepare_source h HighwayTarget = HighwayTarget_prepare_source h"
| "prepare_source h IconvTarget = IconvTarget_prepare_source h"
| "prepare_source h IntlTarget = GettextTarget_prepare_source h"
| "prepare_source h JpegTurboTarget = JpegTurboTarget_prepare_source h"
| "prepare_source h TiffTarget = TiffTarget_prepare_source h"
| "prepare_source h WxWidgetsTarget = WxWidgetsTarget_prepare_source h"
| "prepare_source h AutoconfTarget = AutoconfTarget_prepare_source h"
| "prepare_source h AutomakeTarget = AutomakeTarget_prepare_source h"
| "prepare_source h Bzip3Target = Bzip3Target_prepare_source h"
| "prepare_source h FFmpegTarget = FFmpegTarget_prepare_source h"
| "prepare_source h LuaTarget = LuaTarget_prepare_source h"
| "prepare_source h M4Target = M4Target_prepare_source h"
| "prepare_source h P7ZipTarget = P7ZipTarget_prepare_source h"
| "prepare_source h PbzxTarget = PbzxTarget_prepare_source h"
| "prepare_source h Radare2Target = Radare2Target_prepare_source h"
| "prepare_source h RizinTarget = RizinTarget_prepare_source h"
| "prepare_source h SevenZipTarget = SevenZipTarget_prepare_source h"
| "prepare_source h UnrarTarget = UnrarTarget_prepare_source h"
| "prepare_source h XdeltaTarget = XdeltaTarget_prepare_source h"
| "prepare_source h XzTarget = XzTarget_prepare_source h"
| "prepare_source h ZipTarget = ZipTarget_prepare_source h"

fun detect :: "host \<Rightarrow> cls \<Rightarrow> bool io" where
  "detect h BrotliTarget = inherited_detect h CMakeStaticDependencyTarget"
| "detect h Bzip2Target = Bzip2Target_detect h"
| "detect h ExpatTarget = inherited_detect h CMakeStaticDependencyTarget"
| "detect h FfiTarget = FfiTarget_detect h"
| "detect h FreeImageTarget = FreeImageTarget_detect h"
| "detect h GettextTarget = GettextTarget_detect h"
| "detect h HighwayTarget = inherited_detect h CMakeStaticDependencyTarget"
| "detect h IconvTarget = IconvTarget_detect h"
| "detect h IntlTarget = GettextTarget_detect h"
| "detect h JpegTurboTarget = inherited_detect h CMakeStaticDependencyTarget"
| "detect h TiffTarget = inherited_detect h CMakeStaticDependencyTarget"
| "detect h WxWidgetsTarget = inherited_detect h CMakeStaticDependencyTarget"
| "detect h AutoconfTarget = inherited_detect h ConfigureMakeDependencyTarget"
| "detect h AutomakeTarget = inherited_detect h ConfigureMakeDependencyTarget"
| "detect h Bzip3Target = inherited_detect h CMakeStaticDependencyTarget"
| "detect h FFmpegTarget = FFmpegTarget_detect h"
| "detect h LuaTarget = LuaTarget_detect h"
| "detect h M4Target = inherited_detect h ConfigureMakeDependencyTarget"
| "detect h P7ZipTarget = P7ZipTarget_detect h"
| "detect h PbzxTarget = PbzxTarget_detect h"
| "detect h Radare2Target = Radare2Target_detect h"
| "detect h RizinTarget = RizinTarget_detect h"
| "detect h SevenZipTarget = SevenZipTarget_detect h"
| "detect h UnrarTarget = UnrarTarget_detect h"
| "detect h XdeltaTarget = XdeltaTarget_detect h"
| "detect h XzTarget = inherited_detect h CMakeStaticDependencyTarget"
| "detect h ZipTarget = ZipTarget_detect h"

fun configure :: "host \<Rightarrow> cls \<Rightarrow> unit io" where
  "configure h BrotliTarget = ext h (BaseHook CMakeStaticDependencyTarget Configure)"
| "configure h Bzip2Target = Bzip2Target_configure h"
| "configure h ExpatTarget = ExpatTarget_configure h"
| "configure h FfiTarget = ext h (BaseHook ConfigureMakeStaticDependencyTarget Configure)"
| "configure h FreeImageTarget = FreeImageTarget_configure h"
| "configure h GettextTarget = GettextTarget_configure h"
| "configure h HighwayTarget = HighwayTarget_configure h"
| "configure h IconvTarget = IconvTarget_configure h"
| "configure h IntlTarget = IntlTarget_configure h"
| "configure h JpegTurboTarget = JpegTurboTarget_configure h"
| "configure h TiffTarget = TiffTarget_configure h"
| "configure h WxWidgetsTarget = WxWidgetsTarget_configure h"
| "configure h AutoconfTarget = ext h (BaseHook ConfigureMakeDependencyTarget Configure)"
| "configure h AutomakeTarget = ext h (BaseHook ConfigureMakeDependencyTarget Configure)"
| "configure h Bzip3Target = Bzip3Target_configure h"
| "configure h FFmpegTarget = FFmpegTarget_configure h"
| "configure h LuaTarget = ext h (BaseHook MakeTarget Configure)"
| "configure h M4Target = ext h (BaseHook ConfigureMakeDependencyTarget Configure)"
| "configure h P7ZipTarget = ext h (BaseHook CMakeTarget Configure)"
| "configure h PbzxTarget = ext h (BaseHook SingleExeCTarget Configure)"
| "configure h Radare2Target = Radare2Target_configure h"
| "configure h RizinTarget = RizinTarget_configure h"
| "configure h SevenZipTarget = ext h (BaseHook MakeTarget Configure)"
| "configure h UnrarTarget = UnrarTarget_configure h"
| "configure h XdeltaTarget = XdeltaTarget_configure h"
| "configure h XzTarget = XzTarget_configure h"
| "configure h ZipTarget = ext h (BaseHook SingleExeCTarget Configure)"

fun build :: "host \<Rightarrow> cls \<Rightarrow> unit io" where
  "build h BrotliTarget = ext h (BaseHook CMakeStaticDependencyTarget Build)"
| "build h Bzip2Target = ext h (BaseHook CMakeStaticDependencyTarget Build)"
| "build h ExpatTarget = ext h (BaseHook CMakeStaticDependencyTarget Build)"
| "build h FfiTarget = ext h (BaseHook ConfigureMakeStaticDependencyTarget Build)"
| "build h FreeImageTarget = ext h (BaseHook MakeTarget Build)"
| "build h GettextTarget = ext h (BaseHook ConfigureMakeStaticDependencyTarget Build)"
| "build h HighwayTarget = ext h (BaseHook CMakeStaticDependencyTarget Build)"
| "build h IconvTarget = ext h (BaseHook ConfigureMakeStaticDependencyTarget Build)"
| "build h IntlTarget = IntlTarget_build h"
| "build h JpegTurboTarget = ext h (BaseHook CMakeStaticDependencyTarget Build)"
| "build h TiffTarget = ext h (BaseHook CMakeStaticDependencyTarget Build)"
| "build h WxWidgetsTarget = ext h (BaseHook CMakeStaticDependencyTarget Build)"
| "build h AutoconfTarget = ext h (BaseHook ConfigureMakeDependencyTarget Build)"
| "build h AutomakeTarget = ext h (BaseHook ConfigureMakeDependencyTarget Build)"
| "build h Bzip3Target = ext h (BaseHook CMakeStaticDependencyTarget Build)"
| "build h FFmpegTarget = ext h (BaseHook ConfigureMakeDependencyTarget Build)"
| "build h LuaTarget = ext h (BaseHook MakeTarget Build)"
| "build h M4Target = ext h (BaseHook ConfigureMakeDependencyTarget Build)"
| "build h P7ZipTarget = ext h (BaseHook CMakeTarget Build)"
| "build h PbzxTarget = ext h (BaseHook SingleExeCTarget Build)"
| "build h Radare2Target = ext h (BaseHook MesonTarget Build)"
| "build h RizinTarget = ext h (BaseHook MesonTarget Build)"
| "build h SevenZipTarget = SevenZipTarget_build h"
| "build h UnrarTarget = ext h (BaseHook MakeTarget Build)"
| "build h XdeltaTarget = ext h (BaseHook ConfigureMakeDependencyTarget Build)"
| "build h XzTarget = ext h (BaseHook CMakeStaticDependencyTarget Build)"
| "build h ZipTarget = ext h (BaseHook SingleExeCTarget Build)"

fun post_build :: "host \<Rightarrow> cls \<Rightarrow> unit io" where
  "post_build h BrotliTarget = BrotliTarget_post_build h"
| "post_build h Bzip2Target = Bzip2Target_post_build h"
| "post_build h ExpatTarget = ext h (BaseHook CMakeStaticDependencyTarget PostBuild)"
| "post_build h FfiTarget = FfiTarget_post_build h"
| "post_build h FreeImageTarget = FreeImageTarget_post_build h"
| "post_build h GettextTarget = ext h (BaseHook ConfigureMakeStaticDependencyTarget PostBuild)"
| "post_build h HighwayTarget = ext h (BaseHook CMakeStaticDependencyTarget PostBuild)"
| "post_build h IconvTarget = ext h (BaseHook ConfigureMakeStaticDependencyTarget PostBuild)"
| "post_build h IntlTarget = IntlTarget_post_build h"
| "post_build h JpegTurboTarget = ext h (BaseHook CMakeStaticDependencyTarget PostBuild)"
| "post_build h TiffTarget = ext h (BaseHook CMakeStaticDependencyTarget PostBuild)"
| "post_build h WxWidgetsTarget = WxWidgetsTarget_post_build h"
| "post_build h AutoconfTarget = ext h (BaseHook ConfigureMakeDependencyTarget PostBuild)"
| "post_build h AutomakeTarget = ext h (BaseHook ConfigureMakeDependencyTarget PostBuild)"
| "post_build h Bzip3Target = ext h (BaseHook CMakeStaticDependencyTarget PostBuild)"
| "post_build h FFmpegTarget = ext h (BaseHook ConfigureMakeDependencyTarget PostBuild)"
| "post_build h LuaTarget = LuaTarget_post_build h"
| "post_build h M4Target = ext h (BaseHook ConfigureMakeDependencyTarget PostBuild)"
| "post_build h P7ZipTarget = P7ZipTarget_post_build h"
| "post_build h PbzxTarget = ext h (BaseHook SingleExeCTarget PostBuild)"
| "post_build h Radare2Target = Radare2Target_post_build h"
| "post_build h RizinTarget = ext h (BaseHook MesonTarget PostBuild)"
| "post_build h SevenZipTarget = SevenZipTarget_post_build h"
| "post_build h UnrarTarget = UnrarTarget_post_build h"
| "post_build h XdeltaTarget = ext h (BaseHook ConfigureMakeDependencyTarget PostBuild)"
| "post_build h XzTarget = ext h (BaseHook CMakeStaticDependencyTarget PostBuild)"
| "post_build h ZipTarget = ext h (BaseHook SingleExeCTarget PostBuild)"

text \<open>One invocation of a hook by the host, the value of \<open>detect\<close> dropped.\<close>

fun invoke :: "host \<Rightarrow> cls \<Rightarrow> hookname \<Rightarrow> unit io" where
  "invoke h c PrepareSource = prepare_source h c"
| "invoke h c Detect = bind_io (detect h c) (\<lambda>found. ret ())"
| "invoke h c Configure = configure h c"
| "invoke h c Build = build h c"
| "invoke h c PostBuild = post_build h c"

section \<open>\<open>targets()\<close> of \<open>__init__.py\<close>\<close>

text \<open>
  The names that \<open>from .library import *\<close> and \<open>from .tool import *\<close> bind to classes
  in the package's namespace; the second import would shadow the first.
\<close>

definition library_classes :: "(string \<times> cls) list" where
  "library_classes = [
     (''BrotliTarget'', BrotliTarget),
     (''Bzip2Target'', Bzip2Target),
     (''ExpatTarget'', ExpatTarget),
     (''FfiTarget'', FfiTarget),
     (''FreeImageTarget'', FreeImageTarget),
     (''GettextTarget'', GettextTarget),
     (''HighwayTarget'', HighwayTarget),
     (''IconvTarget'', IconvTarget),
     (''IntlTarget'', IntlTarget),
     (''JpegTurboTarget'', JpegTurboTarget),
     (''TiffTarget'', TiffTarget),
     (''WxWidgetsTarget'', WxWidgetsTarget)]"

definition tool_classes :: "(string \<times> cls) list" where
  "tool_classes = [
     (''AutoconfTarget'', AutoconfTarget),
     (''AutomakeTarget'', AutomakeTarget),
     (''Bzip3Target'', Bzip3Target),
     (''FFmpegTarget'', FFmpegTarget),
     (''LuaTarget'', LuaTarget),
     (''M4Target'', M4Target),
     (''P7ZipTarget'', P7ZipTarget),
     (''PbzxTarget'', PbzxTarget),
     (''Radare2Target'', Radare2Target),
     (''RizinTarget'', RizinTarget),
     (''SevenZipTarget'', SevenZipTarget),
     (''UnrarTarget'', UnrarTarget),
     (''XdeltaTarget'', XdeltaTarget),
     (''XzTarget'', XzTarget),
     (''ZipTarget'', ZipTarget)]"

definition module_globals :: "string \<rightharpoonup> cls" where
  "module_globals = map_of library_classes ++ map_of tool_classes"

text \<open>
  \<open>Name()\<close>: the name is looked up when the call is evaluated, and an unbound name
  raises \<open>NameError\<close>. An object is its class and its attributes.
\<close>

definition instantiate :: "host \<Rightarrow> string \<Rightarrow> exn + (cls \<times> target)" where
  "instantiate h n =
     (case module_globals n of None \<Rightarrow> Inl (NameError n) | Some c \<Rightarrow> Inr (c, construct h c))"

text \<open>The elements of a tuple display are evaluated from left to right.\<close>

fun tuple_display :: "host \<Rightarrow> string list \<Rightarrow> exn + (cls \<times> target) list" where
  "tuple_display h [] = Inr []"
| "tuple_display h (n # ns) =
     (case instantiate h n of
        Inl e \<Rightarrow> Inl e
      | Inr t \<Rightarrow> (case tuple_display h ns of Inl e \<Rightarrow> Inl e | Inr ts \<Rightarrow> Inr (t # ts)))"

definition targets :: "host \<Rightarrow> exn + (cls \<times> target) list" where
  "targets h = tuple_display h [
     ''BrotliTarget'',
     ''Bzip2Target'',
     ''ExpatTarget'',
     ''FfiTarget'',
     ''FreeImageTarget'',
     ''GettextTarget'',
     ''HighwayTarget'',
     ''IconvTarget'',
     ''IntlTarget'',
     ''JpegTurboTarget'',
     ''OpusFileTarget'',
     ''TiffTarget'',
     ''WxWidgetsTarget'',

     ''AutoconfTarget'',
     ''AutomakeTarget'',
     ''BisonTarget'',
     ''Bzip3Target'',
     ''FFmpegTarget'',
     ''GraphvizTarget'',
     ''LuaTarget'',
     ''M4Target'',
     ''P7ZipTarget'',
     ''PbzxTarget'',
     ''Radare2Target'',
     ''RizinTarget'',
     ''SevenZipTarget'',
     ''TimemoryTarget'',
     ''UnrarTarget'',
     ''XdeltaTarget'',
     ''XzTarget'',
     ''ZipTarget'']"

section \<open>The hooks once more, recording the methods entered\<close>

text \<open>
  To say which methods of the repository's classes a hook runs, the hooks are embedded a
  second time as computations that also keep a log: entering a method of a class of the
  repository appends the class and the method's name to the log. \<open>lift\<close> runs a
  computation of the first embedding and leaves the log alone; the other combinators are
  those of the section on statements, with the log threaded through.
\<close>

type_synonym log = "(cls \<times> hookname) list"

type_synonym 'a mio = "world \<times> log \<Rightarrow> (exn + 'a) \<times> (world \<times> log)"

definition lift :: "'a io \<Rightarrow> 'a mio" where
  "lift m wl = (case m (fst wl) of (r, w') \<Rightarrow> (r, (w', snd wl)))"

definition in_method :: "cls \<Rightarrow> hookname \<Rightarrow> 'a mio \<Rightarrow> 'a mio" where
  "in_method c k body wl = body (fst wl, snd wl @ [(c, k)])"

definition bind_m :: "'a mio \<Rightarrow> ('a \<Rightarrow> 'b mio) \<Rightarrow> 'b mio" where
  "bind_m m f wl = (case m wl of (Inl e, wl') \<Rightarrow> (Inl e, wl') | (Inr x, wl') \<Rightarrow> f x wl')"

fun stmts_m :: "unit mio list \<Rightarrow> unit mio" where
  "stmts_m [] wl = (Inr (), wl)"
| "stmts_m (s # ss) wl =
     (case s wl of (Inl e, wl') \<Rightarrow> (Inl e, wl') | (Inr u, wl') \<Rightarrow> stmts_m ss wl')"

definition for_each_m :: "'a list \<Rightarrow> ('a \<Rightarrow> unit mio) \<Rightarrow> unit mio" where
  "for_each_m xs body = stmts_m (map body xs)"

definition with_state_m :: "(world \<Rightarrow> 'a mio) \<Rightarrow> 'a mio" where
  "with_state_m f wl = f (fst wl) wl"

definition ret_m :: "'a \<Rightarrow> 'a mio" where
  "ret_m x = lift (ret x)"

definition and_m :: "bool mio \<Rightarrow> bool mio \<Rightarrow> bool mio" where
  "and_m a b = bind_m a (\<lambda>x. if x then b else ret_m x)"

definition ext_m :: "host \<Rightarrow> call \<Rightarrow> unit mio" where
  "ext_m h c = lift (ext h c)"

definition subprocess_run_m :: "host \<Rightarrow> string list \<Rightarrow> bool \<Rightarrow> string \<Rightarrow> unit mio" where
  "subprocess_run_m h args check cwd = lift (subprocess_run h args check cwd)"

definition inherited_detect_m :: "host \<Rightarrow> base_cls \<Rightarrow> bool mio" where
  "inherited_detect_m h b = lift (inherited_detect h b)"

definition setitem_options_m :: "string \<Rightarrow> pyval \<Rightarrow> unit mio" where
  "setitem_options_m k v = lift (setitem_options k v)"

definition iadd_options_m :: "string \<Rightarrow> string \<Rightarrow> unit mio" where
  "iadd_options_m k s = lift (iadd_options k s)"

definition getitem_environment_m :: "string \<Rightarrow> string mio" where
  "getitem_environment_m k = lift (getitem_environment k)"

definition iadd_environment_m :: "string \<Rightarrow> string \<Rightarrow> unit mio" where
  "iadd_environment_m k s = lift (iadd_environment k s)"

definition set_src_root_m :: "string \<Rightarrow> unit mio" where
  "set_src_root_m v = lift (set_src_root v)"

definition set_build_path_m :: "string \<Rightarrow> unit mio" where
  "set_build_path_m v = lift (set_build_path v)"

text \<open>
  Each method of \<open>library.py\<close> and \<open>tool.py\<close>, in the order of the files: the body is
  the one of the first embedding, inside the mark of the method.
\<close>

definition BrotliTarget_prepare_source_m :: "host \<Rightarrow> unit mio" where
  "BrotliTarget_prepare_source_m h =
     in_method BrotliTarget PrepareSource
       (ext_m h (DownloadSource
          ''https://github.com/google/brotli/archive/refs/tags/v1.0.9.tar.gz''
          ''f9e8d81d0405ba66d181529af42a3354f838c939095ff99930da6aa9cdf6fe46''
          None))"

definition BrotliTarget_post_build_m :: "host \<Rightarrow> unit mio" where
  "BrotliTarget_post_build_m h =
     in_method BrotliTarget PostBuild
       (stmts_m [
        ext_m h (BaseHook CMakeStaticDependencyTarget PostBuild),
        with_state_m (\<lambda>state.
          let dylib_pattern = joinpath (install_path state) ''lib/*.dylib''
          in for_each_m (glob_result h dylib_pattern state) (\<lambda>dylib. ext_m h (OsUnlink dylib))),
        with_state_m (\<lambda>state.
          let archive_pattern = joinpath (install_path state) (''lib/*'' @ archive_suffix)
          in for_each_m (glob_result h archive_pattern state)
               (\<lambda>archive. ext_m h (OsRename archive (no_suffix_name archive))))])"

definition Bzip2Target_prepare_source_m :: "host \<Rightarrow> unit mio" where
  "Bzip2Target_prepare_source_m h =
     in_method Bzip2Target PrepareSource
       (ext_m h (DownloadSource
          ''https://sourceware.org/pub/bzip2/bzip2-1.0.8.tar.gz''
          ''ab5a03176ee106d3f0fa90e381da478ddae405918153cca248e682cd0c4a2269''
          (Some ''bzip2-add-cmake'')))"

definition Bzip2Target_detect_m :: "host \<Rightarrow> bool mio" where
  "Bzip2Target_detect_m h =
     in_method Bzip2Target Detect
       (with_state_m (\<lambda>state. ret_m (has_source_file state ''bzlib.h'')))"

definition Bzip2Target_configure_m :: "host \<Rightarrow> unit mio" where
  "Bzip2Target_configure_m h =
     in_method Bzip2Target Configure
       (stmts_m [
        setitem_options_m ''ENABLE_APP'' (PStr ''NO''),
        setitem_options_m ''ENABLE_SHARED_LIB'' (PStr ''NO''),
        setitem_options_m ''ENABLE_STATIC_LIB'' (PStr ''YES''),
        setitem_options_m ''ENABLE_TESTS'' (PStr ''NO''),
        ext_m h (BaseHook CMakeStaticDependencyTarget Configure)])"

definition Bzip2Target_post_build_m :: "host \<Rightarrow> unit mio" where
  "Bzip2Target_post_build_m h =
     in_method Bzip2Target PostBuild
       (stmts_m [
        ext_m h (BaseHook CMakeStaticDependencyTarget PostBuild),
        with_state_m (\<lambda>state.
          let lib_path = joinpath (install_path state) ''lib''
          in ext_m h (OsRename (joinpath lib_path ''libbz2_static.a'') (joinpath lib_path ''libbz2.a'')))])"

definition ExpatTarget_prepare_source_m :: "host \<Rightarrow> unit mio" where
  "ExpatTarget_prepare_source_m h =
     in_method ExpatTarget PrepareSource
       (ext_m h (DownloadSource
          ''https://github.com/libexpat/libexpat/releases/download/R_2_4_1/expat-2.4.1.tar.xz''
          ''cf032d0dba9b928636548e32b327a2d66b1aab63c4f4a13dd132c2d1d2f2fb6a''
          None))"

definition ExpatTarget_configure_m :: "host \<Rightarrow> unit mio" where
  "ExpatTarget_configure_m h =
     in_method ExpatTarget Configure
       (stmts_m [
        setitem_options_m ''EXPAT_BUILD_EXAMPLES'' (PStr ''NO''),
        setitem_options_m ''EXPAT_BUILD_TESTS'' (PStr ''NO''),
        setitem_options_m ''EXPAT_BUILD_TOOLS'' (PStr ''NO''),
        ext_m h (BaseHook CMakeStaticDependencyTarget Configure)])"

definition FfiTarget_prepare_source_m :: "host \<Rightarrow> unit mio" where
  "FfiTarget_prepare_source_m h =
     in_method FfiTarget PrepareSource
       (ext_m h (DownloadSource
          ''https://github.com/libffi/libffi/releases/download/v3.4.6/libffi-3.4.6.tar.gz''
          ''b0dea9df23c863a7a50e825440f3ebffabd65df1497108e5d437747843895a4e''
          None))"

definition FfiTarget_detect_m :: "host \<Rightarrow> bool mio" where
  "FfiTarget_detect_m h =
     in_method FfiTarget Detect
       (with_state_m (\<lambda>state. ret_m (has_source_file state ''libffi.pc.in'')))"

definition FfiTarget_post_build_m :: "host \<Rightarrow> unit mio" where
  "FfiTarget_post_build_m h =
     in_method FfiTarget PostBuild
       (stmts_m [
        ext_m h (BaseHook ConfigureMakeStaticDependencyTarget PostBuild),
        for_each_m [''ffi.h'', ''ffitarget.h''] (\<lambda>header. ext_m h (MakePlatformHeader header))])"

definition FreeImageTarget_prepare_source_m :: "host \<Rightarrow> unit mio" where
  "FreeImageTarget_prepare_source_m h =
     in_method FreeImageTarget PrepareSource
       (ext_m h (DownloadSource
          ''https://downloads.sourceforge.net/project/freeimage/Source%20Distribution/3.18.0/FreeImage3180.zip''
          ''f41379682f9ada94ea7b34fe86bf9ee00935a3147be41b6569c9605a53e438fd''
          (Some ''freeimage-fix-arm64'')))"

definition FreeImageTarget_detect_m :: "host \<Rightarrow> bool mio" where
  "FreeImageTarget_detect_m h =
     in_method FreeImageTarget Detect
       (with_state_m (\<lambda>state. ret_m (has_source_file state FreeImageTarget_HEADER_FILE)))"

definition FreeImageTarget_configure_m :: "host \<Rightarrow> unit mio" where
  "FreeImageTarget_configure_m h =
     in_method FreeImageTarget Configure
       ((let common_flags = '' -O3 -fPIC -fexceptions -fvisibility=hidden''
         in stmts_m [
           ext_m h (BaseHook MakeTarget Configure),
           iadd_environment_m ''CFLAGS'' (common_flags @ '' -std=gnu89 -Wno-implicit-function-declaration''),
           iadd_environment_m ''CXXFLAGS'' (common_flags @ '' -Wno-ctor-dtor-privacy''),
           for_each_m [''-f'', ''Makefile.gnu'', ''libfreeimage.a'']
             (\<lambda>option. setitem_options_m option PNone)]))"

definition FreeImageTarget_post_build_m :: "host \<Rightarrow> unit mio" where
  "FreeImageTarget_post_build_m h =
     in_method FreeImageTarget PostBuild
       (with_state_m (\<lambda>state.
          let include_path = joinpath (install_path state) ''include''
          in stmts_m [
            ext_m h (OsMakedirs include_path),
            with_state_m (\<lambda>state.
              ext_m h (ShutilCopy (joinpath (build_path state) FreeImageTarget_HEADER_FILE) include_path)),
            with_state_m (\<lambda>state.
              let lib_path = joinpath (install_path state) ''lib''
              in stmts_m [
                ext_m h (OsMakedirs lib_path),
                with_state_m (\<lambda>state.
                  ext_m h (ShutilCopy (joinpath (build_path state) ''libfreeimage.a'') lib_path))]),
            ext_m h (WritePcFile ''3.18.0'' ''-lfreeimage -lc++'')]))"

definition GettextTarget_prepare_source_m :: "host \<Rightarrow> unit mio" where
  "GettextTarget_prepare_source_m h =
     in_method GettextTarget PrepareSource
       (ext_m h (DownloadSource
          ''https://ftp.gnu.org/gnu/gettext/gettext-0.21.tar.xz''
          ''d20fcbb537e02dcf1383197ba05bd0734ef7bf5db06bdb241eb69b7d16b73192''
          None))"

definition GettextTarget_detect_m :: "host \<Rightarrow> bool mio" where
  "GettextTarget_detect_m h =
     in_method GettextTarget Detect
       (with_state_m (\<lambda>state. ret_m (has_source_file state ''gettext-runtime'')))"

definition GettextTarget_configure_m :: "host \<Rightarrow> unit mio" where
  "GettextTarget_configure_m h =
     in_method GettextTarget Configure
       (stmts_m [
        setitem_options_m ''--enable-csharp'' (PStr ''no''),
        setitem_options_m ''--enable-java'' (PStr ''no''),
        setitem_options_m ''--enable-libasprintf'' (PStr ''no''),
        ext_m h (BaseHook ConfigureMakeStaticDependencyTarget Configure)])"

definition HighwayTarget_prepare_source_m :: "host \<Rightarrow> unit mio" where
  "HighwayTarget_prepare_source_m h =
     in_method HighwayTarget PrepareSource
       (ext_m h (DownloadSource
          ''https://github.com/google/highway/archive/refs/tags/1.0.6.tar.gz''
          ''d89664a045a41d822146e787bceeefbf648cc228ce354f347b18f2b419e57207''
          None))"

definition HighwayTarget_configure_m :: "host \<Rightarrow> unit mio" where
  "HighwayTarget_configure_m h =
     in_method HighwayTarget Configure
       (stmts_m [
        setitem_options_m ''HWY_ENABLE_CONTRIB'' (PStr ''NO''),
        setitem_options_m ''HWY_ENABLE_EXAMPLES'' (PStr ''NO''),
        setitem_options_m ''HWY_ENABLE_TESTS'' (PStr ''NO''),
        ext_m h (BaseHook CMakeStaticDependencyTarget Configure)])"

definition IconvTarget_prepare_source_m :: "host \<Rightarrow> unit mio" where
  "IconvTarget_prepare_source_m h =
     in_method IconvTarget PrepareSource
       (ext_m h (DownloadSource
          ''https://ftp.gnu.org/gnu/libiconv/libiconv-1.17.tar.gz''
          ''8f74213b56238c85a50a5329f77e06198771e70dd9a739779f4c02f65d971313''
          None))"

definition IconvTarget_detect_m :: "host \<Rightarrow> bool mio" where
  "IconvTarget_detect_m h =
     in_method IconvTarget Detect
       (with_state_m (\<lambda>state. ret_m (has_source_file state ''include/iconv.h.in'')))"

definition IconvTarget_configure_m :: "host \<Rightarrow> unit mio" where
  "IconvTarget_configure_m h =
     in_method IconvTarget Configure
       (stmts_m [
        setitem_options_m ''--enable-extra-encodings'' (PStr ''yes''),
        ext_m h (BaseHook ConfigureMakeStaticDependencyTarget Configure)])"

definition IntlTarget_configure_m :: "host \<Rightarrow> unit mio" where
  "IntlTarget_configure_m h =
     in_method IntlTarget Configure
       (stmts_m [
        setitem_options_m ''--localedir'' (PStr ''/usr/local/share/locale''),
        set_src_root_m ''gettext-runtime'',
        GettextTarget_configure_m h])"

definition IntlTarget_build_m :: "host \<Rightarrow> unit mio" where
  "IntlTarget_build_m h =
     in_method IntlTarget Build
       (stmts_m [
        with_state_m (\<lambda>state. set_src_root_m (src_root (self state) @ ''/intl'')),
        ext_m h (BaseHook ConfigureMakeStaticDependencyTarget Build)])"

definition IntlTarget_post_build_m :: "host \<Rightarrow> unit mio" where
  "IntlTarget_post_build_m h =
     in_method IntlTarget PostBuild
       (stmts_m [
        setitem_options_m ''install-exec-am'' PNone,
        setitem_options_m ''install-nodist_includeHEADERS'' PNone,
        with_state_m (\<lambda>state. set_build_path_m (joinpath (build_path state) (src_root (self state)))),
        ext_m h Install])"

definition JpegTurboTarget_prepare_source_m :: "host \<Rightarrow> unit mio" where
  "JpegTurboTarget_prepare_source_m h =
     in_method JpegTurboTarget PrepareSource
       (ext_m h (DownloadSource
          ''https://github.com/libjpeg-turbo/libjpeg-turbo/releases/download/3.1.0/libjpeg-turbo-3.1.0.tar.gz''
          ''9564c72b1dfd1d6fe6274c5f95a8d989b59854575d4bbee44ade7bc17aa9bc93''
          None))"

definition JpegTurboTarget_configure_m :: "host \<Rightarrow> unit mio" where
  "JpegTurboTarget_configure_m h =
     in_method JpegTurboTarget Configure
       (stmts_m [
        setitem_options_m ''ENABLE_SHARED'' (PStr ''NO''),
        ext_m h (BaseHook CMakeStaticDependencyTarget Configure)])"

definition TiffTarget_prepare_source_m :: "host \<Rightarrow> unit mio" where
  "TiffTarget_prepare_source_m h =
     in_method TiffTarget PrepareSource
       (ext_m h (DownloadSource
          ''https://download.osgeo.org/libtiff/tiff-4.3.0.tar.gz''
          ''0e46e5acb087ce7d1ac53cf4f56a09b221537fc86dfc5daaad1c2e89e1b37ac8''
          (Some ''tiff-remove-useless'')))"

definition TiffTarget_configure_m :: "host \<Rightarrow> unit mio" where
  "TiffTarget_configure_m h =
     in_method TiffTarget Configure
       (stmts_m [
        setitem_options_m ''cxx'' (PStr ''NO''),
        setitem_options_m ''lzma'' (PStr ''YES''),
        ext_m h (BaseHook CMakeStaticDependencyTarget Configure)])"

definition WxWidgetsTarget_prepare_source_m :: "host \<Rightarrow> unit mio" where
  "WxWidgetsTarget_prepare_source_m h =
     in_method WxWidgetsTarget PrepareSource
       (ext_m h (DownloadSource
          ''https://github.com/wxWidgets/wxWidgets/releases/download/v3.1.5/wxWidgets-3.1.5.tar.bz2''
          ''d7b3666de33aa5c10ea41bb9405c40326e1aeb74ee725bb88f90f1d50270a224''
          (Some ''wxwidgets-library-suffix'')))"

definition WxWidgetsTarget_configure_m :: "host \<Rightarrow> unit mio" where
  "WxWidgetsTarget_configure_m h =
     in_method WxWidgetsTarget Configure
       (stmts_m [
        setitem_options_m ''wxBUILD_SHARED'' (PStr ''NO''),
        setitem_options_m ''wxUSE_LIBLZMA'' (PStr ''YES''),
        setitem_options_m ''wxUSE_LIBSDL'' (PStr ''NO''),
        setitem_options_m ''wxUSE_LIBJPEG'' (PStr ''sys''),
        setitem_options_m ''wxUSE_LIBPNG'' (PStr ''sys''),
        setitem_options_m ''wxUSE_LIBTIFF'' (PStr ''sys''),
        ext_m h (BaseHook CMakeStaticDependencyTarget Configure)])"

definition WxWidgetsTarget_post_build_m :: "host \<Rightarrow> unit mio" where
  "WxWidgetsTarget_post_build_m h =
     in_method WxWidgetsTarget PostBuild
       (stmts_m [
        ext_m h (BaseHook CMakeStaticDependencyTarget PostBuild),
        with_state_m (\<lambda>state.
          let setup_h_path =
                joinpath (install_path state) ''lib/wx/include/osx_cocoa-unicode-static-3.1/wx/setup.h''
          in ext_m h (UpdateTextFile setup_h_path patch_setup_h)),
        with_state_m (\<lambda>state.
          let wx_config_path = joinpath (install_path state) ''bin/wx-config''
          in ext_m h (UpdateTextFile wx_config_path patch_wx_config))])"

definition AutoconfTarget_prepare_source_m :: "host \<Rightarrow> unit mio" where
  "AutoconfTarget_prepare_source_m h =
     in_method AutoconfTarget PrepareSource
       (ext_m h (DownloadSource
          ''https://ftp.gnu.org/gnu/autoconf/autoconf-2.72.tar.xz''
          ''ba885c1319578d6c94d46e9b0dceb4014caafe2490e437a0dbca3f270a223f5a''
          None))"

definition AutomakeTarget_prepare_source_m :: "host \<Rightarrow> unit mio" where
  "AutomakeTarget_prepare_source_m h =
     in_method AutomakeTarget PrepareSource
       (ext_m h (DownloadSource
          ''https://ftp.gnu.org/gnu/automake/automake-1.16.5.tar.xz''
          ''f01d58cd6d9d77fbdca9eb4bbd5ead1988228fdb73d6f7a201f5f8d6b118b469''
          None))"

definition Bzip3Target_prepare_source_m :: "host \<Rightarrow> unit mio" where
  "Bzip3Target_prepare_source_m h =
     in_method Bzip3Target PrepareSource
       (ext_m h (DownloadSource
          ''https://github.com/kspalaiologos/bzip3/releases/download/1.5.1/bzip3-1.5.1.tar.xz''
          ''53b844f9d9fb1d75faa4d3a9d9026017caaf50bb200b320d1685c6506b8f3b37''
          None))"

definition Bzip3Target_configure_m :: "host \<Rightarrow> unit mio" where
  "Bzip3Target_configure_m h =
     in_method Bzip3Target Configure
       (stmts_m [
        setitem_options_m ''CMAKE_SKIP_INSTALL_RPATH'' (PStr ''YES''),
        ext_m h (BaseHook CMakeStaticDependencyTarget Configure)])"

definition FFmpegTarget_prepare_source_m :: "host \<Rightarrow> unit mio" where
  "FFmpegTarget_prepare_source_m h =
     in_method FFmpegTarget PrepareSource
       (ext_m h (DownloadSource
          ''https://ffmpeg.org/releases/ffmpeg-7.1.tar.xz''
          ''40973d44970dbc83ef302b0609f2e74982be2d85916dd2ee7472d30678a7abe6''
          None))"

definition FFmpegTarget_detect_m :: "host \<Rightarrow> bool mio" where
  "FFmpegTarget_detect_m h =
     in_method FFmpegTarget Detect
       (with_state_m (\<lambda>state. ret_m (has_source_file state ''doc/ffmpeg.txt'')))"

definition FFmpegTarget_configure_m :: "host \<Rightarrow> unit mio" where
  "FFmpegTarget_configure_m h =
     in_method FFmpegTarget Configure
       (stmts_m [
        with_state_m (\<lambda>state. setitem_options_m ''--arch'' (PStr (architecture state))),
        ext_m h (BaseHook ConfigureMakeDependencyTarget Configure)])"

definition LuaTarget_prepare_source_m :: "host \<Rightarrow> unit mio" where
  "LuaTarget_prepare_source_m h =
     in_method LuaTarget PrepareSource
       (ext_m h (DownloadSource
          ''https://www.lua.org/ftp/lua-5.4.8.tar.gz''
          ''4f18ddae154e793e46eeab727c59ef1c0c0c2b744e7b94219710d76f530629ae''
          None))"

definition LuaTarget_detect_m :: "host \<Rightarrow> bool mio" where
  "LuaTarget_detect_m h =
     in_method LuaTarget Detect
       (with_state_m (\<lambda>state. ret_m (has_source_file state ''src/lua.h'')))"

definition LuaTarget_post_build_m :: "host \<Rightarrow> unit mio" where
  "LuaTarget_post_build_m h =
     in_method LuaTarget PostBuild
       (stmts_m [
        setitem_options_m ''install'' PNone,
        with_state_m (\<lambda>state. setitem_options_m ''INSTALL_TOP'' (PPath (install_path state))),
        ext_m h Install])"

definition M4Target_prepare_source_m :: "host \<Rightarrow> unit mio" where
  "M4Target_prepare_source_m h =
     in_method M4Target PrepareSource
       (ext_m h (DownloadSource
          ''https://ftp.gnu.org/gnu/m4/m4-1.4.19.tar.xz''
          ''63aede5c6d33b6d9b13511cd0be2cac046f2e70fd0a07aa9573a04a82783af96''
          None))"

definition P7ZipTarget_prepare_source_m :: "host \<Rightarrow> unit mio" where
  "P7ZipTarget_prepare_source_m h =
     in_method P7ZipTarget PrepareSource
       (ext_m h (DownloadSource
          ''https://github.com/p7zip-project/p7zip/archive/refs/tags/v17.04.tar.gz''
          ''ea029a2e21d2d6ad0a156f6679bd66836204aa78148a4c5e498fe682e77127ef''
          None))"

definition P7ZipTarget_detect_m :: "host \<Rightarrow> bool mio" where
  "P7ZipTarget_detect_m h =
     in_method P7ZipTarget Detect
       (and_m (with_state_m (\<lambda>state. ret_m (has_source_file state ''CPP/7zip/CMAKE/CMakeLists.txt'')))
               (with_state_m (\<lambda>state. ret_m (has_source_file state ''C/fast-lzma2/fast-lzma2.h''))))"

definition P7ZipTarget_post_build_m :: "host \<Rightarrow> unit mio" where
  "P7ZipTarget_post_build_m h =
     in_method P7ZipTarget PostBuild
       (ext_m h (CopyToBin [''7za'']))"

definition PbzxTarget_prepare_source_m :: "host \<Rightarrow> unit mio" where
  "PbzxTarget_prepare_source_m h =
     in_method PbzxTarget PrepareSource
       (ext_m h (DownloadSource
          ''https://github.com/nrosenstein-stuff/pbzx/archive/refs/tags/v1.0.2.tar.gz''
          ''33db3cf9dc70ae704e1bbfba52c984f4c6dbfd0cc4449fa16408910e22b4fd90''
          (Some ''pbzx-xar-content'')))"

definition PbzxTarget_detect_m :: "host \<Rightarrow> bool mio" where
  "PbzxTarget_detect_m h =
     in_method PbzxTarget Detect
       (with_state_m (\<lambda>state. ret_m (has_source_file state ''pbzx.c'')))"

definition Radare2Target_prepare_source_m :: "host \<Rightarrow> unit mio" where
  "Radare2Target_prepare_source_m h =
     in_method Radare2Target PrepareSource
       (ext_m h (DownloadSource
          ''https://github.com/radareorg/radare2/releases/download/5.9.8/radare2-5.9.8.tar.xz''
          ''de061db6089cc1321ba9062b8aa9a0adaaa7a4d25128aab37a2a44e71a939829''
          None))"

definition Radare2Target_detect_m :: "host \<Rightarrow> bool mio" where
  "Radare2Target_detect_m h =
     in_method Radare2Target Detect
       (with_state_m (\<lambda>state. ret_m (has_source_file state ''man/radare2.1'')))"

definition Radare2Target_configure_m :: "host \<Rightarrow> unit mio" where
  "Radare2Target_configure_m h =
     in_method Radare2Target Configure
       (stmts_m [
        setitem_options_m ''blob'' (PStr ''true''),
        setitem_options_m ''enable_tests'' (PStr ''false''),
        setitem_options_m ''enable_r2r'' (PStr ''false''),
        setitem_options_m ''local'' (PStr ''true''),
        setitem_options_m ''r2_gittip'' (PStr ''ea7f0356519884715cf1d5fba16042bac72b2df5''),
        setitem_options_m ''r2_version_commit'' (PStr ''1''),
        setitem_options_m ''static_runtime'' (PStr ''true''),
        ext_m h (BaseHook MesonTarget Configure)])"

definition Radare2Target_post_build_m :: "host \<Rightarrow> unit mio" where
  "Radare2Target_post_build_m h =
     in_method Radare2Target PostBuild
       (stmts_m [
        ext_m h (BaseHook MesonTarget PostBuild),
        with_state_m (\<lambda>state.
          let bin_path = joinpath (install_path state) ''bin''
          in stmts_m [
            ext_m h (OsUnlink (joinpath bin_path ''r2blob.static'')),
            ext_m h (OsRename (joinpath bin_path ''r2blob'') (joinpath bin_path ''radare2''))])])"

definition RizinTarget_prepare_source_m :: "host \<Rightarrow> unit mio" where
  "RizinTarget_prepare_source_m h =
     in_method RizinTarget PrepareSource
       (ext_m h (DownloadSource
          ''https://github.com/rizinorg/rizin/releases/download/v0.8.1/rizin-src-v0.8.1.tar.xz''
          ''ef2b1e6525d7dc36ac43525b956749c1cca07bf17c1fed8b66402d82010a4ec2''
          None))"

definition RizinTarget_detect_m :: "host \<Rightarrow> bool mio" where
  "RizinTarget_detect_m h =
     in_method RizinTarget Detect
       (with_state_m (\<lambda>state. ret_m (has_source_file state ''binrz/man/rizin.1'')))"

definition RizinTarget_configure_m :: "host \<Rightarrow> unit mio" where
  "RizinTarget_configure_m h =
     in_method RizinTarget Configure
       (stmts_m [
        setitem_options_m ''blob'' (PStr ''true''),
        setitem_options_m ''enable_tests'' (PStr ''false''),
        setitem_options_m ''enable_rz_test'' (PStr ''false''),
        setitem_options_m ''local'' (PStr ''enabled''),
        setitem_options_m ''portable'' (PStr ''true''),
        ext_m h (BaseHook MesonTarget Configure)])"

definition SevenZipTarget_prepare_source_m :: "host \<Rightarrow> unit mio" where
  "SevenZipTarget_prepare_source_m h =
     in_method SevenZipTarget PrepareSource
       (ext_m h (DownloadSource
          ''https://7-zip.org/a/7z2409-src.tar.xz''
          ''49c05169f49572c1128453579af1632a952409ced028259381dac30726b6133a''
          None))"

definition SevenZipTarget_detect_m :: "host \<Rightarrow> bool mio" where
  "SevenZipTarget_detect_m h =
     in_method SevenZipTarget Detect
       (with_state_m (\<lambda>state. ret_m (has_source_file state ''CPP/7zip/cmpl_mac_arm64.mak'')))"

definition SevenZipTarget_build_m :: "host \<Rightarrow> unit mio" where
  "SevenZipTarget_build_m h =
     in_method SevenZipTarget Build
       (with_state_m (\<lambda>state.
          let mak_suffix = SevenZipTarget_arch_suffix state
          in stmts_m [
            setitem_options_m ''-f'' PNone,
            setitem_options_m (''../../cmpl_mac_'' @ mak_suffix @ ''.mak'') PNone,
            bind_m (getitem_environment_m ''CFLAGS'')
              (\<lambda>v. setitem_options_m ''CFLAGS_BASE_LIST'' (PStr (v @ '' -Wno-switch-default -c''))),
            bind_m (getitem_environment_m ''LDFLAGS'')
              (\<lambda>v. setitem_options_m ''LDFLAGS_STATIC_2'' (PStr v)),
            ext_m h (BaseHook MakeTarget Build)]))"

definition SevenZipTarget_post_build_m :: "host \<Rightarrow> unit mio" where
  "SevenZipTarget_post_build_m h =
     in_method SevenZipTarget PostBuild
       (with_state_m (\<lambda>state.
          let build_suffix = SevenZipTarget_arch_suffix state
          in ext_m h (CopyToBin [src_root (self state) @ ''/b/m_'' @ build_suffix @ ''/7zz'', ''7zz''])))"

definition UnrarTarget_prepare_source_m :: "host \<Rightarrow> unit mio" where
  "UnrarTarget_prepare_source_m h =
     in_method UnrarTarget PrepareSource
       (ext_m h (DownloadSource
          ''https://www.rarlab.com/rar/unrarsrc-6.2.12.tar.gz''
          ''a008b5f949bca9bb4ffa1bebbfc8b3c14b89df10a10354809b845232d5f582e5''
          None))"

definition UnrarTarget_configure_m :: "host \<Rightarrow> unit mio" where
  "UnrarTarget_configure_m h =
     in_method UnrarTarget Configure
       (stmts_m [
        setitem_options_m ''CXXFLAGS''
          (PStr ''-std=c++11 -O2 -Wno-logical-op-parentheses -Wno-switch -Wno-dangling-else''),
        ext_m h (BaseHook MakeTarget Configure)])"

definition UnrarTarget_post_build_m :: "host \<Rightarrow> unit mio" where
  "UnrarTarget_post_build_m h =
     in_method UnrarTarget PostBuild
       (ext_m h (CopyToBin []))"

definition UnrarTarget_detect_m :: "host \<Rightarrow> bool mio" where
  "UnrarTarget_detect_m h =
     in_method UnrarTarget Detect
       (with_state_m (\<lambda>state. ret_m (has_source_file state ''rar.hpp'')))"

definition XdeltaTarget_prepare_source_m :: "host \<Rightarrow> unit mio" where
  "XdeltaTarget_prepare_source_m h =
     in_method XdeltaTarget PrepareSource
       (ext_m h (DownloadSource
          ''https://github.com/jmacd/xdelta/archive/refs/tags/v3.1.0.tar.gz''
          ''7515cf5378fca287a57f4e2fee1094aabc79569cfe60d91e06021a8fd7bae29d''
          None))"

definition XdeltaTarget_detect_m :: "host \<Rightarrow> bool mio" where
  "XdeltaTarget_detect_m h =
     in_method XdeltaTarget Detect
       (with_state_m (\<lambda>state. ret_m (has_source_file state ''xdelta3/xdelta3.h'')))"

definition XdeltaTarget_configure_m :: "host \<Rightarrow> unit mio" where
  "XdeltaTarget_configure_m h =
     in_method XdeltaTarget Configure
       (stmts_m [
        ext_m h (BaseHook MakeTarget Configure),
        with_state_m (\<lambda>state.
          let work_path = joinpath (build_path state) (src_root (self state))
          in subprocess_run_m h [''autoreconf'', ''--install''] True work_path),
        ext_m h (BaseHook ConfigureMakeDependencyTarget Configure)])"

definition XzTarget_prepare_source_m :: "host \<Rightarrow> unit mio" where
  "XzTarget_prepare_source_m h =
     in_method XzTarget PrepareSource
       (ext_m h (DownloadSource
          ''https://github.com/tukaani-project/xz/releases/download/v5.6.3/xz-5.6.3.tar.xz''
          ''db0590629b6f0fa36e74aea5f9731dc6f8df068ce7b7bafa45301832a5eebc3a''
          None))"

definition XzTarget_configure_m :: "host \<Rightarrow> unit mio" where
  "XzTarget_configure_m h =
     in_method XzTarget Configure
       (stmts_m [
        iadd_options_m ''BUILD_TESTING'' ''NO'',
        iadd_options_m ''CMAKE_EXE_LINKER_FLAGS'' ''-framework CoreFoundation -liconv'',
        ext_m h (BaseHook CMakeStaticDependencyTarget Configure)])"

definition ZipTarget_prepare_source_m :: "host \<Rightarrow> unit mio" where
  "ZipTarget_prepare_source_m h =
     in_method ZipTarget PrepareSource
       (ext_m h (DownloadSource
          ''https://downloads.sourceforge.net/project/infozip/Zip%203.x%20%28latest%29/3.0/zip30.tar.gz''
          ''f0e8bb1f9b7eb0b01285495a2699df3a4b766784c1765a8f1aeedf63c0806369''
          (Some ''zip-fix-misc'')))"

definition ZipTarget_detect_m :: "host \<Rightarrow> bool mio" where
  "ZipTarget_detect_m h =
     in_method ZipTarget Detect
       (with_state_m (\<lambda>state. ret_m (has_source_file state ''zip.h'')))"

text \<open>Method resolution, as for the first embedding.\<close>

fun prepare_source_m :: "host \<Rightarrow> cls \<Rightarrow> unit mio" where
  "prepare_source_m h BrotliTarget = BrotliTarget_prepare_source_m h"
| "prepare_source_m h Bzip2Target = Bzip2Target_prepare_source_m h"
| "prepare_source_m h ExpatTarget = ExpatTarget_prepare_source_m h"
| "prepare_source_m h FfiTarget = FfiTarget_prepare_source_m h"
| "prepare_source_m h FreeImageTarget = FreeImageTarget_prepare_source_m h"
| "prepare_source_m h GettextTarget = GettextTarget_prepare_source_m h"
| "prepare_source_m h HighwayTarget = HighwayTarget_prepare_source_m h"
| "prepare_source_m h IconvTarget = IconvTarget_prepare_source_m h"
| "prepare_source_m h IntlTarget = GettextTarget_prepare_source_m h"
| "prepare_source_m h JpegTurboTarget = JpegTurboTarget_prepare_source_m h"
| "prepare_source_m h TiffTarget = TiffTarget_prepare_source_m h"
| "prepare_source_m h WxWidgetsTarget = WxWidgetsTarget_prepare_source_m h"
| "prepare_source_m h AutoconfTarget = AutoconfTarget_prepare_source_m h"
| "prepare_source_m h AutomakeTarget = AutomakeTarget_prepare_source_m h"
| "prepare_source_m h Bzip3Target = Bzip3Target_prepare_source_m h"
| "prepare_source_m h FFmpegTarget = FFmpegTarget_prepare_source_m h"
| "prepare_source_m h LuaTarget = LuaTarget_prepare_source_m h"
| "prepare_source_m h M4Target = M4Target_prepare_source_m h"
| "prepare_source_m h P7ZipTarget = P7ZipTarget_prepare_source_m h"
| "prepare_source_m h PbzxTarget = PbzxTarget_prepare_source_m h"
| "prepare_source_m h Radare2Target = Radare2Target_prepare_source_m h"
| "prepare_source_m h RizinTarget = RizinTarget_prepare_source_m h"
| "prepare_source_m h SevenZipTarget = SevenZipTarget_prepare_source_m h"
| "prepare_source_m h UnrarTarget = UnrarTarget_prepare_source_m h"
| "prepare_source_m h XdeltaTarget = XdeltaTarget_prepare_source_m h"
| "prepare_source_m h XzTarget = XzTarget_prepare_source_m h"
| "prepare_source_m h ZipTarget = ZipTarget_prepare_source_m h"

fun detect_m :: "host \<Rightarrow> cls \<Rightarrow> bool mio" where
  "detect_m h BrotliTarget = inherited_detect_m h CMakeStaticDependencyTarget"
| "detect_m h Bzip2Target = Bzip2Target_detect_m h"
| "detect_m h ExpatTarget = inherited_detect_m h CMakeStaticDependencyTarget"
| "detect_m h FfiTarget = FfiTarget_detect_m h"
| "detect_m h FreeImageTarget = FreeImageTarget_detect_m h"
| "detect_m h GettextTarget = GettextTarget_detect_m h"
| "detect_m h HighwayTarget = inherited_detect_m h CMakeStaticDependencyTarget"
| "detect_m h IconvTarget = IconvTarget_detect_m h"
| "detect_m h IntlTarget = GettextTarget_detect_m h"
| "detect_m h JpegTurboTarget = inherited_detect_m h CMakeStaticDependencyTarget"
| "detect_m h TiffTarget = inherited_detect_m h CMakeStaticDependencyTarget"
| "detect_m h WxWidgetsTarget = inherited_detect_m h CMakeStaticDependencyTarget"
| "detect_m h AutoconfTarget = inherited_detect_m h ConfigureMakeDependencyTarget"
| "detect_m h AutomakeTarget = inherited_detect_m h ConfigureMakeDependencyTarget"
| "detect_m h Bzip3Target = inherited_detect_m h CMakeStaticDependencyTarget"
| "detect_m h FFmpegTarget = FFmpegTarget_detect_m h"
| "detect_m h LuaTarget = LuaTarget_detect_m h"
| "detect_m h M4Target = inherited_detect_m h ConfigureMakeDependencyTarget"
| "detect_m h P7ZipTarget = P7ZipTarget_detect_m h"
| "detect_m h PbzxTarget = PbzxTarget_detect_m h"
| "detect_m h Radare2Target = Radare2Target_detect_m h"
| "detect_m h RizinTarget = RizinTarget_detect_m h"
| "detect_m h SevenZipTarget = SevenZipTarget_detect_m h"
| "detect_m h UnrarTarget = UnrarTarget_detect_m h"
| "detect_m h XdeltaTarget = XdeltaTarget_detect_m h"
| "detect_m h XzTarget = inherited_detect_m h CMakeStaticDependencyTarget"
| "detect_m h ZipTarget = ZipTarget_detect_m h"

fun configure_m :: "host \<Rightarrow> cls \<Rightarrow> unit mio" where
  "configure_m h BrotliTarget = ext_m h (BaseHook CMakeStaticDependencyTarget Configure)"
| "configure_m h Bzip2Target = Bzip2Target_configure_m h"
| "configure_m h ExpatTarget = ExpatTarget_configure_m h"
| "configure_m h FfiTarget = ext_m h (BaseHook ConfigureMakeStaticDependencyTarget Configure)"
| "configure_m h FreeImageTarget = FreeImageTarget_configure_m h"
| "configure_m h GettextTarget = GettextTarget_configure_m h"
| "configure_m h HighwayTarget = HighwayTarget_configure_m h"
| "configure_m h IconvTarget = IconvTarget_configure_m h"
| "configure_m h IntlTarget = IntlTarget_configure_m h"
| "configure_m h JpegTurboTarget = JpegTurboTarget_configure_m h"
| "configure_m h TiffTarget = TiffTarget_configure_m h"
| "configure_m h WxWidgetsTarget = WxWidgetsTarget_configure_m h"
| "configure_m h AutoconfTarget = ext_m h (BaseHook ConfigureMakeDependencyTarget Configure)"
| "configure_m h AutomakeTarget = ext_m h (BaseHook ConfigureMakeDependencyTarget Configure)"
| "configure_m h Bzip3Target = Bzip3Target_configure_m h"
| "configure_m h FFmpegTarget = FFmpegTarget_configure_m h"
| "configure_m h LuaTarget = ext_m h (BaseHook MakeTarget Configure)"
| "configure_m h M4Target = ext_m h (BaseHook ConfigureMakeDependencyTarget Configure)"
| "configure_m h P7ZipTarget = ext_m h (BaseHook CMakeTarget Configure)"
| "configure_m h PbzxTarget = ext_m h (BaseHook SingleExeCTarget Configure)"
| "configure_m h Radare2Target = Radare2Target_configure_m h"
| "configure_m h RizinTarget = RizinTarget_configure_m h"
| "configure_m h SevenZipTarget = ext_m h (BaseHook MakeTarget Configure)"
| "configure_m h UnrarTarget = UnrarTarget_configure_m h"
| "configure_m h XdeltaTarget = XdeltaTarget_configure_m h"
| "configure_m h XzTarget = XzTarget_configure_m h"
| "configure_m h ZipTarget = ext_m h (BaseHook SingleExeCTarget Configure)"

fun build_m :: "host \<Rightarrow> cls \<Rightarrow> unit mio" where
  "build_m h BrotliTarget = ext_m h (BaseHook CMakeStaticDependencyTarget Build)"
| "build_m h Bzip2Target = ext_m h (BaseHook CMakeStaticDependencyTarget Build)"
| "build_m h ExpatTarget = ext_m h (BaseHook CMakeStaticDependencyTarget Build)"
| "build_m h FfiTarget = ext_m h (BaseHook ConfigureMakeStaticDependencyTarget Build)"
| "build_m h FreeImageTarget = ext_m h (BaseHook MakeTarget Build)"
| "build_m h GettextTarget = ext_m h (BaseHook ConfigureMakeStaticDependencyTarget Build)"
| "build_m h HighwayTarget = ext_m h (BaseHook CMakeStaticDependencyTarget Build)"
| "build_m h IconvTarget = ext_m h (BaseHook ConfigureMakeStaticDependencyTarget Build)"
| "build_m h IntlTarget = IntlTarget_build_m h"
| "build_m h JpegTurboTarget = ext_m h (BaseHook CMakeStaticDependencyTarget Build)"
| "build_m h TiffTarget = ext_m h (BaseHook CMakeStaticDependencyTarget Build)"
| "build_m h WxWidgetsTarget = ext_m h (BaseHook CMakeStaticDependencyTarget Build)"
| "build_m h AutoconfTarget = ext_m h (BaseHook ConfigureMakeDependencyTarget Build)"
| "build_m h AutomakeTarget = ext_m h (BaseHook ConfigureMakeDependencyTarget Build)"
| "build_m h Bzip3Target = ext_m h (BaseHook CMakeStaticDependencyTarget Build)"
| "build_m h FFmpegTarget = ext_m h (BaseHook ConfigureMakeDependencyTarget Build)"
| "build_m h LuaTarget = ext_m h (BaseHook MakeTarget Build)"
| "build_m h M4Target = ext_m h (BaseHook ConfigureMakeDependencyTarget Build)"
| "build_m h P7ZipTarget = ext_m h (BaseHook CMakeTarget Build)"
| "build_m h PbzxTarget = ext_m h (BaseHook SingleExeCTarget Build)"
| "build_m h Radare2Target = ext_m h (BaseHook MesonTarget Build)"
| "build_m h RizinTarget = ext_m h (BaseHook MesonTarget Build)"
| "build_m h SevenZipTarget = SevenZipTarget_build_m h"
| "build_m h UnrarTarget = ext_m h (BaseHook MakeTarget Build)"
| "build_m h XdeltaTarget = ext_m h (BaseHook ConfigureMakeDependencyTarget Build)"
| "build_m h XzTarget = ext_m h (BaseHook CMakeStaticDependencyTarget Build)"
| "build_m h ZipTarget = ext_m h (BaseHook SingleExeCTarget Build)"

fun post_build_m :: "host \<Rightarrow> cls \<Rightarrow> unit mio" where
  "post_build_m h BrotliTarget = BrotliTarget_post_build_m h"
| "post_build_m h Bzip2Target = Bzip2Target_post_build_m h"
| "post_build_m h ExpatTarget = ext_m h (BaseHook CMakeStaticDependencyTarget PostBuild)"
| "post_build_m h FfiTarget = FfiTarget_post_build_m h"
| "post_build_m h FreeImageTarget = FreeImageTarget_post_build_m h"
| "post_build_m h GettextTarget = ext_m h (BaseHook ConfigureMakeStaticDependencyTarget PostBuild)"
| "post_build_m h HighwayTarget = ext_m h (BaseHook CMakeStaticDependencyTarget PostBuild)"
| "post_build_m h IconvTarget = ext_m h (BaseHook ConfigureMakeStaticDependencyTarget PostBuild)"
| "post_build_m h IntlTarget = IntlTarget_post_build_m h"
| "post_build_m h JpegTurboTarget = ext_m h (BaseHook CMakeStaticDependencyTarget PostBuild)"
| "post_build_m h TiffTarget = ext_m h (BaseHook CMakeStaticDependencyTarget PostBuild)"
| "post_build_m h WxWidgetsTarget = WxWidgetsTarget_post_build_m h"
| "post_build_m h AutoconfTarget = ext_m h (BaseHook ConfigureMakeDependencyTarget PostBuild)"
| "post_build_m h AutomakeTarget = ext_m h (BaseHook ConfigureMakeDependencyTarget PostBuild)"
| "post_build_m h Bzip3Target = ext_m h (BaseHook CMakeStaticDependencyTarget PostBuild)"
| "post_build_m h FFmpegTarget = ext_m h (BaseHook ConfigureMakeDependencyTarget PostBuild)"
| "post_build_m h LuaTarget = LuaTarget_post_build_m h"
| "post_build_m h M4Target = ext_m h (BaseHook ConfigureMakeDependencyTarget PostBuild)"
| "post_build_m h P7ZipTarget = P7ZipTarget_post_build_m h"
| "post_build_m h PbzxTarget = ext_m h (BaseHook SingleExeCTarget PostBuild)"
| "post_build_m h Radare2Target = Radare2Target_post_build_m h"
| "post_build_m h RizinTarget = ext_m h (BaseHook MesonTarget PostBuild)"
| "post_build_m h SevenZipTarget = SevenZipTarget_post_build_m h"
| "post_build_m h UnrarTarget = UnrarTarget_post_build_m h"
| "post_build_m h XdeltaTarget = ext_m h (BaseHook ConfigureMakeDependencyTarget PostBuild)"
| "post_build_m h XzTarget = ext_m h (BaseHook CMakeStaticDependencyTarget PostBuild)"
| "post_build_m h ZipTarget = ext_m h (BaseHook SingleExeCTarget PostBuild)"

fun invoke_m :: "host \<Rightarrow> cls \<Rightarrow> hookname \<Rightarrow> unit mio" where
  "invoke_m h c PrepareSource = prepare_source_m h c"
| "invoke_m h c Detect = bind_m (detect_m h c) (\<lambda>found. ret_m ())"
| "invoke_m h c Configure = configure_m h c"
| "invoke_m h c Build = build_m h c"
| "invoke_m h c PostBuild = post_build_m h c"

text \<open>
  The two embeddings agree when the recording one returns the same value or exception
  and leaves the same world, whatever the log. A computation enters only the methods of
  a set when all it does to the log is to append members of the set.
\<close>

definition sim :: "'a mio \<Rightarrow> 'a io \<Rightarrow> bool" where
  "sim mm m = (\<forall>w l. fst (mm (w, l)) = fst (m w) \<and> fst (snd (mm (w, l))) = snd (m w))"

definition enters :: "(cls \<times> hookname) set \<Rightarrow> 'a mio \<Rightarrow> bool" where
  "enters S mm = (\<forall>w l. \<exists>added. snd (snd (mm (w, l))) = l @ added \<and> set added \<subseteq> S)"

text \<open>
  The methods entered by a run that starts with an empty log. Class \<open>c\<close> invokes class
  \<open>d\<close> when some hook of \<open>c\<close>, under some host and in some world, enters a method of
  \<open>d\<close>; \<open>c\<close> depends on another class \<open>d\<close> when it is derived from \<open>d\<close> or invokes
  it.
\<close>

definition entered :: "'a mio \<Rightarrow> world \<Rightarrow> log" where
  "entered mm w = snd (snd (mm (w, [])))"

definition invokes :: "cls \<Rightarrow> cls \<Rightarrow> bool" where
  "invokes c d = (\<exists>h k w k'. (d, k') \<in> set (entered (invoke_m h c k) w))"

definition depends_on :: "cls \<Rightarrow> cls \<Rightarrow> bool" where
  "depends_on c d = (c \<noteq> d \<and> (base_of c = Repo d \<or> invokes c d))"

text \<open>
  The host base class that a class is derived from, directly or through the class of the
  repository it is derived from; and the entries of the trace in which every hook of a
  base class that is called belongs to that base class, or, for \<open>XdeltaTarget\<close>, to
  \<open>MakeTarget\<close>, which its \<open>configure\<close> names.
\<close>

definition derives_from :: "cls \<Rightarrow> base_cls \<Rightarrow> bool" where
  "derives_from c b = (case base_of c of Base b' \<Rightarrow> b' = b | Repo d \<Rightarrow> base_of d = Base b)"

definition base_calls_of :: "cls \<Rightarrow> exn option \<Rightarrow> (call \<times> exn option) list \<Rightarrow> bool" where
  "base_calls_of c r added =
     list_all (\<lambda>(cl, x). case cl of
                 BaseHook b k \<Rightarrow> derives_from c b \<or> (c = XdeltaTarget \<and> b = MakeTarget)
               | _ \<Rightarrow> True) added"

section \<open>Notions used in the properties\<close>

text \<open>
  The number of positions of \<open>s\<close> at which \<open>old\<close> occurs; \<open>old\<close> occurs exactly once
  in \<open>s\<close> when this is 1.
\<close>

fun occurrences :: "string \<Rightarrow> string \<Rightarrow> nat" where
  "occurrences old [] = (if old = [] then 1 else 0)"
| "occurrences old (c # cs) = (if prefix old (c # cs) then 1 else 0) + occurrences old cs"

text \<open>A SHA-256 digest in hexadecimal: 64 characters, each a hexadecimal digit.\<close>

definition is_sha256_hex :: "string \<Rightarrow> bool" where
  "is_sha256_hex s = (length s = 64 \<and> list_all (\<lambda>c. c \<in> set ''0123456789abcdef'') s)"

text \<open>
  The files that the \<open>detect\<close> of a class names, in the order it tests them; empty for
  the classes that define no \<open>detect\<close>.
\<close>

fun marker_files :: "cls \<Rightarrow> string list" where
  "marker_files Bzip2Target = [''bzlib.h'']"
| "marker_files FfiTarget = [''libffi.pc.in'']"
| "marker_files FreeImageTarget = [''Source/FreeImage.h'']"
| "marker_files GettextTarget = [''gettext-runtime'']"
| "marker_files IconvTarget = [''include/iconv.h.in'']"
| "marker_files IntlTarget = [''gettext-runtime'']"
| "marker_files FFmpegTarget = [''doc/ffmpeg.txt'']"
| "marker_files LuaTarget = [''src/lua.h'']"
| "marker_files P7ZipTarget = [''CPP/7zip/CMAKE/CMakeLists.txt'', ''C/fast-lzma2/fast-lzma2.h'']"
| "marker_files PbzxTarget = [''pbzx.c'']"
| "marker_files Radare2Target = [''man/radare2.1'']"
| "marker_files RizinTarget = [''binrz/man/rizin.1'']"
| "marker_files SevenZipTarget = [''CPP/7zip/cmpl_mac_arm64.mak'']"
| "marker_files UnrarTarget = [''rar.hpp'']"
| "marker_files XdeltaTarget = [''xdelta3/xdelta3.h'']"
| "marker_files ZipTarget = [''zip.h'']"
| "marker_files c = []"

text \<open>
  A host that leaves the target object alone: no external call, command or base-class
  \<open>detect\<close> changes \<open>self\<close>. A computation keeps \<open>self\<close> when the target object is
  the same after it as before, whether it returns or raises.
\<close>

definition host_keeps_self :: "host \<Rightarrow> bool" where
  "host_keeps_self h =
     ((\<forall>c w. self (snd (effect h c w)) = self w) \<and>
      (\<forall>args cwd w. self (snd (process h args cwd w)) = self w) \<and>
      (\<forall>b w. self (snd (base_detect h b w)) = self w))"

definition keeps_self :: "'a io \<Rightarrow> bool" where
  "keeps_self m = (\<forall>w. self (snd (m w)) = self w)"

text \<open>
  \<open>traces Q m\<close>: whatever the world, \<open>m\<close> only appends to the trace, and the appended
  entries satisfy \<open>Q\<close> together with the way \<open>m\<close> ended (\<open>None\<close> for a return,
  \<open>Some e\<close> for the exception \<open>e\<close>).
\<close>

type_synonym entry = "call \<times> exn option"

definition traces :: "(exn option \<Rightarrow> entry list \<Rightarrow> bool) \<Rightarrow> 'a io \<Rightarrow> bool" where
  "traces Q m =
     (\<forall>w. \<exists>added. trace (snd (m w)) = trace w @ added \<and> Q (outcome (fst (m w))) added)"

definition closed :: "(exn option \<Rightarrow> entry list \<Rightarrow> bool) \<Rightarrow> bool" where
  "closed Q = ((\<forall>r. Q r []) \<and> (\<forall>r n1 n2. Q None n1 \<and> Q r n2 \<longrightarrow> Q r (n1 @ n2)))"

definition admits :: "(exn option \<Rightarrow> entry list \<Rightarrow> bool) \<Rightarrow> call \<Rightarrow> bool" where
  "admits Q c = (\<forall>r. Q r [(c, r)])"

text \<open>
  No failure is caught or changed: if the computation returns, no external call has
  raised; if it raises \<open>e\<close>, either no external call has raised (the exception comes
  from a statement of the recipe itself), or the last external call made is the only one
  that raised, and it raised \<open>e\<close>.
\<close>

definition faithful :: "exn option \<Rightarrow> entry list \<Rightarrow> bool" where
  "faithful r added =
     (case r of
        None \<Rightarrow> list_all (\<lambda>(c, x). x = None) added
      | Some e \<Rightarrow>
          list_all (\<lambda>(c, x). x = None) added \<or>
          (added \<noteq> [] \<and> snd (last added) = Some e \<and>
           list_all (\<lambda>(c, x). x = None) (butlast added)))"

text \<open>Every \<open>os.rename\<close> in the entries gives the new name that \<open>str.replace\<close> computes.\<close>

definition renames_by_replace :: "exn option \<Rightarrow> entry list \<Rightarrow> bool" where
  "renames_by_replace r added =
     list_all (\<lambda>(c, x). case c of
                 OsRename a b \<Rightarrow> b = str_replace ''-static.a'' ''.a'' a
               | _ \<Rightarrow> True) added"

section \<open>A host and a world for concrete runs\<close>

text \<open>
  A small host: base constructors store the name and empty defaults, \<open>os.unlink\<close> and
  \<open>os.rename\<close> act on the list of paths, every other call returns at once,
  \<open>autoreconf\<close> exits with status 0 when the source tree has \<open>xdelta3/configure.ac\<close>
  and with status 1 otherwise, and \<open>glob.iglob\<close> lists the paths with the suffix of the
  two patterns of \<open>BrotliTarget.post_build\<close>.
\<close>

definition sample_host :: host where
  "sample_host = \<lparr>
     base_init = (\<lambda>b n. \<lparr>name = n, src_root = [], multi_platform = True,
                         configure_prefix = True, target_options = []\<rparr>),
     effect = (\<lambda>c w. case c of
                 OsUnlink p \<Rightarrow> (None, w\<lparr>files := removeAll p (files w)\<rparr>)
               | OsRename a b \<Rightarrow> (None, w\<lparr>files := map (\<lambda>f. if f = a then b else f) (files w)\<rparr>)
               | _ \<Rightarrow> (None, w)),
     process = (\<lambda>args cwd w.
                 (Inr (if has_source_file w ''xdelta3/configure.ac'' then 0 else 1), w)),
     glob_result = (\<lambda>pattern w.
                 if pattern = joinpath (install_path w) ''lib/*.dylib''
                 then filter (\<lambda>f. suffix ''.dylib'' f) (files w)
                 else if pattern = joinpath (install_path w) ''lib/*-static.a''
                 then filter (\<lambda>f. suffix ''-static.a'' f) (files w)
                 else []),
     base_detect = (\<lambda>b w. (Inr True, w))\<rparr>"

definition sample_world :: "cls \<Rightarrow> world" where
  "sample_world c = \<lparr>
     self = construct sample_host c,
     options = [''BUILD_TESTING'' \<mapsto> PStr ''YES'', ''CMAKE_EXE_LINKER_FLAGS'' \<mapsto> PStr ''-lintl ''],
     environment = [''CFLAGS'' \<mapsto> ''-O2'', ''CXXFLAGS'' \<mapsto> ''-O2'', ''LDFLAGS'' \<mapsto> []],
     build_path = ''/build'',
     install_path = ''/opt'',
     has_source_file = (\<lambda>f. f \<in> set [''bzlib.h'', ''CPP/7zip/CMAKE/CMakeLists.txt'']),
     architecture = ''arm64'',
     files = [''/opt/lib/libbrotlidec.dylib'', ''/opt/lib/libbrotlidec-static.a''],
     trace = []\<rparr>"

text \<open>
  A host whose base classes detect nothing, and a world whose source tree has every file.
\<close>

definition bare_host :: host where
  "bare_host = sample_host\<lparr>base_detect := (\<lambda>b w. (Inr False, w))\<rparr>"

definition full_tree :: world where
  "full_tree = (sample_world BrotliTarget)\<lparr>has_source_file := (\<lambda>f. True)\<rparr>"

section \<open>Lemmas on \<open>str.replace\<close>\<close>

lemma str_replace_Nil: "old \<noteq> [] \<Longrightarrow> str_replace old rep [] = []"
  by (subst str_replace.simps) simp

lemma str_replace_hit:
  "old \<noteq> [] \<Longrightarrow> str_replace old rep (old @ r) = rep @ str_replace old rep r"
  by (subst str_replace.simps) simp

lemma str_replace_skip:
  "old \<noteq> [] \<Longrightarrow> \<not> prefix old (c # cs) \<Longrightarrow>
   str_replace old rep (c # cs) = c # str_replace old rep cs"
  by (subst str_replace.simps) simp

lemma str_replace_absent:
  "old \<noteq> [] \<Longrightarrow> occurrences old s = 0 \<Longrightarrow> str_replace old rep s = s"
  by (induction s) (simp_all add: str_replace_Nil str_replace_skip split: if_splits)

lemma occurrences_suffix_pos: "old \<noteq> [] \<Longrightarrow> 0 < occurrences old (b @ old)"
  by (induction b) (cases old; simp)+

text \<open>A single occurrence, at the end: the scan replaces exactly the suffix.\<close>

lemma str_replace_once:
  "old \<noteq> [] \<Longrightarrow> occurrences old (b @ old) = 1 \<Longrightarrow> str_replace old rep (b @ old) = b @ rep"
proof (induction b)
  case Nil
  then show ?case using str_replace_hit [of old rep "[]"] by (simp add: str_replace_Nil)
next
  case (Cons c b)
  have pos: "0 < occurrences old (b @ old)"
    using Cons.prems(1) by (rule occurrences_suffix_pos)
  from Cons.prems(2) pos
  have np: "\<not> prefix old (c # b @ old)" and one: "occurrences old (b @ old) = 1"
    by (auto split: if_splits)
  show ?case
    using Cons.IH [OF Cons.prems(1) one] str_replace_skip [OF Cons.prems(1) np] by simp
qed

text \<open>Removing occurrences never lengthens, and shortens when there is one.\<close>

lemma str_remove_length_le: "old \<noteq> [] \<Longrightarrow> length (str_replace old [] s) \<le> length s"
proof (induction s rule: length_induct)
  case (1 s)
  show ?case
  proof (cases "prefix old s")
    case True
    then obtain r where s: "s = old @ r" by (auto simp: prefix_def)
    have "length r < length s" using 1(2) by (simp add: s)
    then have "length (str_replace old [] r) \<le> length r" using 1 by blast
    then show ?thesis by (simp add: s str_replace_hit [OF 1(2)])
  next
    case False
    show ?thesis
    proof (cases s)
      case Nil
      then show ?thesis by (simp add: str_replace_Nil 1(2))
    next
      case (Cons c cs)
      have "length (str_replace old [] cs) \<le> length cs" using 1 Cons by simp
      then show ?thesis using False unfolding Cons by (simp add: str_replace_skip [OF 1(2)])
    qed
  qed
qed

lemma str_remove_length_less:
  "old \<noteq> [] \<Longrightarrow> 0 < occurrences old s \<Longrightarrow> length (str_replace old [] s) < length s"
proof (induction s)
  case Nil
  then show ?case by simp
next
  case (Cons c cs)
  show ?case
  proof (cases "prefix old (c # cs)")
    case True
    then obtain r where s: "c # cs = old @ r" by (auto simp: prefix_def)
    have "length (str_replace old [] r) \<le> length r"
      using Cons.prems(1) by (rule str_remove_length_le)
    then have "length (str_replace old [] (old @ r)) \<le> length r"
      by (simp add: str_replace_hit [OF Cons.prems(1)])
    moreover have "length r < length (old @ r)" using Cons.prems(1) by (cases old) simp_all
    ultimately show ?thesis unfolding s by (rule le_less_trans)
  next
    case False
    then have "0 < occurrences old cs" using Cons.prems(2) by simp
    then have "length (str_replace old [] cs) < length cs" using Cons by blast
    then show ?thesis using False by (simp add: str_replace_skip [OF Cons.prems(1)])
  qed
qed

lemma str_remove_fixed_iff:
  "old \<noteq> [] \<Longrightarrow> (str_replace old [] s = s) = (occurrences old s = 0)"
  using str_remove_length_less [of old s] str_replace_absent [of old s "[]"]
  by (cases "occurrences old s = 0") auto

text \<open>The archive suffix does not overlap itself, so each occurrence costs 7 characters.\<close>

lemma archive_suffix_nonempty: "archive_suffix \<noteq> []"
  by (simp add: archive_suffix_def)

lemma occurrences_after_suffix:
  "occurrences archive_suffix (archive_suffix @ r) = Suc (occurrences archive_suffix r)"
  by (simp add: archive_suffix_def)

lemma no_suffix_name_length:
  "length (no_suffix_name s) + 7 * occurrences archive_suffix s = length s"
  unfolding no_suffix_name_def
proof (induction s rule: length_induct)
  case (1 s)
  show ?case
  proof (cases "prefix archive_suffix s")
    case True
    then obtain r where s: "s = archive_suffix @ r" by (auto simp: prefix_def)
    have r: "length r < length s" by (simp add: s archive_suffix_def)
    have "length (str_replace archive_suffix ''.a'' r) + 7 * occurrences archive_suffix r
            = length r"
      using 1 r by blast
    then show ?thesis
      unfolding s occurrences_after_suffix str_replace_hit [OF archive_suffix_nonempty]
      by (simp add: archive_suffix_def)
  next
    case False
    show ?thesis
    proof (cases s)
      case Nil
      then show ?thesis by (simp add: str_replace_Nil archive_suffix_nonempty)
    next
      case (Cons c cs)
      have "length (str_replace archive_suffix ''.a'' cs) + 7 * occurrences archive_suffix cs
              = length cs"
        using 1 Cons by simp
      then show ?thesis
        using False unfolding Cons
        by (simp add: str_replace_skip [OF archive_suffix_nonempty])
    qed
  qed
qed

lemma suffix_replacement_iff:
  assumes "suffix archive_suffix a"
  shows "(no_suffix_name a = take (length a - length archive_suffix) a @ ''.a'')
         = (occurrences archive_suffix a = 1)"
proof -
  from assms obtain b where a: "a = b @ archive_suffix" by (auto simp: suffix_def)
  have len: "length (no_suffix_name a) + 7 * occurrences archive_suffix a = length a"
    by (rule no_suffix_name_length)
  have tk: "take (length a - length archive_suffix) a = b" by (simp add: a)
  show ?thesis
  proof
    assume "no_suffix_name a = take (length a - length archive_suffix) a @ ''.a''"
    then have "length (no_suffix_name a) = length b + 2" by (simp add: tk)
    with len show "occurrences archive_suffix a = 1"
      by (simp add: a archive_suffix_def)
  next
    assume "occurrences archive_suffix a = 1"
    then have "str_replace archive_suffix ''.a'' (b @ archive_suffix) = b @ ''.a''"
      unfolding a by (rule str_replace_once [OF archive_suffix_nonempty])
    then show "no_suffix_name a = take (length a - length archive_suffix) a @ ''.a''"
      by (simp add: tk no_suffix_name_def) (simp add: a)
  qed
qed

section \<open>Lemmas on the line rewriters\<close>

lemma Bzip2Target_rewrite_idem:
  "Bzip2Target_process_pkg_config p (Bzip2Target_process_pkg_config p s)
     = Bzip2Target_process_pkg_config p s"
  by (simp add: Bzip2Target_process_pkg_config_def startswith_def)

lemma Bzip3Target_rewrite_idem:
  "Bzip3Target_process_pkg_config p (Bzip3Target_process_pkg_config p s)
     = Bzip3Target_process_pkg_config p s"
  by (simp add: Bzip3Target_process_pkg_config_def startswith_def)

lemma TiffTarget_rewrite_idem:
  "TiffTarget_process_pkg_config p (TiffTarget_process_pkg_config p s)
     = TiffTarget_process_pkg_config p s"
  by (simp add: TiffTarget_process_pkg_config_def startswith_def Let_def)

lemma patch_setup_h_idem: "patch_setup_h (patch_setup_h s) = patch_setup_h s"
  by (simp add: patch_setup_h_def startswith_def Let_def)

lemma patch_wx_config_idem: "patch_wx_config (patch_wx_config s) = patch_wx_config s"
  by (simp add: patch_wx_config_def startswith_def Let_def)

lemma Libs_prefix_kept:
  assumes "prefix ''Libs:'' s"
  shows "prefix ''Libs:'' (str_replace ''-R${libdir} '' [] s)"
proof -
  from assms obtain r where s: "s = ''Libs:'' @ r" by (auto simp: prefix_def)
  show ?thesis unfolding s by (simp add: str_replace_skip)
qed

lemma BrotliTarget_rewrite_idem_iff:
  "(BrotliTarget_process_pkg_config p (BrotliTarget_process_pkg_config p s)
      = BrotliTarget_process_pkg_config p s)
   = (startswith s ''Libs:'' \<longrightarrow>
        occurrences ''-R${libdir} '' (str_replace ''-R${libdir} '' [] s) = 0)"
proof (cases "startswith s ''Libs:''")
  case False
  then show ?thesis by (simp add: BrotliTarget_process_pkg_config_def)
next
  case True
  then have "startswith (str_replace ''-R${libdir} '' [] s) ''Libs:''"
    unfolding startswith_def by (rule Libs_prefix_kept)
  then show ?thesis using True
    by (simp add: BrotliTarget_process_pkg_config_def str_remove_fixed_iff)
qed

section \<open>The line rewriters are pure\<close>

text \<open>
  C1. Each line rewriter (the \<open>_process_pkg_config\<close> of BrotliTarget, Bzip2Target,
  TiffTarget and Bzip3Target, and \<open>patch_setup_h\<close> and \<open>patch_wx_config\<close> of
  WxWidgetsTarget) is a deterministic pure function of its input. A call in any world
  returns, without raising, the value of one function of the line (the \<open>pcfile\<close> path
  does not matter), and leaves the world exactly as it found it; so two calls on the same
  input return the same line, whatever the worlds \<open>w\<close> and \<open>w'\<close> they run in.
\<close>

theorem line_rewriters_pure:
  "BrotliTarget_process_pkg_config_call p s w = (Inr (BrotliTarget_process_pkg_config p' s), w) \<and>
   Bzip2Target_process_pkg_config_call p s w = (Inr (Bzip2Target_process_pkg_config p' s), w) \<and>
   TiffTarget_process_pkg_config_call p s w = (Inr (TiffTarget_process_pkg_config p' s), w) \<and>
   Bzip3Target_process_pkg_config_call p s w = (Inr (Bzip3Target_process_pkg_config p' s), w) \<and>
   patch_setup_h_call s w = (Inr (patch_setup_h s), w) \<and>
   patch_wx_config_call s w = (Inr (patch_wx_config s), w) \<and>
   fst (BrotliTarget_process_pkg_config_call p s w) = fst (BrotliTarget_process_pkg_config_call p s w') \<and>
   fst (Bzip2Target_process_pkg_config_call p s w) = fst (Bzip2Target_process_pkg_config_call p s w') \<and>
   fst (TiffTarget_process_pkg_config_call p s w) = fst (TiffTarget_process_pkg_config_call p s w') \<and>
   fst (Bzip3Target_process_pkg_config_call p s w) = fst (Bzip3Target_process_pkg_config_call p s w') \<and>
   fst (patch_setup_h_call s w) = fst (patch_setup_h_call s w') \<and>
   fst (patch_wx_config_call s w) = fst (patch_wx_config_call s w')"
  by (simp add: BrotliTarget_process_pkg_config_call_def Bzip2Target_process_pkg_config_call_def
      TiffTarget_process_pkg_config_call_def Bzip3Target_process_pkg_config_call_def
      patch_setup_h_call_def patch_wx_config_call_def
      BrotliTarget_process_pkg_config_def Bzip2Target_process_pkg_config_def
      TiffTarget_process_pkg_config_def Bzip3Target_process_pkg_config_def
      patch_setup_h_def patch_wx_config_def ret_def Let_def)

section \<open>Idempotence of the line rewriters\<close>

text \<open>
  C8, as stated, fails for \<open>BrotliTarget._process_pkg_config\<close>: removing the
  occurrences of \<open>-R${libdir} \<close> from a \<open>Libs:\<close> line can join the text around them
  into a new occurrence, which a second run removes.
\<close>

theorem BrotliTarget_rewrite_not_idempotent:
  "BrotliTarget_process_pkg_config ''libbrotlidec.pc''
     (BrotliTarget_process_pkg_config ''libbrotlidec.pc'' ''Libs:-R${lib-R${libdir} dir} '')
   \<noteq> BrotliTarget_process_pkg_config ''libbrotlidec.pc'' ''Libs:-R${lib-R${libdir} dir} ''"
  by (simp add: BrotliTarget_process_pkg_config_def startswith_def str_replace.simps)

text \<open>
  C8, amended. The rewriters of Bzip2Target, TiffTarget and Bzip3Target and the two
  closures of WxWidgetsTarget are idempotent on every line. The rewriter of BrotliTarget
  is idempotent on a line exactly when the line does not start with \<open>Libs:\<close> or its
  rewritten form has no occurrence of \<open>-R${libdir} \<close> left.
\<close>

theorem line_rewriters_idempotent:
  "Bzip2Target_process_pkg_config p (Bzip2Target_process_pkg_config p s)
     = Bzip2Target_process_pkg_config p s \<and>
   TiffTarget_process_pkg_config p (TiffTarget_process_pkg_config p s)
     = TiffTarget_process_pkg_config p s \<and>
   Bzip3Target_process_pkg_config p (Bzip3Target_process_pkg_config p s)
     = Bzip3Target_process_pkg_config p s \<and>
   patch_setup_h (patch_setup_h s) = patch_setup_h s \<and>
   patch_wx_config (patch_wx_config s) = patch_wx_config s \<and>
   ((BrotliTarget_process_pkg_config p (BrotliTarget_process_pkg_config p s)
       = BrotliTarget_process_pkg_config p s)
    = (startswith s ''Libs:'' \<longrightarrow>
         occurrences ''-R${libdir} '' (str_replace ''-R${libdir} '' [] s) = 0))"
  by (simp only: Bzip2Target_rewrite_idem TiffTarget_rewrite_idem Bzip3Target_rewrite_idem
      patch_setup_h_idem patch_wx_config_idem BrotliTarget_rewrite_idem_iff simp_thms)

theorem line_rewriters_idempotent_witness:
  "startswith ''Libs: -L${libdir} -R${libdir} -lbrotlidec'' ''Libs:'' \<and>
   occurrences ''-R${libdir} ''
     (str_replace ''-R${libdir} '' [] ''Libs: -L${libdir} -R${libdir} -lbrotlidec'') = 0 \<and>
   BrotliTarget_process_pkg_config ''libbrotlidec.pc''
     (BrotliTarget_process_pkg_config ''libbrotlidec.pc''
        ''Libs: -L${libdir} -R${libdir} -lbrotlidec'')
   = BrotliTarget_process_pkg_config ''libbrotlidec.pc''
       ''Libs: -L${libdir} -R${libdir} -lbrotlidec''"
proof -
  have a: "startswith ''Libs: -L${libdir} -R${libdir} -lbrotlidec'' ''Libs:''"
    by (simp add: startswith_def)
  have b: "occurrences ''-R${libdir} ''
     (str_replace ''-R${libdir} '' [] ''Libs: -L${libdir} -R${libdir} -lbrotlidec'') = 0"
    by (simp add: str_replace.simps)
  show ?thesis
    using a b line_rewriters_idempotent
      [of "''libbrotlidec.pc''" "''Libs: -L${libdir} -R${libdir} -lbrotlidec''"]
    by blast
qed

section \<open>Statements that keep the target object\<close>

lemma keeps_self_ret: "keeps_self (ret x)"
  by (simp add: keeps_self_def ret_def)

lemma keeps_self_bind:
  "keeps_self m \<Longrightarrow> (\<And>x. keeps_self (f x)) \<Longrightarrow> keeps_self (bind_io m f)"
  unfolding keeps_self_def bind_io_def
  by (auto split: prod.splits sum.splits) (metis snd_conv)+

lemma keeps_self_stmts_Nil: "keeps_self (stmts [])"
  by (simp add: keeps_self_def)

lemma keeps_self_stmts_Cons:
  "keeps_self s \<Longrightarrow> keeps_self (stmts ss) \<Longrightarrow> keeps_self (stmts (s # ss))"
  unfolding keeps_self_def
  by (auto split: prod.splits sum.splits) (metis snd_conv)+

lemma keeps_self_for_each: "(\<And>x. keeps_self (body x)) \<Longrightarrow> keeps_self (for_each xs body)"
  unfolding for_each_def
  by (induction xs) (simp_all add: keeps_self_stmts_Nil keeps_self_stmts_Cons)

lemma keeps_self_with_state: "(\<And>state. keeps_self (f state)) \<Longrightarrow> keeps_self (with_state f)"
  by (simp add: keeps_self_def with_state_def)

lemma keeps_self_if: "keeps_self a \<Longrightarrow> keeps_self b \<Longrightarrow> keeps_self (if c then a else b)"
  by simp

lemma keeps_self_and_io: "keeps_self a \<Longrightarrow> keeps_self b \<Longrightarrow> keeps_self (and_io a b)"
  unfolding and_io_def by (intro keeps_self_bind keeps_self_if keeps_self_ret)

lemma keeps_self_ext: "host_keeps_self h \<Longrightarrow> keeps_self (ext h c)"
  unfolding keeps_self_def host_keeps_self_def ext_def
  by (auto split: prod.splits option.splits) (metis snd_conv)+

lemma keeps_self_subprocess_run:
  "host_keeps_self h \<Longrightarrow> keeps_self (subprocess_run h args check cwd)"
  unfolding keeps_self_def host_keeps_self_def subprocess_run_def
  by (auto split: prod.splits sum.splits) (metis snd_conv)+

lemma keeps_self_inherited_detect: "host_keeps_self h \<Longrightarrow> keeps_self (inherited_detect h b)"
  unfolding keeps_self_def host_keeps_self_def inherited_detect_def
  by (auto split: prod.splits) (metis snd_conv)+

lemma keeps_self_setitem_options: "keeps_self (setitem_options k v)"
  by (simp add: keeps_self_def setitem_options_def)

lemma keeps_self_iadd_options: "keeps_self (iadd_options k s)"
  by (simp add: keeps_self_def iadd_options_def split: option.splits pyval.splits)

lemma keeps_self_getitem_environment: "keeps_self (getitem_environment k)"
  by (simp add: keeps_self_def getitem_environment_def split: option.splits)

lemma keeps_self_iadd_environment: "keeps_self (iadd_environment k s)"
  by (simp add: keeps_self_def iadd_environment_def split: option.splits)

lemma keeps_self_set_build_path: "keeps_self (set_build_path v)"
  by (simp add: keeps_self_def set_build_path_def)

lemmas keeps_self_intros =
  keeps_self_ret keeps_self_bind keeps_self_stmts_Nil keeps_self_stmts_Cons keeps_self_for_each
  keeps_self_with_state keeps_self_if keeps_self_and_io keeps_self_ext keeps_self_subprocess_run
  keeps_self_inherited_detect keeps_self_setitem_options keeps_self_iadd_options
  keeps_self_getitem_environment keeps_self_iadd_environment keeps_self_set_build_path

lemmas library_hook_defs =
  BrotliTarget_prepare_source_def BrotliTarget_post_build_def
  Bzip2Target_prepare_source_def Bzip2Target_detect_def Bzip2Target_configure_def
  Bzip2Target_post_build_def
  ExpatTarget_prepare_source_def ExpatTarget_configure_def
  FfiTarget_prepare_source_def FfiTarget_detect_def FfiTarget_post_build_def
  FreeImageTarget_prepare_source_def FreeImageTarget_detect_def FreeImageTarget_configure_def
  FreeImageTarget_post_build_def
  GettextTarget_prepare_source_def GettextTarget_detect_def GettextTarget_configure_def
  HighwayTarget_prepare_source_def HighwayTarget_configure_def
  IconvTarget_prepare_source_def IconvTarget_detect_def IconvTarget_configure_def
  IntlTarget_post_build_def
  JpegTurboTarget_prepare_source_def JpegTurboTarget_configure_def
  TiffTarget_prepare_source_def TiffTarget_configure_def
  WxWidgetsTarget_prepare_source_def WxWidgetsTarget_configure_def WxWidgetsTarget_post_build_def

lemmas tool_hook_defs =
  AutoconfTarget_prepare_source_def AutomakeTarget_prepare_source_def
  Bzip3Target_prepare_source_def Bzip3Target_configure_def
  FFmpegTarget_prepare_source_def FFmpegTarget_detect_def FFmpegTarget_configure_def
  LuaTarget_prepare_source_def LuaTarget_detect_def LuaTarget_post_build_def
  M4Target_prepare_source_def
  P7ZipTarget_prepare_source_def P7ZipTarget_detect_def P7ZipTarget_post_build_def
  PbzxTarget_prepare_source_def PbzxTarget_detect_def
  Radare2Target_prepare_source_def Radare2Target_detect_def Radare2Target_configure_def
  Radare2Target_post_build_def
  RizinTarget_prepare_source_def RizinTarget_detect_def RizinTarget_configure_def
  SevenZipTarget_prepare_source_def SevenZipTarget_detect_def SevenZipTarget_build_def
  SevenZipTarget_post_build_def
  UnrarTarget_prepare_source_def UnrarTarget_detect_def UnrarTarget_configure_def
  UnrarTarget_post_build_def
  XdeltaTarget_prepare_source_def XdeltaTarget_detect_def XdeltaTarget_configure_def
  XzTarget_prepare_source_def XzTarget_configure_def
  ZipTarget_prepare_source_def ZipTarget_detect_def

lemma keeps_self_prepare_source: "host_keeps_self h \<Longrightarrow> keeps_self (prepare_source h c)"
  by (cases c) (simp_all add: library_hook_defs tool_hook_defs keeps_self_ext)

lemma keeps_self_detect: "host_keeps_self h \<Longrightarrow> keeps_self (detect h c)"
  by (cases c; simp add: library_hook_defs tool_hook_defs; intro keeps_self_intros; assumption?)

lemma keeps_self_GettextTarget_configure:
  "host_keeps_self h \<Longrightarrow> keeps_self (GettextTarget_configure h)"
  unfolding GettextTarget_configure_def by (intro keeps_self_intros)

lemma keeps_self_configure:
  "host_keeps_self h \<Longrightarrow> c \<noteq> IntlTarget \<Longrightarrow> keeps_self (configure h c)"
  by (cases c; simp add: library_hook_defs tool_hook_defs Let_def; intro keeps_self_intros; assumption?)

lemma keeps_self_build:
  "host_keeps_self h \<Longrightarrow> c \<noteq> IntlTarget \<Longrightarrow> keeps_self (build h c)"
  by (cases c; simp add: library_hook_defs tool_hook_defs Let_def; intro keeps_self_intros; assumption?)

lemma keeps_self_post_build: "host_keeps_self h \<Longrightarrow> keeps_self (post_build h c)"
  by (cases c; simp add: library_hook_defs tool_hook_defs Let_def; intro keeps_self_intros; assumption?)


section \<open>Statements and the trace of external calls\<close>

lemma traces_pure:
  assumes "closed Q" and "\<And>w. trace (snd (m w)) = trace w"
  shows "traces Q m"
  using assms unfolding traces_def closed_def by auto

lemma traces_ret: "closed Q \<Longrightarrow> traces Q (ret x)"
  by (rule traces_pure) (simp_all add: ret_def)

lemma traces_bind:
  assumes Q: "closed Q" and m: "traces Q m" and f: "\<And>x. traces Q (f x)"
  shows "traces Q (bind_io m f)"
  unfolding traces_def
proof
  fix w
  from m obtain n1 where n1: "trace (snd (m w)) = trace w @ n1" "Q (outcome (fst (m w))) n1"
    unfolding traces_def by blast
  show "\<exists>new. trace (snd (bind_io m f w)) = trace w @ new \<and> Q (outcome (fst (bind_io m f w))) new"
  proof (cases "m w")
    case (Pair r w')
    show ?thesis
    proof (cases r)
      case (Inl e)
      then show ?thesis using n1 Pair by (auto simp: bind_io_def outcome_def)
    next
      case (Inr x)
      from f obtain n2 where n2: "trace (snd (f x w')) = trace w' @ n2" "Q (outcome (fst (f x w'))) n2"
        unfolding traces_def by blast
      have "Q None n1" using n1(2) Pair Inr by (simp add: outcome_def)
      then have "Q (outcome (fst (f x w'))) (n1 @ n2)"
        using Q n2(2) unfolding closed_def by blast
      then show ?thesis using n1(1) n2(1) Pair Inr by (auto simp: bind_io_def)
    qed
  qed
qed

lemma stmts_Cons_bind: "stmts (s # ss) = bind_io s (\<lambda>u. stmts ss)"
  by (rule ext) (simp add: bind_io_def split: prod.splits sum.splits)

lemma traces_stmts_Nil: "closed Q \<Longrightarrow> traces Q (stmts [])"
  by (rule traces_pure) simp_all

lemma traces_stmts_Cons:
  "closed Q \<Longrightarrow> traces Q s \<Longrightarrow> traces Q (stmts ss) \<Longrightarrow> traces Q (stmts (s # ss))"
  unfolding stmts_Cons_bind by (rule traces_bind)

lemma traces_for_each:
  "closed Q \<Longrightarrow> (\<And>x. traces Q (body x)) \<Longrightarrow> traces Q (for_each xs body)"
  unfolding for_each_def
  by (induction xs) (simp_all add: traces_stmts_Nil traces_stmts_Cons)

lemma traces_with_state: "(\<And>state. traces Q (f state)) \<Longrightarrow> traces Q (with_state f)"
  by (simp add: traces_def with_state_def)

lemma traces_if: "traces Q a \<Longrightarrow> traces Q b \<Longrightarrow> traces Q (if c then a else b)"
  by simp

lemma traces_and_io: "closed Q \<Longrightarrow> traces Q a \<Longrightarrow> traces Q b \<Longrightarrow> traces Q (and_io a b)"
  unfolding and_io_def by (intro traces_bind traces_if traces_ret)

lemma traces_ext: "admits Q c \<Longrightarrow> traces Q (ext h c)"
  unfolding traces_def admits_def ext_def outcome_def
  by (auto split: prod.splits option.splits)

lemma traces_subprocess_run:
  "admits Q (SubprocessRun args cwd) \<Longrightarrow> traces Q (subprocess_run h args check cwd)"
  unfolding traces_def admits_def subprocess_run_def outcome_def
  by (auto split: prod.splits sum.splits)

lemma traces_inherited_detect:
  "admits Q (BaseHook b Detect) \<Longrightarrow> traces Q (inherited_detect h b)"
  unfolding traces_def admits_def inherited_detect_def
  by (auto split: prod.splits)

lemma traces_setitem_options: "closed Q \<Longrightarrow> traces Q (setitem_options k v)"
  by (rule traces_pure) (simp_all add: setitem_options_def)

lemma traces_iadd_options: "closed Q \<Longrightarrow> traces Q (iadd_options k s)"
  by (rule traces_pure) (simp_all add: iadd_options_def split: option.splits pyval.splits)

lemma traces_getitem_environment: "closed Q \<Longrightarrow> traces Q (getitem_environment k)"
  by (rule traces_pure) (simp_all add: getitem_environment_def split: option.splits)

lemma traces_iadd_environment: "closed Q \<Longrightarrow> traces Q (iadd_environment k s)"
  by (rule traces_pure) (simp_all add: iadd_environment_def split: option.splits)

lemma traces_set_build_path: "closed Q \<Longrightarrow> traces Q (set_build_path v)"
  by (rule traces_pure) (simp_all add: set_build_path_def)

lemma traces_set_src_root: "closed Q \<Longrightarrow> traces Q (set_src_root v)"
  by (rule traces_pure) (simp_all add: set_src_root_def)

lemmas traces_intros =
  traces_ret traces_bind traces_stmts_Nil traces_stmts_Cons traces_for_each traces_with_state
  traces_if traces_and_io traces_ext traces_subprocess_run traces_inherited_detect
  traces_setitem_options traces_iadd_options traces_getitem_environment traces_iadd_environment
  traces_set_build_path traces_set_src_root

lemma closed_faithful: "closed faithful"
  unfolding closed_def faithful_def
  by (auto split: option.splits simp: butlast_append)

lemma admits_faithful: "admits faithful c"
  unfolding admits_def faithful_def by (auto split: option.splits)

lemma faithful_hooks: "traces faithful (invoke h c k)"
  by (cases c; cases k;
      simp add: library_hook_defs tool_hook_defs IntlTarget_configure_def IntlTarget_build_def Let_def;
      intro traces_intros closed_faithful admits_faithful)



section \<open>Lemmas for the hooks of BrotliTarget and IntlTarget\<close>

lemma closed_renames: "closed renames_by_replace"
  unfolding closed_def renames_by_replace_def by simp

lemma admits_renames_BaseHook: "admits renames_by_replace (BaseHook b k)"
  unfolding admits_def renames_by_replace_def by simp

lemma admits_renames_OsUnlink: "admits renames_by_replace (OsUnlink p)"
  unfolding admits_def renames_by_replace_def by simp

lemma admits_renames_OsRename: "admits renames_by_replace (OsRename a (no_suffix_name a))"
  unfolding admits_def renames_by_replace_def no_suffix_name_def archive_suffix_def by simp

lemma BrotliTarget_post_build_renames: "traces renames_by_replace (BrotliTarget_post_build h)"
  unfolding BrotliTarget_post_build_def Let_def
  by (intro traces_intros closed_renames admits_renames_BaseHook admits_renames_OsUnlink
      admits_renames_OsRename)

lemma keeps_selfD: "keeps_self m \<Longrightarrow> self (snd (m w)) = self w"
  by (simp add: keeps_self_def)

lemma IntlTarget_configure_self:
  assumes "host_keeps_self h"
  shows "self (snd (IntlTarget_configure h w)) = (self w)\<lparr>src_root := ''gettext-runtime''\<rparr>"
proof -
  have k: "keeps_self (stmts [GettextTarget_configure h])"
    using assms by (intro keeps_self_intros keeps_self_GettextTarget_configure)
  show ?thesis
    unfolding IntlTarget_configure_def
    by (simp add: setitem_options_def set_src_root_def keeps_selfD [OF k] del: stmts.simps(2)
        add: stmts.simps(2) [of "setitem_options k v" for k v] stmts.simps(2) [of "set_src_root v" for v])
qed

lemma IntlTarget_build_self:
  assumes "host_keeps_self h"
  shows "self (snd (IntlTarget_build h w)) = (self w)\<lparr>src_root := src_root (self w) @ ''/intl''\<rparr>"
proof -
  have k: "keeps_self (stmts [ext h (BaseHook ConfigureMakeStaticDependencyTarget Build)])"
    using assms by (intro keeps_self_intros)
  show ?thesis
    unfolding IntlTarget_build_def
    by (simp add: with_state_def set_src_root_def keeps_selfD [OF k] del: stmts.simps(2)
        add: stmts.simps(2) [of "with_state f" for f])
qed

lemma keeps_self_invoke:
  assumes "host_keeps_self h" and "(c, k) \<notin> {(IntlTarget, Configure), (IntlTarget, Build)}"
  shows "keeps_self (invoke h c k)"
proof (cases k)
  case PrepareSource
  then show ?thesis using assms by (simp add: keeps_self_prepare_source)
next
  case Detect
  then show ?thesis using assms
    by (simp add: keeps_self_bind keeps_self_detect keeps_self_ret)
next
  case Configure
  then show ?thesis using assms by (simp add: keeps_self_configure)
next
  case Build
  then show ?thesis using assms by (simp add: keeps_self_build)
next
  case PostBuild
  then show ?thesis using assms by (simp add: keeps_self_post_build)
qed

lemma host_keeps_self_sample: "host_keeps_self sample_host"
  unfolding host_keeps_self_def sample_host_def
  by (simp split: call.splits)

section \<open>The target object across hook invocations\<close>

text \<open>
  C3, as stated, fails for \<open>IntlTarget\<close>: its \<open>configure\<close> assigns
  \<open>self.src_root\<close>, so the target object is not the same after the call, even with a
  host that never touches it.
\<close>

theorem IntlTarget_configure_changes_self:
  "self (snd (invoke sample_host IntlTarget Configure (sample_world IntlTarget)))
   \<noteq> self (sample_world IntlTarget)"
  by (simp add: IntlTarget_configure_def GettextTarget_configure_def setitem_options_def
      set_src_root_def ext_def sample_host_def sample_world_def construct_def
      GettextTarget_init_def)

text \<open>
  C3, amended. Provided the host's calls leave the target object unchanged, every hook of
  every target other than \<open>IntlTarget\<close>, and \<open>prepare_source\<close>, \<open>detect\<close> and
  \<open>post_build\<close> of \<open>IntlTarget\<close>, leave all attributes of the target object
  unchanged, whether the hook returns or raises. \<open>IntlTarget.configure\<close> sets
  \<open>src_root\<close> to \<open>gettext-runtime\<close> and \<open>IntlTarget.build\<close> appends \<open>/intl\<close> to
  it; they change no other attribute.
\<close>

theorem hooks_keep_target:
  "host_keeps_self h \<longrightarrow>
     ((c, k) \<notin> {(IntlTarget, Configure), (IntlTarget, Build)} \<longrightarrow>
        self (snd (invoke h c k w)) = self w) \<and>
     self (snd (invoke h IntlTarget PrepareSource w)) = self w \<and>
     self (snd (invoke h IntlTarget Detect w)) = self w \<and>
     self (snd (invoke h IntlTarget PostBuild w)) = self w \<and>
     self (snd (invoke h IntlTarget Configure w)) = (self w)\<lparr>src_root := ''gettext-runtime''\<rparr> \<and>
     self (snd (invoke h IntlTarget Build w))
       = (self w)\<lparr>src_root := src_root (self w) @ ''/intl''\<rparr>"
proof
  assume h: "host_keeps_self h"
  have a: "(c, k) \<notin> {(IntlTarget, Configure), (IntlTarget, Build)} \<longrightarrow>
        self (snd (invoke h c k w)) = self w"
    using keeps_self_invoke [OF h, of c k] by (simp only: keeps_self_def) blast
  have b: "self (snd (invoke h IntlTarget PrepareSource w)) = self w"
    by (rule keeps_selfD [OF keeps_self_invoke [OF h]]) simp
  have c: "self (snd (invoke h IntlTarget Detect w)) = self w"
    by (rule keeps_selfD [OF keeps_self_invoke [OF h]]) simp
  have d: "self (snd (invoke h IntlTarget PostBuild w)) = self w"
    by (rule keeps_selfD [OF keeps_self_invoke [OF h]]) simp
  have e: "self (snd (invoke h IntlTarget Configure w))
             = (self w)\<lparr>src_root := ''gettext-runtime''\<rparr>"
    using IntlTarget_configure_self [OF h] by simp
  have f: "self (snd (invoke h IntlTarget Build w))
             = (self w)\<lparr>src_root := src_root (self w) @ ''/intl''\<rparr>"
    using IntlTarget_build_self [OF h] by simp
  from a b c d e f show "((c, k) \<notin> {(IntlTarget, Configure), (IntlTarget, Build)} \<longrightarrow>
        self (snd (invoke h c k w)) = self w) \<and>
     self (snd (invoke h IntlTarget PrepareSource w)) = self w \<and>
     self (snd (invoke h IntlTarget Detect w)) = self w \<and>
     self (snd (invoke h IntlTarget PostBuild w)) = self w \<and>
     self (snd (invoke h IntlTarget Configure w)) = (self w)\<lparr>src_root := ''gettext-runtime''\<rparr> \<and>
     self (snd (invoke h IntlTarget Build w))
       = (self w)\<lparr>src_root := src_root (self w) @ ''/intl''\<rparr>"
    by blast
qed

theorem hooks_keep_target_witness:
  "host_keeps_self sample_host \<and>
   (XdeltaTarget, Configure) \<notin> {(IntlTarget, Configure), (IntlTarget, Build)} \<and>
   self (snd (invoke sample_host XdeltaTarget Configure (sample_world XdeltaTarget)))
     = self (sample_world XdeltaTarget) \<and>
   self (snd (invoke sample_host IntlTarget Build (sample_world IntlTarget)))
     = (self (sample_world IntlTarget))\<lparr>src_root := src_root (self (sample_world IntlTarget)) @ ''/intl''\<rparr>"
proof -
  have n: "(XdeltaTarget, Configure) \<notin> {(IntlTarget, Configure), (IntlTarget, Build)}"
    by simp
  show ?thesis
    using host_keeps_self_sample n
      hooks_keep_target [of sample_host XdeltaTarget Configure "sample_world XdeltaTarget"]
      hooks_keep_target [of sample_host IntlTarget Build "sample_world IntlTarget"]
    by blast
qed
section \<open>Failures are propagated\<close>


lemma XdeltaTarget_configure_after_autoreconf:
  assumes a: "ext h (BaseHook MakeTarget Configure) w = (Inr (), w1)"
    and b: "process h [''autoreconf'', ''--install'']
              (joinpath (build_path w1) (src_root (self w1))) w1 = (Inr rc, w2)"
  shows "XdeltaTarget_configure h w =
     (if rc \<noteq> 0
      then (Inl (CalledProcessError rc [''autoreconf'', ''--install'']),
            w2\<lparr>trace := trace w1 @
               [(SubprocessRun [''autoreconf'', ''--install'']
                   (joinpath (build_path w1) (src_root (self w1))),
                 Some (CalledProcessError rc [''autoreconf'', ''--install'']))]\<rparr>)
      else ext h (BaseHook ConfigureMakeDependencyTarget Configure)
            (w2\<lparr>trace := trace w1 @
               [(SubprocessRun [''autoreconf'', ''--install'']
                   (joinpath (build_path w1) (src_root (self w1))), None)]\<rparr>))"
  unfolding XdeltaTarget_configure_def
  by (simp add: a b with_state_def subprocess_run_def Let_def split: prod.splits sum.splits)

lemma ext_trace: "trace (snd (ext h c w)) = trace w @ [(c, outcome (fst (ext h c w)))]"
  by (simp add: ext_def outcome_def split: prod.splits option.splits)

text \<open>
  C7. No hook catches or changes a failure. For every target and hook, in every world
  and under every host: when the hook returns, no external call it made has raised; when
  it raises \<open>e\<close>, either no external call has raised (the exception is the recipe's own
  \<open>KeyError\<close> or \<open>TypeError\<close>), or the last call it made is the only one that raised,
  and it raised \<open>e\<close>. In \<open>XdeltaTarget.configure\<close>, once \<open>MakeTarget.configure\<close>
  has returned and \<open>autoreconf\<close> has run and exited with status \<open>rc\<close>, the hook ends at
  that call with \<open>CalledProcessError\<close>, the configure script not run, exactly when
  \<open>rc\<close> is not 0; with status 0 it goes on to the base class's \<open>configure\<close>.
\<close>

theorem hooks_propagate_failures:
  "traces faithful (invoke h c k) \<and>
   (ext h (BaseHook MakeTarget Configure) w = (Inr (), w1) \<and>
    process h [''autoreconf'', ''--install'']
      (joinpath (build_path w1) (src_root (self w1))) w1 = (Inr rc, w2) \<longrightarrow>
      ((rc \<noteq> 0) =
         (XdeltaTarget_configure h w =
            (Inl (CalledProcessError rc [''autoreconf'', ''--install'']),
             w2\<lparr>trace := trace w1 @
                [(SubprocessRun [''autoreconf'', ''--install'']
                    (joinpath (build_path w1) (src_root (self w1))),
                  Some (CalledProcessError rc [''autoreconf'', ''--install'']))]\<rparr>))) \<and>
      (rc = 0 \<longrightarrow>
         XdeltaTarget_configure h w =
           ext h (BaseHook ConfigureMakeDependencyTarget Configure)
             (w2\<lparr>trace := trace w1 @
                [(SubprocessRun [''autoreconf'', ''--install'']
                    (joinpath (build_path w1) (src_root (self w1))), None)]\<rparr>)))"
proof (intro conjI impI)
  show "traces faithful (invoke h c k)" by (rule faithful_hooks)
next
  assume ab: "ext h (BaseHook MakeTarget Configure) w = (Inr (), w1) \<and>
    process h [''autoreconf'', ''--install'']
      (joinpath (build_path w1) (src_root (self w1))) w1 = (Inr rc, w2)"
  note eq = XdeltaTarget_configure_after_autoreconf [OF conjunct1 [OF ab] conjunct2 [OF ab]]
  show "(rc \<noteq> 0) =
         (XdeltaTarget_configure h w =
            (Inl (CalledProcessError rc [''autoreconf'', ''--install'']),
             w2\<lparr>trace := trace w1 @
                [(SubprocessRun [''autoreconf'', ''--install'']
                    (joinpath (build_path w1) (src_root (self w1))),
                  Some (CalledProcessError rc [''autoreconf'', ''--install'']))]\<rparr>))"
  proof (cases "rc = 0")
    case False
    then show ?thesis by (simp add: eq)
  next
    case True
    let ?w = "w2\<lparr>trace := trace w1 @
                [(SubprocessRun [''autoreconf'', ''--install'']
                    (joinpath (build_path w1) (src_root (self w1))), None)]\<rparr>"
    let ?c = "BaseHook ConfigureMakeDependencyTarget Configure"
    have "length (trace (snd (ext h ?c ?w))) = length (trace w1) + 2"
      by (simp add: ext_trace)
    then have "ext h ?c ?w \<noteq>
            (Inl (CalledProcessError rc [''autoreconf'', ''--install'']),
             w2\<lparr>trace := trace w1 @
                [(SubprocessRun [''autoreconf'', ''--install'']
                    (joinpath (build_path w1) (src_root (self w1))),
                  Some (CalledProcessError rc [''autoreconf'', ''--install'']))]\<rparr>)"
      by auto
    then show ?thesis using True by (simp add: eq)
  qed
next
  assume ab: "ext h (BaseHook MakeTarget Configure) w = (Inr (), w1) \<and>
    process h [''autoreconf'', ''--install'']
      (joinpath (build_path w1) (src_root (self w1))) w1 = (Inr rc, w2)"
    and "rc = 0"
  then show "XdeltaTarget_configure h w =
           ext h (BaseHook ConfigureMakeDependencyTarget Configure)
             (w2\<lparr>trace := trace w1 @
                [(SubprocessRun [''autoreconf'', ''--install'']
                    (joinpath (build_path w1) (src_root (self w1))), None)]\<rparr>)"
    using XdeltaTarget_configure_after_autoreconf [OF conjunct1 [OF ab] conjunct2 [OF ab]]
    by simp
qed

lemma sample_world_work_path:
  "joinpath (build_path ((sample_world XdeltaTarget)\<lparr>has_source_file := f, trace := t\<rparr>))
            (src_root (self ((sample_world XdeltaTarget)\<lparr>has_source_file := f, trace := t\<rparr>)))
     = ''/build/xdelta3''"
  by (simp add: sample_world_def sample_host_def construct_def joinpath_def format_path_def
      path_anchor_def path_parts_def)

lemma sample_first_step:
  "ext sample_host (BaseHook MakeTarget Configure)
       ((sample_world XdeltaTarget)\<lparr>has_source_file := f, trace := []\<rparr>)
     = (Inr (), (sample_world XdeltaTarget)
                  \<lparr>has_source_file := f, trace := [(BaseHook MakeTarget Configure, None)]\<rparr>)"
  by (simp add: ext_def sample_host_def sample_world_def)

lemma sample_autoreconf:
  "process sample_host [''autoreconf'', ''--install''] ''/build/xdelta3''
       ((sample_world XdeltaTarget)\<lparr>has_source_file := f, trace := t\<rparr>)
     = (Inr (if f ''xdelta3/configure.ac'' then 0 else 1),
        (sample_world XdeltaTarget)\<lparr>has_source_file := f, trace := t\<rparr>)"
  by (simp add: sample_host_def sample_world_def)

theorem hooks_propagate_failures_witness:
  "XdeltaTarget_configure sample_host
       ((sample_world XdeltaTarget)\<lparr>has_source_file := (\<lambda>f. False), trace := []\<rparr>)
     = (Inl (CalledProcessError 1 [''autoreconf'', ''--install'']),
        (sample_world XdeltaTarget)\<lparr>has_source_file := (\<lambda>f. False), trace :=
           [(BaseHook MakeTarget Configure, None),
            (SubprocessRun [''autoreconf'', ''--install''] ''/build/xdelta3'',
             Some (CalledProcessError 1 [''autoreconf'', ''--install'']))]\<rparr>) \<and>
   XdeltaTarget_configure sample_host
       ((sample_world XdeltaTarget)\<lparr>has_source_file := (\<lambda>f. True), trace := []\<rparr>)
     = (Inr (),
        (sample_world XdeltaTarget)\<lparr>has_source_file := (\<lambda>f. True), trace :=
           [(BaseHook MakeTarget Configure, None),
            (SubprocessRun [''autoreconf'', ''--install''] ''/build/xdelta3'', None),
            (BaseHook ConfigureMakeDependencyTarget Configure, None)]\<rparr>)"
proof -
  have one: "(1::int) \<noteq> 0" by simp
  have fails: "XdeltaTarget_configure sample_host
       ((sample_world XdeltaTarget)\<lparr>has_source_file := (\<lambda>f. False), trace := []\<rparr>)
     = (Inl (CalledProcessError 1 [''autoreconf'', ''--install'']),
        (sample_world XdeltaTarget)\<lparr>has_source_file := (\<lambda>f. False), trace :=
           [(BaseHook MakeTarget Configure, None),
            (SubprocessRun [''autoreconf'', ''--install''] ''/build/xdelta3'',
             Some (CalledProcessError 1 [''autoreconf'', ''--install'']))]\<rparr>)"
    using one sample_first_step [where f = "\<lambda>f. False"]
      sample_autoreconf [where f = "\<lambda>f. False" and t = "[(BaseHook MakeTarget Configure, None)]"]
      hooks_propagate_failures [of sample_host XdeltaTarget Configure
        "(sample_world XdeltaTarget)\<lparr>has_source_file := (\<lambda>f. False), trace := []\<rparr>"
        "(sample_world XdeltaTarget)
           \<lparr>has_source_file := (\<lambda>f. False), trace := [(BaseHook MakeTarget Configure, None)]\<rparr>"
        1
        "(sample_world XdeltaTarget)
           \<lparr>has_source_file := (\<lambda>f. False), trace := [(BaseHook MakeTarget Configure, None)]\<rparr>"]
    unfolding sample_world_work_path by simp
  have runs: "XdeltaTarget_configure sample_host
       ((sample_world XdeltaTarget)\<lparr>has_source_file := (\<lambda>f. True), trace := []\<rparr>)
     = ext sample_host (BaseHook ConfigureMakeDependencyTarget Configure)
        ((sample_world XdeltaTarget)\<lparr>has_source_file := (\<lambda>f. True), trace :=
           [(BaseHook MakeTarget Configure, None),
            (SubprocessRun [''autoreconf'', ''--install''] ''/build/xdelta3'', None)]\<rparr>)"
    using sample_first_step [where f = "\<lambda>f. True"]
      sample_autoreconf [where f = "\<lambda>f. True" and t = "[(BaseHook MakeTarget Configure, None)]"]
      hooks_propagate_failures [of sample_host XdeltaTarget Configure
        "(sample_world XdeltaTarget)\<lparr>has_source_file := (\<lambda>f. True), trace := []\<rparr>"
        "(sample_world XdeltaTarget)
           \<lparr>has_source_file := (\<lambda>f. True), trace := [(BaseHook MakeTarget Configure, None)]\<rparr>"
        0
        "(sample_world XdeltaTarget)
           \<lparr>has_source_file := (\<lambda>f. True), trace := [(BaseHook MakeTarget Configure, None)]\<rparr>"]
    unfolding sample_world_work_path by simp
  show ?thesis
    unfolding fails runs by (simp add: ext_def sample_host_def sample_world_def)
qed

section \<open>The names that \<open>BrotliTarget.post_build\<close> gives to the archives\<close>

lemma BrotliTarget_post_build_sample:
  "BrotliTarget_post_build sample_host (sample_world BrotliTarget)
     = (Inr (), (sample_world BrotliTarget)\<lparr>
          files := [''/opt/lib/libbrotlidec.a''],
          trace := [(BaseHook CMakeStaticDependencyTarget PostBuild, None),
                    (OsUnlink ''/opt/lib/libbrotlidec.dylib'', None),
                    (OsRename ''/opt/lib/libbrotlidec-static.a'' ''/opt/lib/libbrotlidec.a'', None)]\<rparr>)"
  by (simp add: BrotliTarget_post_build_def sample_host_def sample_world_def ext_def
      with_state_def for_each_def joinpath_def format_path_def path_anchor_def path_parts_def
      archive_suffix_def no_suffix_name_def
      suffix_to_prefix Let_def str_replace.simps)

lemma stmts_Cons_success:
  "fst (stmts (s # ss) w) = Inr () \<Longrightarrow>
   fst (s w) = Inr () \<and> stmts (s # ss) w = stmts ss (snd (s w))"
  by (auto split: prod.splits sum.splits)

lemma ext_success_trace:
  "fst (ext h c w) = Inr () \<Longrightarrow> trace (snd (ext h c w)) = trace w @ [(c, None)]"
  by (auto simp: ext_def split: prod.splits option.splits)

lemma for_each_ext_success:
  "fst (for_each xs (\<lambda>x. ext h (f x)) w) = Inr () \<Longrightarrow>
   trace (snd (for_each xs (\<lambda>x. ext h (f x)) w)) = trace w @ map (\<lambda>x. (f x, None)) xs"
proof (induction xs arbitrary: w)
  case Nil
  then show ?case by (simp add: for_each_def)
next
  case (Cons x xs)
  from Cons.prems have ok: "fst (stmts (ext h (f x) # map (\<lambda>x. ext h (f x)) xs) w) = Inr ()"
    by (simp add: for_each_def del: stmts.simps)
  note d = stmts_Cons_success [OF ok]
  have first: "trace (snd (ext h (f x) w)) = trace w @ [(f x, None)]"
    using d by (simp add: ext_success_trace)
  have rest: "fst (for_each xs (\<lambda>x. ext h (f x)) (snd (ext h (f x) w))) = Inr ()"
    using ok d by (simp add: for_each_def del: stmts.simps)
  have "for_each (x # xs) (\<lambda>x. ext h (f x)) w
          = for_each xs (\<lambda>x. ext h (f x)) (snd (ext h (f x) w))"
    using d by (simp add: for_each_def del: stmts.simps)
  then show ?case using Cons.IH [OF rest] first by simp
qed

lemma BrotliTarget_post_build_success:
  assumes ok: "fst (BrotliTarget_post_build h w) = Inr ()"
  shows "let w1 = snd (ext h (BaseHook CMakeStaticDependencyTarget PostBuild) w);
             dylibs = glob_result h (joinpath (install_path w1) ''lib/*.dylib'') w1;
             w2 = snd (for_each dylibs (\<lambda>dylib. ext h (OsUnlink dylib)) w1);
             archives = glob_result h (joinpath (install_path w2) ''lib/*-static.a'') w2
         in trace (snd (BrotliTarget_post_build h w)) =
              trace w @ [(BaseHook CMakeStaticDependencyTarget PostBuild, None)]
                @ map (\<lambda>dylib. (OsUnlink dylib, None)) dylibs
                @ map (\<lambda>archive. (OsRename archive (no_suffix_name archive), None)) archives"
proof -
  define A where "A = ext h (BaseHook CMakeStaticDependencyTarget PostBuild)"
  define B where "B = with_state (\<lambda>state.
       let dylib_pattern = joinpath (install_path state) ''lib/*.dylib''
       in for_each (glob_result h dylib_pattern state) (\<lambda>dylib. ext h (OsUnlink dylib)))"
  define C where "C = with_state (\<lambda>state.
       let archive_pattern = joinpath (install_path state) (''lib/*'' @ archive_suffix)
       in for_each (glob_result h archive_pattern state)
            (\<lambda>archive. ext h (OsRename archive (no_suffix_name archive))))"
  have pb: "BrotliTarget_post_build h = stmts [A, B, C]"
    by (simp add: BrotliTarget_post_build_def A_def B_def C_def)
  define w1 where "w1 = snd (A w)"
  define dylibs where "dylibs = glob_result h (joinpath (install_path w1) ''lib/*.dylib'') w1"
  define w2 where "w2 = snd (for_each dylibs (\<lambda>dylib. ext h (OsUnlink dylib)) w1)"
  define archives where "archives = glob_result h (joinpath (install_path w2) ''lib/*-static.a'') w2"
  have Bw: "B v = for_each (glob_result h (joinpath (install_path v) ''lib/*.dylib'') v)
                    (\<lambda>dylib. ext h (OsUnlink dylib)) v" for v
    by (simp add: B_def with_state_def)
  have Cw: "C v = for_each (glob_result h (joinpath (install_path v) ''lib/*-static.a'') v)
                    (\<lambda>archive. ext h (OsRename archive (no_suffix_name archive))) v" for v
    by (simp add: C_def with_state_def archive_suffix_def)
  from ok have ok1: "fst (stmts [A, B, C] w) = Inr ()" by (simp only: pb)
  note d1 = stmts_Cons_success [OF ok1]
  have ok2: "fst (stmts [B, C] w1) = Inr ()" using ok1 d1 by (simp only: w1_def)
  note d2 = stmts_Cons_success [OF ok2]
  have Bw1: "B w1 = for_each dylibs (\<lambda>dylib. ext h (OsUnlink dylib)) w1"
    by (simp only: Bw dylibs_def)
  have w2_eq: "snd (B w1) = w2" by (simp only: Bw1 w2_def)
  have ok3: "fst (stmts [C] w2) = Inr ()" using ok2 d2 by (simp only: w2_eq)
  note d3 = stmts_Cons_success [OF ok3]
  have Cw2: "C w2 = for_each archives (\<lambda>archive. ext h (OsRename archive (no_suffix_name archive))) w2"
    by (simp only: Cw archives_def)
  have e1: "stmts [A, B, C] w = stmts [B, C] w1" using d1 by (simp only: w1_def)
  have e2: "stmts [B, C] w1 = stmts [C] w2" using d2 by (simp only: w2_eq)
  have e3: "stmts [C] w2 = stmts [] (snd (C w2))" using d3 by (rule conjunct2)
  have final: "BrotliTarget_post_build h w = stmts [] (snd (C w2))"
    by (simp only: pb e1 e2 e3)
  have t1: "trace w1 = trace w @ [(BaseHook CMakeStaticDependencyTarget PostBuild, None)]"
    using d1 unfolding w1_def A_def by (simp add: ext_success_trace)
  have t2: "trace w2 = trace w1 @ map (\<lambda>dylib. (OsUnlink dylib, None)) dylibs"
    using d2 unfolding w2_def Bw1 by (simp add: for_each_ext_success)
  have t3: "trace (snd (C w2)) = trace w2
              @ map (\<lambda>archive. (OsRename archive (no_suffix_name archive), None)) archives"
    using d3 unfolding Cw2 by (simp add: for_each_ext_success)
  have "trace (snd (BrotliTarget_post_build h w)) =
              trace w @ [(BaseHook CMakeStaticDependencyTarget PostBuild, None)]
                @ map (\<lambda>dylib. (OsUnlink dylib, None)) dylibs
                @ map (\<lambda>archive. (OsRename archive (no_suffix_name archive), None)) archives"
    by (simp add: final t1 t2 t3)
  then show ?thesis
    unfolding Let_def archives_def w2_def dylibs_def w1_def A_def .
qed


text \<open>
  C10. In \<open>BrotliTarget.post_build\<close> the new name of each matched archive is its path
  with every occurrence of \<open>-static.a\<close> replaced by \<open>.a\<close>, not only the trailing
  one. When the hook returns, the calls it made are the base class's \<open>post_build\<close>,
  one \<open>os.unlink\<close> for each path that \<open>glob\<close> listed for \<open>lib/*.dylib\<close>, and
  one \<open>os.rename\<close> for each path \<open>glob\<close> listed for \<open>lib/*-static.a\<close>, in that
  order, each archive renamed to the name \<open>str.replace\<close> computes from its whole
  path; when it raises, every rename made before has that form too. Each occurrence
  shortens the path by 7 characters. For a path that ends with \<open>-static.a\<close>, the new
  name is the path with its suffix replaced exactly when \<open>-static.a\<close> occurs once in
  the path.
\<close>

theorem BrotliTarget_archive_names:
  "(fst (BrotliTarget_post_build h w) = Inr () \<longrightarrow>
      (let w1 = snd (ext h (BaseHook CMakeStaticDependencyTarget PostBuild) w);
           dylibs = glob_result h (joinpath (install_path w1) ''lib/*.dylib'') w1;
           w2 = snd (for_each dylibs (\<lambda>dylib. ext h (OsUnlink dylib)) w1);
           archives = glob_result h (joinpath (install_path w2) ''lib/*-static.a'') w2
       in trace (snd (BrotliTarget_post_build h w)) =
            trace w @ [(BaseHook CMakeStaticDependencyTarget PostBuild, None)]
              @ map (\<lambda>dylib. (OsUnlink dylib, None)) dylibs
              @ map (\<lambda>archive. (OsRename archive (no_suffix_name archive), None)) archives)) \<and>
   traces renames_by_replace (BrotliTarget_post_build h) \<and>
   no_suffix_name a = str_replace ''-static.a'' ''.a'' a \<and>
   length (no_suffix_name a) + 7 * occurrences archive_suffix a = length a \<and>
   (suffix archive_suffix a \<longrightarrow>
      (no_suffix_name a = take (length a - length archive_suffix) a @ ''.a'')
        = (occurrences archive_suffix a = 1))"
proof (intro conjI impI)
  assume "fst (BrotliTarget_post_build h w) = Inr ()"
  then show "let w1 = snd (ext h (BaseHook CMakeStaticDependencyTarget PostBuild) w);
           dylibs = glob_result h (joinpath (install_path w1) ''lib/*.dylib'') w1;
           w2 = snd (for_each dylibs (\<lambda>dylib. ext h (OsUnlink dylib)) w1);
           archives = glob_result h (joinpath (install_path w2) ''lib/*-static.a'') w2
       in trace (snd (BrotliTarget_post_build h w)) =
            trace w @ [(BaseHook CMakeStaticDependencyTarget PostBuild, None)]
              @ map (\<lambda>dylib. (OsUnlink dylib, None)) dylibs
              @ map (\<lambda>archive. (OsRename archive (no_suffix_name archive), None)) archives"
    by (rule BrotliTarget_post_build_success)
next
  show "traces renames_by_replace (BrotliTarget_post_build h)"
    by (rule BrotliTarget_post_build_renames)
  show "no_suffix_name a = str_replace ''-static.a'' ''.a'' a"
    by (simp add: no_suffix_name_def archive_suffix_def)
  show "length (no_suffix_name a) + 7 * occurrences archive_suffix a = length a"
    by (rule no_suffix_name_length)
next
  assume "suffix archive_suffix a"
  then show "(no_suffix_name a = take (length a - length archive_suffix) a @ ''.a'')
        = (occurrences archive_suffix a = 1)"
    by (rule suffix_replacement_iff)
qed

theorem BrotliTarget_archive_names_witness:
  "fst (BrotliTarget_post_build sample_host (sample_world BrotliTarget)) = Inr () \<and>
   trace (snd (BrotliTarget_post_build sample_host (sample_world BrotliTarget))) =
     [(BaseHook CMakeStaticDependencyTarget PostBuild, None),
      (OsUnlink ''/opt/lib/libbrotlidec.dylib'', None),
      (OsRename ''/opt/lib/libbrotlidec-static.a'' ''/opt/lib/libbrotlidec.a'', None)] \<and>
   suffix archive_suffix ''/opt-static.a/lib/libbrotlidec-static.a'' \<and>
   occurrences archive_suffix ''/opt-static.a/lib/libbrotlidec-static.a'' = 2 \<and>
   no_suffix_name ''/opt-static.a/lib/libbrotlidec-static.a'' = ''/opt.a/lib/libbrotlidec.a'' \<and>
   no_suffix_name ''/opt-static.a/lib/libbrotlidec-static.a''
     \<noteq> take (length ''/opt-static.a/lib/libbrotlidec-static.a'' - length archive_suffix)
         ''/opt-static.a/lib/libbrotlidec-static.a'' @ ''.a''"
proof -
  note inst = BrotliTarget_archive_names [of sample_host "sample_world BrotliTarget"
      "''/opt-static.a/lib/libbrotlidec-static.a''"]
  have ok: "fst (BrotliTarget_post_build sample_host (sample_world BrotliTarget)) = Inr ()"
    by (simp add: BrotliTarget_post_build_sample)
  have tr: "trace (snd (BrotliTarget_post_build sample_host (sample_world BrotliTarget))) =
     [(BaseHook CMakeStaticDependencyTarget PostBuild, None),
      (OsUnlink ''/opt/lib/libbrotlidec.dylib'', None),
      (OsRename ''/opt/lib/libbrotlidec-static.a'' ''/opt/lib/libbrotlidec.a'', None)]"
    using ok inst
    by (simp add: Let_def ext_def sample_host_def sample_world_def for_each_def joinpath_def
        format_path_def path_anchor_def path_parts_def suffix_to_prefix no_suffix_name_def
        archive_suffix_def str_replace.simps del: occurrences.simps)
  have s: "suffix archive_suffix ''/opt-static.a/lib/libbrotlidec-static.a''"
    by (simp add: archive_suffix_def suffix_to_prefix)
  have n: "occurrences archive_suffix ''/opt-static.a/lib/libbrotlidec-static.a'' = 2"
    by (simp add: archive_suffix_def)
  have r: "no_suffix_name ''/opt-static.a/lib/libbrotlidec-static.a'' = ''/opt.a/lib/libbrotlidec.a''"
    by (simp add: no_suffix_name_def archive_suffix_def str_replace.simps)
  have "(no_suffix_name ''/opt-static.a/lib/libbrotlidec-static.a''
           = take (length ''/opt-static.a/lib/libbrotlidec-static.a'' - length archive_suffix)
               ''/opt-static.a/lib/libbrotlidec-static.a'' @ ''.a'')
        = (occurrences archive_suffix ''/opt-static.a/lib/libbrotlidec-static.a'' = 1)"
    using s inst by blast
  then have d: "no_suffix_name ''/opt-static.a/lib/libbrotlidec-static.a''
     \<noteq> take (length ''/opt-static.a/lib/libbrotlidec-static.a'' - length archive_suffix)
         ''/opt-static.a/lib/libbrotlidec-static.a'' @ ''.a''"
    unfolding n by (simp del: occurrences.simps)
  from ok tr s n r d show ?thesis by blast
qed

section \<open>The recording embedding agrees with the first one\<close>

lemmas method_hook_defs =
  BrotliTarget_prepare_source_m_def BrotliTarget_post_build_m_def
  Bzip2Target_prepare_source_m_def Bzip2Target_detect_m_def Bzip2Target_configure_m_def
  Bzip2Target_post_build_m_def ExpatTarget_prepare_source_m_def ExpatTarget_configure_m_def
  FfiTarget_prepare_source_m_def FfiTarget_detect_m_def FfiTarget_post_build_m_def
  FreeImageTarget_prepare_source_m_def FreeImageTarget_detect_m_def
  FreeImageTarget_configure_m_def FreeImageTarget_post_build_m_def
  GettextTarget_prepare_source_m_def GettextTarget_detect_m_def GettextTarget_configure_m_def
  HighwayTarget_prepare_source_m_def HighwayTarget_configure_m_def
  IconvTarget_prepare_source_m_def IconvTarget_detect_m_def IconvTarget_configure_m_def
  IntlTarget_configure_m_def IntlTarget_build_m_def IntlTarget_post_build_m_def
  JpegTurboTarget_prepare_source_m_def JpegTurboTarget_configure_m_def
  TiffTarget_prepare_source_m_def TiffTarget_configure_m_def WxWidgetsTarget_prepare_source_m_def
  WxWidgetsTarget_configure_m_def WxWidgetsTarget_post_build_m_def
  AutoconfTarget_prepare_source_m_def AutomakeTarget_prepare_source_m_def
  Bzip3Target_prepare_source_m_def Bzip3Target_configure_m_def FFmpegTarget_prepare_source_m_def
  FFmpegTarget_detect_m_def FFmpegTarget_configure_m_def LuaTarget_prepare_source_m_def
  LuaTarget_detect_m_def LuaTarget_post_build_m_def M4Target_prepare_source_m_def
  P7ZipTarget_prepare_source_m_def P7ZipTarget_detect_m_def P7ZipTarget_post_build_m_def
  PbzxTarget_prepare_source_m_def PbzxTarget_detect_m_def Radare2Target_prepare_source_m_def
  Radare2Target_detect_m_def Radare2Target_configure_m_def Radare2Target_post_build_m_def
  RizinTarget_prepare_source_m_def RizinTarget_detect_m_def RizinTarget_configure_m_def
  SevenZipTarget_prepare_source_m_def SevenZipTarget_detect_m_def SevenZipTarget_build_m_def
  SevenZipTarget_post_build_m_def UnrarTarget_prepare_source_m_def UnrarTarget_configure_m_def
  UnrarTarget_post_build_m_def UnrarTarget_detect_m_def XdeltaTarget_prepare_source_m_def
  XdeltaTarget_detect_m_def XdeltaTarget_configure_m_def XzTarget_prepare_source_m_def
  XzTarget_configure_m_def ZipTarget_prepare_source_m_def ZipTarget_detect_m_def

lemmas method_prim_defs =
  ret_m_def ext_m_def subprocess_run_m_def inherited_detect_m_def setitem_options_m_def
  iadd_options_m_def getitem_environment_m_def iadd_environment_m_def set_src_root_m_def
  set_build_path_m_def

lemma sim_lift: "sim (lift m) m"
  by (simp add: sim_def lift_def split: prod.splits)

lemma sim_method: "sim body m \<Longrightarrow> sim (in_method c k body) m"
  by (simp add: sim_def in_method_def)

lemma sim_bind:
  assumes m: "sim mm m" and f: "\<And>x. sim (ff x) (f x)"
  shows "sim (bind_m mm ff) (bind_io m f)"
  unfolding sim_def
proof (intro allI)
  fix w l
  obtain r wl' where mm: "mm (w, l) = (r, wl')" by (cases "mm (w, l)")
  from m have "fst (mm (w, l)) = fst (m w) \<and> fst (snd (mm (w, l))) = snd (m w)"
    by (simp add: sim_def)
  with mm have r: "r = fst (m w)" and w': "fst wl' = snd (m w)"
    by simp_all
  obtain w' l' where wl': "wl' = (w', l')" by (cases wl')
  show "fst (bind_m mm ff (w, l)) = fst (bind_io m f w) \<and>
        fst (snd (bind_m mm ff (w, l))) = snd (bind_io m f w)"
  proof (cases "m w")
    case (Pair r0 w0)
    then have r0: "r = r0" and w0: "w' = w0" using r w' wl' by simp_all
    show ?thesis
    proof (cases r0)
      case (Inl e)
      then show ?thesis using mm Pair r0 w0 wl' by (simp add: bind_m_def bind_io_def)
    next
      case (Inr x)
      from f have "fst (ff x (w0, l')) = fst (f x w0) \<and> fst (snd (ff x (w0, l'))) = snd (f x w0)"
        by (simp add: sim_def)
      then show ?thesis using mm Pair r0 w0 wl' Inr by (simp add: bind_m_def bind_io_def)
    qed
  qed
qed

lemma stmts_m_Cons_bind: "stmts_m (s # ss) = bind_m s (\<lambda>u. stmts_m ss)"
  by (rule ext) (simp add: bind_m_def split: prod.splits sum.splits)

lemma sim_stmts_Nil: "sim (stmts_m []) (stmts [])"
  by (simp add: sim_def)

lemma sim_stmts_Cons:
  "sim s t \<Longrightarrow> sim (stmts_m ss) (stmts ts) \<Longrightarrow> sim (stmts_m (s # ss)) (stmts (t # ts))"
  unfolding stmts_m_Cons_bind stmts_Cons_bind by (rule sim_bind)

lemma sim_for_each:
  "(\<And>x. sim (f x) (g x)) \<Longrightarrow> sim (for_each_m xs f) (for_each xs g)"
  unfolding for_each_m_def for_each_def
  by (induction xs) (simp_all add: sim_stmts_Nil sim_stmts_Cons)

lemma sim_with_state:
  "(\<And>state. sim (f state) (g state)) \<Longrightarrow> sim (with_state_m f) (with_state g)"
  by (simp add: sim_def with_state_m_def with_state_def)

lemma sim_if: "sim a b \<Longrightarrow> sim a' b' \<Longrightarrow> sim (if c then a else a') (if c then b else b')"
  by simp

lemma sim_and: "sim a b \<Longrightarrow> sim a' b' \<Longrightarrow> sim (and_m a a') (and_io b b')"
  unfolding and_m_def and_io_def ret_m_def by (intro sim_bind sim_if sim_lift)

lemmas sim_intros =
  sim_lift sim_method sim_bind sim_stmts_Nil sim_stmts_Cons sim_for_each sim_with_state
  sim_if sim_and

lemma sim_invoke: "sim (invoke_m h c k) (invoke h c k)"
  by (cases c; cases k;
      simp add: method_hook_defs method_prim_defs library_hook_defs tool_hook_defs
        IntlTarget_configure_def IntlTarget_build_def Let_def;
      intro sim_intros)

section \<open>The methods a hook enters\<close>

lemma enters_lift: "enters S (lift m)"
  by (simp add: enters_def lift_def split: prod.splits)

lemma enters_method: "(c, k) \<in> S \<Longrightarrow> enters S body \<Longrightarrow> enters S (in_method c k body)"
  unfolding enters_def in_method_def
proof (intro allI)
  fix w l
  assume ck: "(c, k) \<in> S" and b: "\<forall>w l. \<exists>added. snd (snd (body (w, l))) = l @ added \<and> set added \<subseteq> S"
  then obtain added where "snd (snd (body (w, l @ [(c, k)]))) = (l @ [(c, k)]) @ added"
    and "set added \<subseteq> S" by blast
  then have "snd (snd (body (fst (w, l), snd (w, l) @ [(c, k)]))) = l @ ((c, k) # added) \<and>
             set ((c, k) # added) \<subseteq> S"
    using ck by simp
  then show "\<exists>added. snd (snd (body (fst (w, l), snd (w, l) @ [(c, k)]))) = l @ added \<and>
                     set added \<subseteq> S"
    by blast
qed

lemma enters_bind:
  assumes m: "enters S mm" and f: "\<And>x. enters S (ff x)"
  shows "enters S (bind_m mm ff)"
  unfolding enters_def
proof (intro allI)
  fix w l
  obtain r w' l' where mm: "mm (w, l) = (r, (w', l'))" by (cases "mm (w, l)") auto
  from m have "\<exists>added. snd (snd (mm (w, l))) = l @ added \<and> set added \<subseteq> S"
    by (simp add: enters_def)
  with mm obtain a1 where a1: "l' = l @ a1" "set a1 \<subseteq> S"
    by auto
  show "\<exists>added. snd (snd (bind_m mm ff (w, l))) = l @ added \<and> set added \<subseteq> S"
  proof (cases r)
    case (Inl e)
    then show ?thesis using mm a1 by (auto simp: bind_m_def)
  next
    case (Inr x)
    from f obtain a2 where a2: "snd (snd (ff x (w', l'))) = l' @ a2" "set a2 \<subseteq> S"
      unfolding enters_def by blast
    then have "snd (snd (bind_m mm ff (w, l))) = l @ (a1 @ a2) \<and> set (a1 @ a2) \<subseteq> S"
      using mm Inr a1 by (simp add: bind_m_def)
    then show ?thesis by blast
  qed
qed

lemma enters_stmts_Nil: "enters S (stmts_m [])"
  by (simp add: enters_def)

lemma enters_stmts_Cons:
  "enters S s \<Longrightarrow> enters S (stmts_m ss) \<Longrightarrow> enters S (stmts_m (s # ss))"
  unfolding stmts_m_Cons_bind by (rule enters_bind)

lemma enters_for_each: "(\<And>x. enters S (f x)) \<Longrightarrow> enters S (for_each_m xs f)"
  unfolding for_each_m_def
  by (induction xs) (simp_all add: enters_stmts_Nil enters_stmts_Cons)

lemma enters_with_state: "(\<And>state. enters S (f state)) \<Longrightarrow> enters S (with_state_m f)"
  by (simp add: enters_def with_state_m_def)

lemma enters_if: "enters S a \<Longrightarrow> enters S b \<Longrightarrow> enters S (if c then a else b)"
  by simp

lemma enters_and: "enters S a \<Longrightarrow> enters S b \<Longrightarrow> enters S (and_m a b)"
  unfolding and_m_def ret_m_def by (intro enters_bind enters_if enters_lift)

lemmas enters_intros =
  enters_lift enters_method enters_bind enters_stmts_Nil enters_stmts_Cons enters_for_each
  enters_with_state enters_if enters_and

lemma enters_invoke:
  "enters {(e, k'). e = c \<or> (c = IntlTarget \<and> e = GettextTarget)} (invoke_m h c k)"
  by (cases c; cases k;
      simp add: method_hook_defs method_prim_defs Let_def;
      intro enters_intros; simp)


lemma entered_method: "enters S body \<Longrightarrow> (c, k) \<in> set (entered (in_method c k body) w)"
proof -
  assume "enters S body"
  then obtain added where "snd (snd (body (w, [(c, k)]))) = [(c, k)] @ added"
    unfolding enters_def by blast
  then show ?thesis by (simp add: entered_def in_method_def)
qed

lemma entered_invoke:
  "(d, k') \<in> set (entered (invoke_m h c k) w) \<Longrightarrow> d = c \<or> (c = IntlTarget \<and> d = GettextTarget)"
proof -
  assume a: "(d, k') \<in> set (entered (invoke_m h c k) w)"
  have "enters {(e, k'). e = c \<or> (c = IntlTarget \<and> e = GettextTarget)} (invoke_m h c k)"
    by (rule enters_invoke)
  then obtain added where "snd (snd (invoke_m h c k (w, []))) = [] @ added"
    and "set added \<subseteq> {(e, k'). e = c \<or> (c = IntlTarget \<and> e = GettextTarget)}"
    unfolding enters_def by blast
  with a show ?thesis by (auto simp: entered_def)
qed

lemma IntlTarget_enters_GettextTarget:
  "(GettextTarget, Configure) \<in> set (entered (invoke_m h IntlTarget Configure) w)"
  unfolding entered_def
  by (simp add: IntlTarget_configure_m_def GettextTarget_configure_m_def in_method_def
      method_prim_defs lift_def setitem_options_def set_src_root_def ret_def bind_io_def
      with_state_def Let_def split: prod.splits sum.splits)

section \<open>Dependencies between the target classes\<close>

lemma invokes_other: "c \<noteq> d \<Longrightarrow> invokes c d = (c = IntlTarget \<and> d = GettextTarget)"
  unfolding invokes_def
  using entered_invoke IntlTarget_enters_GettextTarget by blast

lemma depends_on_iff: "depends_on c d = (c = IntlTarget \<and> d = GettextTarget)"
proof (cases "c = d")
  case True
  then show ?thesis by (auto simp: depends_on_def)
next
  case False
  then show ?thesis by (cases c) (auto simp: depends_on_def invokes_other)
qed

lemma closed_base_calls: "closed (base_calls_of c)"
  unfolding closed_def base_calls_of_def by simp

lemma admits_base_calls:
  "admits (base_calls_of c) cl =
     (case cl of BaseHook b k \<Rightarrow> derives_from c b \<or> (c = XdeltaTarget \<and> b = MakeTarget)
               | _ \<Rightarrow> True)"
  unfolding admits_def base_calls_of_def by (simp split: call.splits)

lemma base_calls_invoke: "traces (base_calls_of c) (invoke h c k)"
  by (cases c; cases k;
      simp add: library_hook_defs tool_hook_defs IntlTarget_configure_def IntlTarget_build_def Let_def;
      intro traces_intros closed_base_calls;
      simp add: admits_base_calls derives_from_def)

lemma init_base_of:
  "(case base_of c of
      Base b \<Rightarrow> name (init h c n) = name (base_init h b n)
    | Repo d \<Rightarrow> init h c n = init h d n)"
  by (cases c) (simp_all add: GettextTarget_init_def)


lemma log_unchanged: "enters {} m \<Longrightarrow> snd (snd (m wl)) = snd wl"
proof -
  assume "enters {} m"
  then obtain added where "snd (snd (m (fst wl, snd wl))) = snd wl @ added" and "set added \<subseteq> {}"
    unfolding enters_def by blast
  then show ?thesis by simp
qed

lemma log_method: "enters {} body \<Longrightarrow> snd (snd (in_method c k body wl)) = snd wl @ [(c, k)]"
  by (simp add: in_method_def log_unchanged)

lemma log_bind_ret: "snd (snd (bind_m m (\<lambda>x. ret_m y) wl)) = snd (snd (m wl))"
  by (simp add: bind_m_def ret_m_def lift_def ret_def split: prod.splits sum.splits)

lemma log_last_stmt:
  "snd (snd (case p of (Inl e, wl') \<Rightarrow> (Inl e, wl') | (Inr u, wl') \<Rightarrow> stmts_m [] wl')) =
   snd (snd p)"
  by (simp split: prod.splits sum.splits)

lemma GettextTarget_methods_log:
  "snd (snd (GettextTarget_prepare_source_m h wl)) = snd wl @ [(GettextTarget, PrepareSource)]"
  "snd (snd (GettextTarget_detect_m h wl)) = snd wl @ [(GettextTarget, Detect)]"
  "snd (snd (GettextTarget_configure_m h wl)) = snd wl @ [(GettextTarget, Configure)]"
  unfolding GettextTarget_prepare_source_m_def GettextTarget_detect_m_def
    GettextTarget_configure_m_def method_prim_defs
  by (rule log_method; intro enters_intros)+

lemma IntlTarget_methods_log:
  "snd (snd (IntlTarget_build_m h wl)) = snd wl @ [(IntlTarget, Build)]"
  "snd (snd (IntlTarget_post_build_m h wl)) = snd wl @ [(IntlTarget, PostBuild)]"
  unfolding IntlTarget_build_m_def IntlTarget_post_build_m_def method_prim_defs
  by (rule log_method; intro enters_intros)+

lemma IntlTarget_configure_log:
  "snd (snd (IntlTarget_configure_m h wl)) =
     snd wl @ [(IntlTarget, Configure), (GettextTarget, Configure)]"
  unfolding IntlTarget_configure_m_def in_method_def
  by (simp add: setitem_options_m_def set_src_root_m_def lift_def setitem_options_def
      set_src_root_def log_last_stmt GettextTarget_methods_log)

lemma IntlTarget_entered:
  "entered (invoke_m h IntlTarget PrepareSource) w = [(GettextTarget, PrepareSource)]"
  "entered (invoke_m h IntlTarget Detect) w = [(GettextTarget, Detect)]"
  "entered (invoke_m h IntlTarget Configure) w = [(IntlTarget, Configure), (GettextTarget, Configure)]"
  "entered (invoke_m h IntlTarget Build) w = [(IntlTarget, Build)]"
  "entered (invoke_m h IntlTarget PostBuild) w = [(IntlTarget, PostBuild)]"
  unfolding entered_def
  by (simp_all add: log_bind_ret GettextTarget_methods_log IntlTarget_methods_log
      IntlTarget_configure_log)

text \<open>
  C2, as stated, fails: \<open>IntlTarget\<close> is derived from \<open>GettextTarget\<close>, another class
  of this repository, and a run of \<open>IntlTarget.configure\<close> enters
  \<open>GettextTarget.configure\<close>.
\<close>

theorem IntlTarget_depends_on_GettextTarget:
  "IntlTarget \<noteq> GettextTarget \<and> base_of IntlTarget = Repo GettextTarget \<and>
   (GettextTarget, Configure)
     \<in> set (entered (invoke_m sample_host IntlTarget Configure) (sample_world IntlTarget)) \<and>
   invokes IntlTarget GettextTarget \<and>
   depends_on IntlTarget GettextTarget"
  using IntlTarget_enters_GettextTarget [of sample_host "sample_world IntlTarget"]
  by (simp add: depends_on_iff invokes_other)

text \<open>
  C2, amended. Among the target classes of this repository exactly one inherits from or
  invokes a method of another: \<open>IntlTarget\<close> is derived from \<open>GettextTarget\<close>, its
  constructor is \<open>GettextTarget\<close>'s, its \<open>prepare_source\<close> and \<open>detect\<close> are the
  methods of \<open>GettextTarget\<close>, and its \<open>configure\<close> calls \<open>GettextTarget.configure\<close>.
  For every other pair of distinct target classes neither inherits from nor invokes the
  other: a hook of a class enters methods of that class only, and the hooks of base
  classes that it calls are those of the host class the class is derived from, and for
  \<open>XdeltaTarget.configure\<close> that of \<open>MakeTarget\<close>. What a package needs from another
  one at build time, such as the tools that building xdelta runs, is no relation between
  the classes and is not covered.

  The recording embedding is tied to the first one: under every host, each hook of each
  class returns or raises the same and leaves the same world in both.
\<close>

theorem class_dependencies:
  "depends_on c d = (c = IntlTarget \<and> d = GettextTarget) \<and>
   (c \<noteq> d \<longrightarrow> invokes c d = (c = IntlTarget \<and> d = GettextTarget)) \<and>
   sim (invoke_m h c k) (invoke h c k) \<and>
   enters {(e, k'). e = c \<or> (c = IntlTarget \<and> e = GettextTarget)} (invoke_m h c k) \<and>
   traces (base_calls_of c) (invoke h c k) \<and>
   (case base_of c of
      Base b \<Rightarrow> name (init h c n) = name (base_init h b n)
    | Repo e \<Rightarrow> init h c n = init h e n) \<and>
   entered (invoke_m h IntlTarget PrepareSource) w = [(GettextTarget, PrepareSource)] \<and>
   entered (invoke_m h IntlTarget Detect) w = [(GettextTarget, Detect)] \<and>
   entered (invoke_m h IntlTarget Configure) w =
     [(IntlTarget, Configure), (GettextTarget, Configure)] \<and>
   entered (invoke_m h IntlTarget Build) w = [(IntlTarget, Build)] \<and>
   entered (invoke_m h IntlTarget PostBuild) w = [(IntlTarget, PostBuild)]"
proof -
  have "c \<noteq> d \<longrightarrow> invokes c d = (c = IntlTarget \<and> d = GettextTarget)"
    by (simp add: invokes_other)
  then show ?thesis
    by (intro conjI depends_on_iff sim_invoke enters_invoke base_calls_invoke init_base_of
        IntlTarget_entered)
qed

theorem class_dependencies_witness:
  "depends_on IntlTarget GettextTarget \<and>
   \<not> depends_on GettextTarget IntlTarget \<and>
   \<not> depends_on XdeltaTarget AutoconfTarget \<and>
   \<not> depends_on Bzip3Target Bzip2Target \<and>
   \<not> invokes Bzip3Target Bzip2Target \<and>
   entered (invoke_m sample_host IntlTarget Configure) (sample_world IntlTarget) =
     [(IntlTarget, Configure), (GettextTarget, Configure)] \<and>
   init sample_host IntlTarget ''intl'' = init sample_host GettextTarget ''intl'' \<and>
   traces (base_calls_of XdeltaTarget) (invoke sample_host XdeltaTarget Configure)"
  using class_dependencies [where c = IntlTarget and d = GettextTarget and h = sample_host
      and k = Configure and n = "''intl''" and w = "sample_world IntlTarget"]
    class_dependencies [where c = GettextTarget and d = IntlTarget and h = sample_host
      and k = Configure and n = "''gettext''" and w = "sample_world GettextTarget"]
    class_dependencies [where c = XdeltaTarget and d = AutoconfTarget and h = sample_host
      and k = Configure and n = "''xdelta''" and w = "sample_world XdeltaTarget"]
    class_dependencies [where c = Bzip3Target and d = Bzip2Target and h = sample_host
      and k = Configure and n = "''bzip3''" and w = "sample_world Bzip3Target"]
  by simp

section \<open>\<open>prepare_source\<close>\<close>

lemma checksums_ok:
  "is_sha256_hex ''f9e8d81d0405ba66d181529af42a3354f838c939095ff99930da6aa9cdf6fe46''"
  "is_sha256_hex ''ab5a03176ee106d3f0fa90e381da478ddae405918153cca248e682cd0c4a2269''"
  "is_sha256_hex ''cf032d0dba9b928636548e32b327a2d66b1aab63c4f4a13dd132c2d1d2f2fb6a''"
  "is_sha256_hex ''b0dea9df23c863a7a50e825440f3ebffabd65df1497108e5d437747843895a4e''"
  "is_sha256_hex ''f41379682f9ada94ea7b34fe86bf9ee00935a3147be41b6569c9605a53e438fd''"
  "is_sha256_hex ''d20fcbb537e02dcf1383197ba05bd0734ef7bf5db06bdb241eb69b7d16b73192''"
  "is_sha256_hex ''d89664a045a41d822146e787bceeefbf648cc228ce354f347b18f2b419e57207''"
  "is_sha256_hex ''8f74213b56238c85a50a5329f77e06198771e70dd9a739779f4c02f65d971313''"
  "is_sha256_hex ''9564c72b1dfd1d6fe6274c5f95a8d989b59854575d4bbee44ade7bc17aa9bc93''"
  "is_sha256_hex ''0e46e5acb087ce7d1ac53cf4f56a09b221537fc86dfc5daaad1c2e89e1b37ac8''"
  "is_sha256_hex ''d7b3666de33aa5c10ea41bb9405c40326e1aeb74ee725bb88f90f1d50270a224''"
  "is_sha256_hex ''ba885c1319578d6c94d46e9b0dceb4014caafe2490e437a0dbca3f270a223f5a''"
  "is_sha256_hex ''f01d58cd6d9d77fbdca9eb4bbd5ead1988228fdb73d6f7a201f5f8d6b118b469''"
  "is_sha256_hex ''53b844f9d9fb1d75faa4d3a9d9026017caaf50bb200b320d1685c6506b8f3b37''"
  "is_sha256_hex ''40973d44970dbc83ef302b0609f2e74982be2d85916dd2ee7472d30678a7abe6''"
  "is_sha256_hex ''4f18ddae154e793e46eeab727c59ef1c0c0c2b744e7b94219710d76f530629ae''"
  "is_sha256_hex ''63aede5c6d33b6d9b13511cd0be2cac046f2e70fd0a07aa9573a04a82783af96''"
  "is_sha256_hex ''ea029a2e21d2d6ad0a156f6679bd66836204aa78148a4c5e498fe682e77127ef''"
  "is_sha256_hex ''33db3cf9dc70ae704e1bbfba52c984f4c6dbfd0cc4449fa16408910e22b4fd90''"
  "is_sha256_hex ''de061db6089cc1321ba9062b8aa9a0adaaa7a4d25128aab37a2a44e71a939829''"
  "is_sha256_hex ''ef2b1e6525d7dc36ac43525b956749c1cca07bf17c1fed8b66402d82010a4ec2''"
  "is_sha256_hex ''49c05169f49572c1128453579af1632a952409ced028259381dac30726b6133a''"
  "is_sha256_hex ''a008b5f949bca9bb4ffa1bebbfc8b3c14b89df10a10354809b845232d5f582e5''"
  "is_sha256_hex ''7515cf5378fca287a57f4e2fee1094aabc79569cfe60d91e06021a8fd7bae29d''"
  "is_sha256_hex ''db0590629b6f0fa36e74aea5f9731dc6f8df068ce7b7bafa45301832a5eebc3a''"
  "is_sha256_hex ''f0e8bb1f9b7eb0b01285495a2699df3a4b766784c1765a8f1aeedf63c0806369''"
  by (simp_all add: is_sha256_hex_def)

text \<open>
  C4. For every target class of the repository (every class that \<open>targets()\<close> can
  instantiate), \<open>prepare_source\<close> is a single call of the host's \<open>download_source\<close>,
  with one URL, one checksum of 64 hexadecimal digits, and one patch set or none.
\<close>

theorem prepare_source_single_download:
  "\<exists>url checksum patches.
     prepare_source h c = ext h (DownloadSource url checksum patches) \<and>
     is_sha256_hex checksum"
  by (cases c; simp only: prepare_source.simps library_hook_defs tool_hook_defs;
      intro exI conjI; (rule refl | rule checksums_ok))

theorem prepare_source_single_download_witness:
  "\<exists>url checksum patches.
     prepare_source sample_host PbzxTarget = ext sample_host (DownloadSource url checksum patches) \<and>
     is_sha256_hex checksum"
  using prepare_source_single_download [of sample_host PbzxTarget] by simp

section \<open>\<open>targets()\<close>\<close>

text \<open>
  C5. \<open>targets()\<close> does not return: the thirteenth element of its tuple names
  \<open>OpusFileTarget\<close>, which neither \<open>library.py\<close> nor \<open>tool.py\<close> defines, and the
  call raises \<open>NameError\<close>.
\<close>

theorem targets_raises_NameError: "targets h = Inl (NameError ''OpusFileTarget'')"
  by (simp add: targets_def instantiate_def module_globals_def library_classes_def
      tool_classes_def)

section \<open>\<open>detect\<close>\<close>

lemma P7ZipTarget_detect_eq:
  "P7ZipTarget_detect h w =
     (Inr (has_source_file w ''CPP/7zip/CMAKE/CMakeLists.txt'' \<and>
           has_source_file w ''C/fast-lzma2/fast-lzma2.h''), w)"
  by (simp add: P7ZipTarget_detect_def and_io_def bind_io_def with_state_def ret_def)

lemma detect_one_file_all:
  "with_state (\<lambda>state. ret (has_source_file state f))
     = (\<lambda>w. (Inr (list_all (has_source_file w) [f]), w))"
  by (rule ext) (simp add: with_state_def ret_def)

lemma P7ZipTarget_detect_all:
  "P7ZipTarget_detect h
     = (\<lambda>w. (Inr (list_all (has_source_file w)
                      [''CPP/7zip/CMAKE/CMakeLists.txt'', ''C/fast-lzma2/fast-lzma2.h'']), w))"
  by (rule ext) (simp add: P7ZipTarget_detect_def and_io_def bind_io_def with_state_def ret_def)

lemma detect_by_markers:
  "marker_files c \<noteq> [] \<Longrightarrow>
   detect h c = (\<lambda>w. (Inr (list_all (has_source_file w) (marker_files c)), w))"
  by (cases c; simp only: detect.simps marker_files.simps library_hook_defs tool_hook_defs
        FreeImageTarget_HEADER_FILE_def detect_one_file_all;
      simp add: and_io_def bind_io_def ret_def fun_eq_iff)

lemma detect_inherited:
  "marker_files c = [] \<Longrightarrow> \<exists>b. base_of c = Base b \<and> (\<forall>h. detect h c = inherited_detect h b)"
  by (cases c) simp_all

text \<open>
  C6, as stated, does not hold of every target: eleven of the classes define no
  \<open>detect\<close>, and what theirs returns is the host base class's answer. Under a host
  whose base classes detect nothing, \<open>BrotliTarget.detect\<close> is false in a source tree
  that has every file, so its answer is not "all the files of some list are present".
\<close>

theorem BrotliTarget_detect_not_by_markers:
  "\<not> (\<exists>fs. \<forall>w. fst (detect bare_host BrotliTarget w) = Inr (list_all (has_source_file w) fs))"
proof
  assume "\<exists>fs. \<forall>w. fst (detect bare_host BrotliTarget w) = Inr (list_all (has_source_file w) fs)"
  then obtain fs where
    "fst (detect bare_host BrotliTarget full_tree) = Inr (list_all (has_source_file full_tree) fs)"
    by blast
  moreover have "list_all (has_source_file full_tree) fs"
    by (simp add: full_tree_def list_all_iff)
  moreover have "fst (detect bare_host BrotliTarget full_tree) = Inr False"
    by (simp add: inherited_detect_def bare_host_def)
  ultimately show False by simp
qed

text \<open>
  C6, amended. \<open>P7ZipTarget.detect\<close> returns true exactly when the source tree has both
  \<open>CPP/7zip/CMAKE/CMakeLists.txt\<close> and \<open>C/fast-lzma2/fast-lzma2.h\<close>, and
  \<open>Bzip2Target.detect\<close> exactly when it has \<open>bzlib.h\<close>. Every target whose
  \<open>detect\<close> is defined in the repository (\<open>IntlTarget\<close> has \<open>GettextTarget\<close>'s)
  returns true exactly when every file of its own fixed, non-empty list of marker files
  is present, under every host and in every state, and returns the state unchanged. The
  eleven other targets define no \<open>detect\<close>: theirs is the \<open>detect\<close> of the host base
  class they are derived from.
\<close>

theorem detect_marker_files:
  "(\<forall>h w. detect h P7ZipTarget w =
            (Inr (has_source_file w ''CPP/7zip/CMAKE/CMakeLists.txt'' \<and>
                  has_source_file w ''C/fast-lzma2/fast-lzma2.h''), w)) \<and>
   (\<forall>h w. detect h Bzip2Target w = (Inr (has_source_file w ''bzlib.h''), w)) \<and>
   (marker_files c \<noteq> [] \<longrightarrow>
      (\<forall>h w. detect h c w = (Inr (list_all (has_source_file w) (marker_files c)), w))) \<and>
   (marker_files c = [] \<longrightarrow>
      c \<in> {BrotliTarget, ExpatTarget, HighwayTarget, JpegTurboTarget, TiffTarget,
           WxWidgetsTarget, AutoconfTarget, AutomakeTarget, Bzip3Target, M4Target, XzTarget} \<and>
      (\<exists>b. base_of c = Base b \<and> (\<forall>h. detect h c = inherited_detect h b)))"
proof (intro conjI impI allI)
  fix h w
  show "detect h P7ZipTarget w =
     (Inr (has_source_file w ''CPP/7zip/CMAKE/CMakeLists.txt'' \<and>
           has_source_file w ''C/fast-lzma2/fast-lzma2.h''), w)"
    by (simp add: P7ZipTarget_detect_eq)
  show "detect h Bzip2Target w = (Inr (has_source_file w ''bzlib.h''), w)"
    by (simp add: Bzip2Target_detect_def with_state_def ret_def)
next
  fix h w
  assume "marker_files c \<noteq> []"
  then show "detect h c w = (Inr (list_all (has_source_file w) (marker_files c)), w)"
    by (simp add: detect_by_markers)
next
  assume "marker_files c = []"
  then show "c \<in> {BrotliTarget, ExpatTarget, HighwayTarget, JpegTurboTarget, TiffTarget,
           WxWidgetsTarget, AutoconfTarget, AutomakeTarget, Bzip3Target, M4Target, XzTarget}"
    by (cases c) simp_all
next
  assume "marker_files c = []"
  then show "\<exists>b. base_of c = Base b \<and> (\<forall>h. detect h c = inherited_detect h b)"
    by (rule detect_inherited)
qed

theorem detect_marker_files_witness:
  "detect sample_host P7ZipTarget (sample_world P7ZipTarget) = (Inr False, sample_world P7ZipTarget) \<and>
   detect sample_host Bzip2Target (sample_world Bzip2Target) = (Inr True, sample_world Bzip2Target) \<and>
   marker_files ZipTarget \<noteq> [] \<and>
   detect sample_host ZipTarget (sample_world ZipTarget) = (Inr False, sample_world ZipTarget) \<and>
   marker_files BrotliTarget = [] \<and>
   base_of BrotliTarget = Base CMakeStaticDependencyTarget \<and>
   detect sample_host BrotliTarget = inherited_detect sample_host CMakeStaticDependencyTarget"
proof -
  have a: "has_source_file (sample_world c) ''CPP/7zip/CMAKE/CMakeLists.txt''"
    and b: "\<not> has_source_file (sample_world c) ''C/fast-lzma2/fast-lzma2.h''"
    and d: "has_source_file (sample_world c) ''bzlib.h''"
    and e: "\<not> has_source_file (sample_world c) ''zip.h''" for c
    by (simp_all add: sample_world_def)
  have z: "marker_files ZipTarget \<noteq> []" and r: "marker_files BrotliTarget = []"
    by simp_all
  show ?thesis
    using z r detect_marker_files [of ZipTarget] detect_marker_files [of BrotliTarget]
    by (simp add: a b d e)
qed

section \<open>\<open>XzTarget.configure\<close>\<close>

lemma stmts_single: "stmts [s] w = s w"
  by (simp split: prod.splits sum.splits)

text \<open>
  C9. \<open>XzTarget.configure\<close> appends to the values that \<open>state.options\<close> already holds
  for \<open>BUILD_TESTING\<close> and \<open>CMAKE_EXE_LINKER_FLAGS\<close>. With \<open>BUILD_TESTING\<close> absent
  it raises \<open>KeyError\<close> and changes nothing; with \<open>BUILD_TESTING\<close> a string and
  \<open>CMAKE_EXE_LINKER_FLAGS\<close> absent it raises \<open>KeyError\<close> after the first append;
  with both strings it enters the base class's \<open>configure\<close> with \<open>NO\<close> and
  \<open>-framework CoreFoundation -liconv\<close> appended, each old value a prefix of the new
  one. A stored \<open>None\<close> or path in place of a string is a \<open>TypeError\<close>.
\<close>

theorem XzTarget_configure_appends:
  "(options w ''BUILD_TESTING'' = None \<longrightarrow>
      XzTarget_configure h w = (Inl (KeyError ''BUILD_TESTING''), w)) \<and>
   (options w ''BUILD_TESTING'' = Some (PStr a) \<and> options w ''CMAKE_EXE_LINKER_FLAGS'' = None \<longrightarrow>
      XzTarget_configure h w =
        (Inl (KeyError ''CMAKE_EXE_LINKER_FLAGS''),
         w\<lparr>options := (options w)(''BUILD_TESTING'' \<mapsto> PStr (a @ ''NO''))\<rparr>)) \<and>
   (options w ''BUILD_TESTING'' = Some (PStr a) \<and>
    options w ''CMAKE_EXE_LINKER_FLAGS'' = Some (PStr b) \<longrightarrow>
      XzTarget_configure h w =
        ext h (BaseHook CMakeStaticDependencyTarget Configure)
          (w\<lparr>options := (options w)
               (''BUILD_TESTING'' \<mapsto> PStr (a @ ''NO''),
                ''CMAKE_EXE_LINKER_FLAGS'' \<mapsto> PStr (b @ ''-framework CoreFoundation -liconv''))\<rparr>) \<and>
      prefix a (a @ ''NO'') \<and> prefix b (b @ ''-framework CoreFoundation -liconv'')) \<and>
   (options w ''BUILD_TESTING'' = Some PNone \<or> options w ''BUILD_TESTING'' = Some (PPath p) \<longrightarrow>
      XzTarget_configure h w = (Inl TypeError, w))"
  by (auto simp: XzTarget_configure_def iadd_options_def stmts_single
      simp del: stmts.simps(2) simp add: stmts.simps(2) [of "iadd_options k v" for k v])

theorem XzTarget_configure_appends_witness:
  "options (sample_world XzTarget) ''BUILD_TESTING'' = Some (PStr ''YES'') \<and>
   options (sample_world XzTarget) ''CMAKE_EXE_LINKER_FLAGS'' = Some (PStr ''-lintl '') \<and>
   XzTarget_configure sample_host (sample_world XzTarget) =
     (Inr (), (sample_world XzTarget)\<lparr>
        options := (options (sample_world XzTarget))
          (''BUILD_TESTING'' \<mapsto> PStr ''YESNO'',
           ''CMAKE_EXE_LINKER_FLAGS'' \<mapsto> PStr ''-lintl -framework CoreFoundation -liconv''),
        trace := [(BaseHook CMakeStaticDependencyTarget Configure, None)]\<rparr>) \<and>
   options ((sample_world XzTarget)\<lparr>options := Map.empty\<rparr>) ''BUILD_TESTING'' = None \<and>
   XzTarget_configure sample_host ((sample_world XzTarget)\<lparr>options := Map.empty\<rparr>) =
     (Inl (KeyError ''BUILD_TESTING''), (sample_world XzTarget)\<lparr>options := Map.empty\<rparr>)"
proof -
  have a: "options (sample_world XzTarget) ''BUILD_TESTING'' = Some (PStr ''YES'')"
    and b: "options (sample_world XzTarget) ''CMAKE_EXE_LINKER_FLAGS'' = Some (PStr ''-lintl '')"
    by (simp_all add: sample_world_def)
  have c: "options ((sample_world XzTarget)\<lparr>options := Map.empty\<rparr>) ''BUILD_TESTING'' = None"
    by simp
  have e: "ext sample_host (BaseHook CMakeStaticDependencyTarget Configure) v
             = (Inr (), v\<lparr>trace := trace v @ [(BaseHook CMakeStaticDependencyTarget Configure, None)]\<rparr>)"
    for v by (simp add: ext_def sample_host_def)
  have t: "trace (sample_world XzTarget) = []" by (simp add: sample_world_def)
  show ?thesis
    using a b c
      XzTarget_configure_appends [where w = "sample_world XzTarget" and a = "''YES''"
        and h = sample_host and b = "''-lintl ''"]
      XzTarget_configure_appends [where w = "(sample_world XzTarget)\<lparr>options := Map.empty\<rparr>"
        and h = sample_host]
    by (simp add: e t)
qed

end
